theory Spec2Isabelle
  imports Main "HOL-Library.Word" "HOL-Library.Finite_Map"
begin

section \<open>Terraform framework values and API client conventions\<close>

text \<open>
  A value of the Terraform plugin framework (\<^verbatim>\<open>types.String\<close>, \<^verbatim>\<open>types.Bool\<close>,
  \<^verbatim>\<open>types.Int64\<close>, \<^verbatim>\<open>types.List\<close>, \<^verbatim>\<open>types.Map\<close>) is null, unknown or known.
  \<^verbatim>\<open>ValueString\<close>, \<^verbatim>\<open>ValueBool\<close> and \<^verbatim>\<open>ValueInt64\<close> return the zero value of the
  Go type when the value is null or unknown; \<^verbatim>\<open>Equal\<close> compares the state and the value.
\<close>

datatype 'a tfval = TfNull | TfUnknown | TfValue 'a

type_synonym types_String = "string tfval"
type_synonym types_Bool = "bool tfval"
type_synonym types_Int64 = "64 word tfval"
type_synonym types_List = "string tfval list tfval"
type_synonym types_Map = "(string, string tfval) fmap tfval"

fun IsNull :: "'a tfval \<Rightarrow> bool" where
  "IsNull TfNull = True"
| "IsNull TfUnknown = False"
| "IsNull (TfValue v) = False"

fun IsUnknown :: "'a tfval \<Rightarrow> bool" where
  "IsUnknown TfNull = False"
| "IsUnknown TfUnknown = True"
| "IsUnknown (TfValue v) = False"

fun ValueString :: "types_String \<Rightarrow> string" where
  "ValueString TfNull = []"
| "ValueString TfUnknown = []"
| "ValueString (TfValue s) = s"

fun ValueBool :: "types_Bool \<Rightarrow> bool" where
  "ValueBool TfNull = False"
| "ValueBool TfUnknown = False"
| "ValueBool (TfValue b) = b"

fun ValueInt64 :: "types_Int64 \<Rightarrow> 64 word" where
  "ValueInt64 TfNull = 0"
| "ValueInt64 TfUnknown = 0"
| "ValueInt64 (TfValue n) = n"

definition Equal :: "'a tfval \<Rightarrow> 'a tfval \<Rightarrow> bool" where
  "Equal a b = (a = b)"

text \<open>
  A diagnostic added with \<^verbatim>\<open>resp.Diagnostics.AddError(summary, detail)\<close>.
\<close>

datatype diagnostic = Error string string

text \<open>
  \<^verbatim>\<open>ElementsAs(ctx, &target, false)\<close> on a list of strings into a \<^verbatim>\<open>[]string\<close> and on a
  map of strings into a \<^verbatim>\<open>map[string]string\<close>: a null collection gives the zero value,
  an unknown collection or a null or unknown element is a conversion error.
\<close>

fun known_string :: "string tfval \<Rightarrow> bool" where
  "known_string (TfValue s) = True"
| "known_string TfNull = False"
| "known_string TfUnknown = False"

definition conversion_error :: diagnostic where
  "conversion_error = Error ''Value Conversion Error'' ''unhandled null or unknown value''"

fun ElementsAs :: "types_List \<Rightarrow> diagnostic list + string list" where
  "ElementsAs TfNull = Inr []"
| "ElementsAs TfUnknown = Inl [conversion_error]"
| "ElementsAs (TfValue xs) =
     (if list_all known_string xs then Inr (map ValueString xs) else Inl [conversion_error])"

fun ElementsAs_map :: "types_Map \<Rightarrow> diagnostic list + (string, string) fmap" where
  "ElementsAs_map TfNull = Inr fmempty"
| "ElementsAs_map TfUnknown = Inl [conversion_error]"
| "ElementsAs_map (TfValue m) =
     (if fmpred (\<lambda>k v. known_string v) m then Inr (fmmap ValueString m)
      else Inl [conversion_error])"

text \<open>
  The optional wrappers of the generated API client: \<^verbatim>\<open>OptT{Value, Set}\<close> and
  \<^verbatim>\<open>OptNilT{Value, Set, Null}\<close>. \<^verbatim>\<open>NewOptT(v)\<close> and \<^verbatim>\<open>NewOptNilT(v)\<close> build a set,
  non-null wrapper; the zero value of the struct is unset.
\<close>

record 'a Opt =
  Opt_Value :: 'a
  Opt_Set :: bool

record 'a OptNil =
  OptNil_Value :: 'a
  OptNil_Set :: bool
  OptNil_Null :: bool

definition NewOpt :: "'a \<Rightarrow> 'a Opt" where
  "NewOpt v = \<lparr>Opt_Value = v, Opt_Set = True\<rparr>"

definition NewOptNil :: "'a \<Rightarrow> 'a OptNil" where
  "NewOptNil v = \<lparr>OptNil_Value = v, OptNil_Set = True, OptNil_Null = False\<rparr>"

definition zero_OptNil :: "'a \<Rightarrow> 'a OptNil" where
  "zero_OptNil z = \<lparr>OptNil_Value = z, OptNil_Set = False, OptNil_Null = False\<rparr>"

definition zero_Opt :: "'a \<Rightarrow> 'a Opt" where
  "zero_Opt z = \<lparr>Opt_Value = z, Opt_Set = False\<rparr>"

text \<open>
  A UUID is sixteen bytes; \<^verbatim>\<open>uuid.Nil\<close> is all zero. The library functions the
  provider calls but does not define are parameters of the model: \<^verbatim>\<open>uuid.Parse\<close>,
  \<^verbatim>\<open>UUID.String\<close>, \<^verbatim>\<open>url.Parse\<close> and \<^verbatim>\<open>Time.String\<close> (a \<^verbatim>\<open>time.Time\<close> is taken
  as its instant). A Go \<^verbatim>\<open>error\<close> is the left injection, carrying the text of
  \<^verbatim>\<open>err.Error()\<close>.
\<close>

type_synonym uuid = "128 word"
type_synonym URL = string
type_synonym jx_Raw = string
type_synonym time_Time = int

definition uuid_Nil :: uuid where
  "uuid_Nil = 0"

record library =
  uuid_Parse :: "string \<Rightarrow> string + uuid"
  uuid_String :: "uuid \<Rightarrow> string"
  url_Parse :: "string \<Rightarrow> string + URL"
  time_String :: "time_Time \<Rightarrow> string"

text \<open>
  A call of the client returns a Go error or a response value of an interface type.
  The handlers tell the expected response type from a not-found response and from any
  other type, whose Go type name \<^verbatim>\<open>%T\<close> prints.
\<close>

datatype 'r response2 = Ok2 'r | Other2 string
datatype 'r response3 = Ok3 'r | NotFound3 | Other3 string

text \<open>
  What a lifecycle handler leaves behind: the diagnostics it added, the remote calls it
  made, in order, and what it did to \<^verbatim>\<open>resp.State\<close>: nothing, \<^verbatim>\<open>State.Set\<close> with a
  record, or \<^verbatim>\<open>State.RemoveResource\<close>. The handlers are modelled from the point where
  \<^verbatim>\<open>req.Plan.Get\<close> and \<^verbatim>\<open>req.State.Get\<close> have filled the plan and state records.
\<close>

datatype 'm state_write = NoStateWrite | SetState 'm | RemoveResource

record ('m, 'c) outcome =
  Diagnostics :: "diagnostic list"
  Calls :: "'c list"
  State :: "'m state_write"

section \<open>devgraph\_model\_provider\<close>

record ModelProviderResourceModel =
  mp_ID :: types_String
  mp_Type :: types_String
  mp_Name :: types_String
  mp_APIKey :: types_String
  mp_Default :: types_Bool

text \<open>
  The create request is a tagged union of three payloads of the same shape; the response
  is a struct with a discriminator \<^verbatim>\<open>Type\<close>, a string type with three declared
  constants, and one payload per variant.
\<close>

record ProviderCreate =
  pc_Type :: string
  pc_Name :: string
  pc_APIKey :: string
  pc_Default :: "bool Opt"

datatype ModelProviderCreate =
  OpenAIModelProviderCreate ProviderCreate
| AnthropicModelProviderCreate ProviderCreate
| XAIModelProviderCreate ProviderCreate

record ModelProviderUpdate =
  mpu_Name :: "string OptNil"
  mpu_APIKey :: "string OptNil"
  mpu_Default :: "bool OptNil"

record ProviderResponse =
  pr_ID :: uuid
  pr_Type :: string
  pr_Name :: string
  pr_APIKey :: string
  pr_Default :: "bool Opt"

datatype ModelProviderResponseType =
  OpenAIModelProviderResponseModelProviderResponse
| AnthropicModelProviderResponseModelProviderResponse
| XAIModelProviderResponseModelProviderResponse
| OtherModelProviderResponseType string

record ModelProviderResponse =
  mpr_Type :: ModelProviderResponseType
  mpr_OpenAIModelProviderResponse :: ProviderResponse
  mpr_AnthropicModelProviderResponse :: ProviderResponse
  mpr_XAIModelProviderResponse :: ProviderResponse

datatype ModelProviderCall =
  Call_CreateModelprovider ModelProviderCreate
| Call_GetModelprovider uuid
| Call_UpdateModelprovider ModelProviderUpdate uuid

record ModelProviderClient =
  CreateModelprovider :: "ModelProviderCreate \<Rightarrow> string + ModelProviderResponse response2"
  GetModelprovider :: "uuid \<Rightarrow> string + ModelProviderResponse response3"
  UpdateModelprovider ::
    "ModelProviderUpdate \<Rightarrow> uuid \<Rightarrow> string + ModelProviderResponse response2"

text \<open>\<^verbatim>\<open>Create\<close>, the switch on \<^verbatim>\<open>plan.Type.ValueString()\<close> that builds the request.\<close>

definition ModelProviderResource_Create_request ::
  "ModelProviderResourceModel \<Rightarrow> diagnostic list + ModelProviderCreate" where
  "ModelProviderResource_Create_request plan =
     (let providerType = ValueString (mp_Type plan) in
      if providerType = ''openai'' then
        Inr (OpenAIModelProviderCreate
          \<lparr>pc_Type = ''openai'', pc_Name = ValueString (mp_Name plan),
           pc_APIKey = ValueString (mp_APIKey plan),
           pc_Default = NewOpt (ValueBool (mp_Default plan))\<rparr>)
      else if providerType = ''anthropic'' then
        Inr (AnthropicModelProviderCreate
          \<lparr>pc_Type = ''anthropic'', pc_Name = ValueString (mp_Name plan),
           pc_APIKey = ValueString (mp_APIKey plan),
           pc_Default = NewOpt (ValueBool (mp_Default plan))\<rparr>)
      else if providerType = ''xai'' then
        Inr (XAIModelProviderCreate
          \<lparr>pc_Type = ''xai'', pc_Name = ValueString (mp_Name plan),
           pc_APIKey = ValueString (mp_APIKey plan),
           pc_Default = NewOpt (ValueBool (mp_Default plan))\<rparr>)
      else
        Inl [Error ''Invalid provider type''
          (''Provider type must be one of: openai, anthropic, xai. Got: '' @ providerType)])"

text \<open>
  The assignments of one case of the response switch. \<^verbatim>\<open>Create\<close> and \<^verbatim>\<open>Update\<close>
  assign the identifier too, \<^verbatim>\<open>Read\<close> does not. Here and in the other resources
  the assignments after a response are written as one record update, field by field in
  the order of the source: an assignment under \<^verbatim>\<open>if\<close> is a conditional that keeps the
  field of the record otherwise.
\<close>

definition ModelProviderResource_assign ::
  "library \<Rightarrow> bool \<Rightarrow> ProviderResponse \<Rightarrow> ModelProviderResourceModel
     \<Rightarrow> ModelProviderResourceModel" where
  "ModelProviderResource_assign lib with_id provider m =
     m\<lparr>mp_ID := (if with_id then TfValue (uuid_String lib (pr_ID provider)) else mp_ID m),
       mp_Type := TfValue (pr_Type provider),
       mp_Name := TfValue (pr_Name provider),
       mp_APIKey := TfValue (pr_APIKey provider),
       mp_Default := (if Opt_Set (pr_Default provider)
                      then TfValue (Opt_Value (pr_Default provider)) else mp_Default m)\<rparr>"

text \<open>
  The switch on \<^verbatim>\<open>result.Type\<close>. It has three cases and no default: with any other
  tag no assignment runs and control reaches \<^verbatim>\<open>State.Set\<close>.
\<close>

definition ModelProviderResource_merge ::
  "library \<Rightarrow> bool \<Rightarrow> ModelProviderResponse \<Rightarrow> ModelProviderResourceModel
     \<Rightarrow> ModelProviderResourceModel" where
  "ModelProviderResource_merge lib with_id result m =
     (case mpr_Type result of
        OpenAIModelProviderResponseModelProviderResponse \<Rightarrow>
          ModelProviderResource_assign lib with_id (mpr_OpenAIModelProviderResponse result) m
      | AnthropicModelProviderResponseModelProviderResponse \<Rightarrow>
          ModelProviderResource_assign lib with_id (mpr_AnthropicModelProviderResponse result) m
      | XAIModelProviderResponseModelProviderResponse \<Rightarrow>
          ModelProviderResource_assign lib with_id (mpr_XAIModelProviderResponse result) m
      | OtherModelProviderResponseType t \<Rightarrow> m)"

definition ModelProviderResource_Create ::
  "library \<Rightarrow> ModelProviderClient \<Rightarrow> ModelProviderResourceModel
     \<Rightarrow> (ModelProviderResourceModel, ModelProviderCall) outcome" where
  "ModelProviderResource_Create lib client plan =
     (case ModelProviderResource_Create_request plan of
        Inl ds \<Rightarrow> \<lparr>Diagnostics = ds, Calls = [], State = NoStateWrite\<rparr>
      | Inr createReq \<Rightarrow>
         (case CreateModelprovider client createReq of
            Inl err \<Rightarrow>
              \<lparr>Diagnostics = [Error ''Error creating model provider''
                                (''Could not create model provider: '' @ err)],
               Calls = [Call_CreateModelprovider createReq], State = NoStateWrite\<rparr>
          | Inr (Other2 t) \<Rightarrow>
              \<lparr>Diagnostics = [Error ''Unexpected response type''
                                ''Expected ModelProviderResponse''],
               Calls = [Call_CreateModelprovider createReq], State = NoStateWrite\<rparr>
          | Inr (Ok2 result) \<Rightarrow>
              \<lparr>Diagnostics = [], Calls = [Call_CreateModelprovider createReq],
               State = SetState (ModelProviderResource_merge lib True result plan)\<rparr>))"

definition ModelProviderResource_Read ::
  "library \<Rightarrow> ModelProviderClient \<Rightarrow> ModelProviderResourceModel
     \<Rightarrow> (ModelProviderResourceModel, ModelProviderCall) outcome" where
  "ModelProviderResource_Read lib client state =
     (case uuid_Parse lib (ValueString (mp_ID state)) of
        Inl err \<Rightarrow>
          \<lparr>Diagnostics = [Error ''Invalid Model Provider ID'' err], Calls = [],
           State = NoStateWrite\<rparr>
      | Inr providerID \<Rightarrow>
         (case GetModelprovider client providerID of
            Inl err \<Rightarrow>
              \<lparr>Diagnostics = [Error ''Error reading model provider''
                 (''Could not read model provider ID '' @ ValueString (mp_ID state)
                    @ '': '' @ err)],
               Calls = [Call_GetModelprovider providerID], State = NoStateWrite\<rparr>
          | Inr NotFound3 \<Rightarrow>
              \<lparr>Diagnostics = [], Calls = [Call_GetModelprovider providerID],
               State = RemoveResource\<rparr>
          | Inr (Other3 t) \<Rightarrow>
              \<lparr>Diagnostics = [Error ''Unexpected response type''
                 (''Expected *v1.ModelProviderResponse, got: '' @ t)],
               Calls = [Call_GetModelprovider providerID], State = NoStateWrite\<rparr>
          | Inr (Ok3 result) \<Rightarrow>
              \<lparr>Diagnostics = [], Calls = [Call_GetModelprovider providerID],
               State = SetState (ModelProviderResource_merge lib False result state)\<rparr>))"

text \<open>
  \<^verbatim>\<open>Update\<close>, the block commented "Only include fields that have changed". Here and
  in the other resources a request is written as one record: a field that the handler
  assigns under \<^verbatim>\<open>if\<close> is a conditional whose other branch is the unset zero value the
  request starts with, and a conversion that can fail is decided before the record, in
  the order in which the handler returns early.
\<close>

definition ModelProviderResource_Update_request ::
  "ModelProviderResourceModel \<Rightarrow> ModelProviderResourceModel \<Rightarrow> ModelProviderUpdate" where
  "ModelProviderResource_Update_request plan state =
     \<lparr>mpu_Name = (if \<not> Equal (mp_Name plan) (mp_Name state)
                   then NewOptNil (ValueString (mp_Name plan)) else zero_OptNil []),
      mpu_APIKey = (if \<not> Equal (mp_APIKey plan) (mp_APIKey state)
                     then NewOptNil (ValueString (mp_APIKey plan)) else zero_OptNil []),
      mpu_Default = (if \<not> Equal (mp_Default plan) (mp_Default state)
                      then NewOptNil (ValueBool (mp_Default plan))
                      else zero_OptNil False)\<rparr>"

definition ModelProviderResource_Update ::
  "library \<Rightarrow> ModelProviderClient \<Rightarrow> ModelProviderResourceModel
     \<Rightarrow> ModelProviderResourceModel
     \<Rightarrow> (ModelProviderResourceModel, ModelProviderCall) outcome" where
  "ModelProviderResource_Update lib client plan state =
     (case uuid_Parse lib (ValueString (mp_ID state)) of
        Inl err \<Rightarrow>
          \<lparr>Diagnostics = [Error ''Invalid Model Provider ID'' err], Calls = [],
           State = NoStateWrite\<rparr>
      | Inr providerID \<Rightarrow>
         (case UpdateModelprovider client
                 (ModelProviderResource_Update_request plan state) providerID of
            Inl err \<Rightarrow>
              \<lparr>Diagnostics = [Error ''Error updating model provider''
                                (''Could not update model provider: '' @ err)],
               Calls = [Call_UpdateModelprovider
                          (ModelProviderResource_Update_request plan state) providerID],
               State = NoStateWrite\<rparr>
          | Inr (Other2 t) \<Rightarrow>
              \<lparr>Diagnostics = [Error ''Unexpected response type''
                                ''Expected ModelProviderResponse''],
               Calls = [Call_UpdateModelprovider
                          (ModelProviderResource_Update_request plan state) providerID],
               State = NoStateWrite\<rparr>
          | Inr (Ok2 result) \<Rightarrow>
              \<lparr>Diagnostics = [],
               Calls = [Call_UpdateModelprovider
                          (ModelProviderResource_Update_request plan state) providerID],
               State = SetState (ModelProviderResource_merge lib True result plan)\<rparr>))"

section \<open>devgraph\_model\<close>

record ModelResourceModel =
  mdl_ID :: types_String
  mdl_Name :: types_String
  mdl_Description :: types_String
  mdl_ProviderID :: types_String
  mdl_Default :: types_Bool

record ModelCreate =
  mc_Name :: string
  mc_ProviderID :: uuid
  mc_Default :: "bool Opt"
  mc_Description :: "string OptNil"

text \<open>The fields of \<^verbatim>\<open>v1.ModelUpdate\<close> that \<^verbatim>\<open>Update\<close> can set.\<close>

record ModelUpdate =
  mu_Description :: "string OptNil"
  mu_ProviderID :: "uuid OptNil"
  mu_Default :: "bool OptNil"

record ModelResponse =
  mr_ID :: uuid
  mr_Name :: string
  mr_Description :: "string OptNil"
  mr_ProviderID :: uuid
  mr_Default :: "bool Opt"

datatype ModelCall =
  Call_CreateModel ModelCreate
| Call_GetModel string
| Call_UpdateModel ModelUpdate string

record ModelClient =
  CreateModel :: "ModelCreate \<Rightarrow> string + ModelResponse response2"
  GetModel :: "string \<Rightarrow> string + ModelResponse response3"
  UpdateModel :: "ModelUpdate \<Rightarrow> string \<Rightarrow> string + ModelResponse response2"

text \<open>
  The assignments after a response, the same in \<^verbatim>\<open>Create\<close>, \<^verbatim>\<open>Read\<close> and
  \<^verbatim>\<open>Update\<close>.
\<close>

definition ModelResource_merge ::
  "library \<Rightarrow> ModelResponse \<Rightarrow> ModelResourceModel \<Rightarrow> ModelResourceModel" where
  "ModelResource_merge lib result m =
     m\<lparr>mdl_ID := TfValue (uuid_String lib (mr_ID result)),
       mdl_Name := TfValue (mr_Name result),
       mdl_Description := (if OptNil_Set (mr_Description result)
                           then TfValue (OptNil_Value (mr_Description result))
                           else mdl_Description m),
       mdl_ProviderID := TfValue (uuid_String lib (mr_ProviderID result)),
       mdl_Default := (if Opt_Set (mr_Default result)
                       then TfValue (Opt_Value (mr_Default result)) else mdl_Default m)\<rparr>"

text \<open>\<^verbatim>\<open>Create\<close> up to the remote call.\<close>

definition ModelResource_Create_request ::
  "library \<Rightarrow> ModelResourceModel \<Rightarrow> diagnostic list + ModelCreate" where
  "ModelResource_Create_request lib plan =
     (case uuid_Parse lib (ValueString (mdl_ProviderID plan)) of
        Inl err \<Rightarrow> Inl [Error ''Invalid Provider ID'' err]
      | Inr providerID \<Rightarrow>
          Inr \<lparr>mc_Name = ValueString (mdl_Name plan), mc_ProviderID = providerID,
               mc_Default = NewOpt (ValueBool (mdl_Default plan)),
               mc_Description = (if \<not> IsNull (mdl_Description plan)
                   then NewOptNil (ValueString (mdl_Description plan))
                   else zero_OptNil [])\<rparr>)"

definition ModelResource_Create ::
  "library \<Rightarrow> ModelClient \<Rightarrow> ModelResourceModel
     \<Rightarrow> (ModelResourceModel, ModelCall) outcome" where
  "ModelResource_Create lib client plan =
     (case ModelResource_Create_request lib plan of
        Inl ds \<Rightarrow> \<lparr>Diagnostics = ds, Calls = [], State = NoStateWrite\<rparr>
      | Inr createReq \<Rightarrow>
         (case CreateModel client createReq of
            Inl err \<Rightarrow>
              \<lparr>Diagnostics = [Error ''Error creating model''
                                (''Could not create model: '' @ err)],
               Calls = [Call_CreateModel createReq], State = NoStateWrite\<rparr>
          | Inr (Other2 t) \<Rightarrow>
              \<lparr>Diagnostics = [Error ''Unexpected response type'' ''Expected ModelResponse''],
               Calls = [Call_CreateModel createReq], State = NoStateWrite\<rparr>
          | Inr (Ok2 result) \<Rightarrow>
              \<lparr>Diagnostics = [], Calls = [Call_CreateModel createReq],
               State = SetState (ModelResource_merge lib result plan)\<rparr>))"

definition ModelResource_Read ::
  "library \<Rightarrow> ModelClient \<Rightarrow> ModelResourceModel
     \<Rightarrow> (ModelResourceModel, ModelCall) outcome" where
  "ModelResource_Read lib client state =
     (case GetModel client (ValueString (mdl_Name state)) of
        Inl err \<Rightarrow>
          \<lparr>Diagnostics = [Error ''Error reading model''
             (''Could not read model '' @ ValueString (mdl_Name state) @ '': '' @ err)],
           Calls = [Call_GetModel (ValueString (mdl_Name state))], State = NoStateWrite\<rparr>
      | Inr NotFound3 \<Rightarrow>
          \<lparr>Diagnostics = [], Calls = [Call_GetModel (ValueString (mdl_Name state))], State = RemoveResource\<rparr>
      | Inr (Other3 t) \<Rightarrow>
          \<lparr>Diagnostics = [Error ''Unexpected response type''
             (''Expected *v1.ModelResponse, got: '' @ t)],
           Calls = [Call_GetModel (ValueString (mdl_Name state))], State = NoStateWrite\<rparr>
      | Inr (Ok3 result) \<Rightarrow>
          \<lparr>Diagnostics = [], Calls = [Call_GetModel (ValueString (mdl_Name state))],
           State = SetState (ModelResource_merge lib result state)\<rparr>)"

text \<open>
  \<^verbatim>\<open>Update\<close>, the block commented "Only include fields that have changed". The
  request has no name; a description that became null is sent as the empty string.
\<close>

definition ModelResource_Update_request ::
  "library \<Rightarrow> ModelResourceModel \<Rightarrow> ModelResourceModel \<Rightarrow> diagnostic list + ModelUpdate"
  where
  "ModelResource_Update_request lib plan state =
     (case (if \<not> Equal (mdl_ProviderID plan) (mdl_ProviderID state)
            then (case uuid_Parse lib (ValueString (mdl_ProviderID plan)) of
                    Inl err \<Rightarrow> Inl [Error ''Invalid Provider ID'' err]
                  | Inr providerID \<Rightarrow> Inr (NewOptNil providerID))
            else Inr (zero_OptNil 0)) of
        Inl ds \<Rightarrow> Inl ds
      | Inr req_ProviderID \<Rightarrow>
          Inr \<lparr>mu_Description =
                 (if \<not> Equal (mdl_Description plan) (mdl_Description state)
                  then (if IsNull (mdl_Description plan) then NewOptNil []
                        else NewOptNil (ValueString (mdl_Description plan)))
                  else zero_OptNil []),
               mu_ProviderID = req_ProviderID,
               mu_Default = (if \<not> Equal (mdl_Default plan) (mdl_Default state)
                             then NewOptNil (ValueBool (mdl_Default plan))
                             else zero_OptNil False)\<rparr>)"

definition ModelResource_Update ::
  "library \<Rightarrow> ModelClient \<Rightarrow> ModelResourceModel \<Rightarrow> ModelResourceModel
     \<Rightarrow> (ModelResourceModel, ModelCall) outcome" where
  "ModelResource_Update lib client plan state =
     (case ModelResource_Update_request lib plan state of
        Inl ds \<Rightarrow> \<lparr>Diagnostics = ds, Calls = [], State = NoStateWrite\<rparr>
      | Inr updateReq \<Rightarrow>
         (case UpdateModel client updateReq (ValueString (mdl_Name state)) of
            Inl err \<Rightarrow>
              \<lparr>Diagnostics = [Error ''Error updating model''
                                (''Could not update model: '' @ err)],
               Calls = [Call_UpdateModel updateReq (ValueString (mdl_Name state))], State = NoStateWrite\<rparr>
          | Inr (Other2 t) \<Rightarrow>
              \<lparr>Diagnostics = [Error ''Unexpected response type'' ''Expected ModelResponse''],
               Calls = [Call_UpdateModel updateReq (ValueString (mdl_Name state))], State = NoStateWrite\<rparr>
          | Inr (Ok2 result) \<Rightarrow>
              \<lparr>Diagnostics = [], Calls = [Call_UpdateModel updateReq (ValueString (mdl_Name state))],
               State = SetState (ModelResource_merge lib result plan)\<rparr>))"

section \<open>devgraph\_mcp\_endpoint\<close>

record MCPEndpointResourceModel =
  mcp_ID :: types_String
  mcp_Name :: types_String
  mcp_URL :: types_String
  mcp_Description :: types_String
  mcp_Headers :: types_Map
  mcp_DevgraphAuth :: types_Bool
  mcp_SupportsResources :: types_Bool
  mcp_OAuthServiceID :: types_String
  mcp_Immutable :: types_Bool
  mcp_Active :: types_Bool
  mcp_AllowedTools :: types_List
  mcp_DeniedTools :: types_List

record MCPEndpointCreate =
  ec_Name :: string
  ec_URL :: string
  ec_Description :: "string OptNil"
  ec_Headers :: "(string, string) fmap Opt"
  ec_DevgraphAuth :: "bool Opt"
  ec_SupportsResources :: "bool Opt"
  ec_Immutable :: "bool Opt"
  ec_Active :: "bool Opt"
  ec_OAuthServiceID :: "uuid OptNil"
  ec_AllowedTools :: "string list OptNil"
  ec_DeniedTools :: "string list OptNil"

record MCPEndpointUpdate =
  eu_Name :: "string OptNil"
  eu_URL :: "string OptNil"
  eu_Description :: "string OptNil"
  eu_Headers :: "(string, string) fmap OptNil"
  eu_DevgraphAuth :: "bool OptNil"
  eu_SupportsResources :: "bool OptNil"
  eu_Immutable :: "bool OptNil"
  eu_Active :: "bool OptNil"
  eu_OAuthServiceID :: "uuid OptNil"
  eu_AllowedTools :: "string list OptNil"
  eu_DeniedTools :: "string list OptNil"

record MCPEndpointResponse =
  er_ID :: uuid
  er_Name :: string
  er_URL :: string
  er_Description :: "string OptNil"
  er_Headers :: "(string, string) fmap Opt"
  er_DevgraphAuth :: "bool Opt"
  er_SupportsResources :: "bool Opt"
  er_Immutable :: "bool Opt"
  er_Active :: "bool Opt"
  er_OAuthServiceID :: "uuid OptNil"

datatype MCPEndpointCall =
  Call_CreateMcpendpoint MCPEndpointCreate
| Call_GetMcpendpoint uuid
| Call_UpdateMcpendpoint MCPEndpointUpdate uuid

record MCPEndpointClient =
  CreateMcpendpoint :: "MCPEndpointCreate \<Rightarrow> string + MCPEndpointResponse response2"
  GetMcpendpoint :: "uuid \<Rightarrow> string + MCPEndpointResponse response3"
  UpdateMcpendpoint ::
    "MCPEndpointUpdate \<Rightarrow> uuid \<Rightarrow> string + MCPEndpointResponse response2"

text \<open>
  The guarded conversions of an optional attribute, as \<^verbatim>\<open>Create\<close> and \<^verbatim>\<open>Update\<close>
  repeat them: the parse of the OAuth service identifier and, in \<^verbatim>\<open>Update\<close>, the
  conversions of headers and tool lists. The field is set when the attribute is not
  null and the conversion succeeds, the handler returns with the error when it fails,
  and the field stays unset when the attribute is null.
\<close>

definition optional_uuid ::
  "library \<Rightarrow> string \<Rightarrow> types_String \<Rightarrow> diagnostic list + uuid OptNil" where
  "optional_uuid lib summary v =
     (if \<not> IsNull v
      then (case uuid_Parse lib (ValueString v) of
              Inl err \<Rightarrow> Inl [Error summary err]
            | Inr u \<Rightarrow> Inr (NewOptNil u))
      else Inr (zero_OptNil 0))"

definition optional_headers ::
  "types_Map \<Rightarrow> diagnostic list + (string, string) fmap OptNil" where
  "optional_headers v =
     (if \<not> IsNull v
      then (case ElementsAs_map v of
              Inl ds \<Rightarrow> Inl ds
            | Inr headers \<Rightarrow> Inr (NewOptNil headers))
      else Inr (zero_OptNil fmempty))"

definition optional_tools :: "types_List \<Rightarrow> diagnostic list + string list OptNil" where
  "optional_tools v =
     (if \<not> IsNull v
      then (case ElementsAs v of Inl ds \<Rightarrow> Inl ds | Inr tools \<Rightarrow> Inr (NewOptNil tools))
      else Inr (zero_OptNil []))"

text \<open>
  \<^verbatim>\<open>Create\<close> up to the remote call: the conversions of headers, allowed tools and
  denied tools, then the request, whose only early return is the parse of the OAuth
  service identifier.
\<close>

definition MCPEndpointResource_Create_request ::
  "library \<Rightarrow> MCPEndpointResourceModel \<Rightarrow> diagnostic list + MCPEndpointCreate" where
  "MCPEndpointResource_Create_request lib plan =
     (case (if \<not> IsNull (mcp_Headers plan) then ElementsAs_map (mcp_Headers plan)
            else Inr fmempty) of
        Inl ds \<Rightarrow> Inl ds
      | Inr headers \<Rightarrow>
     (case (if \<not> IsNull (mcp_AllowedTools plan) then ElementsAs (mcp_AllowedTools plan)
            else Inr []) of
        Inl ds \<Rightarrow> Inl ds
      | Inr allowedTools \<Rightarrow>
     (case (if \<not> IsNull (mcp_DeniedTools plan) then ElementsAs (mcp_DeniedTools plan)
            else Inr []) of
        Inl ds \<Rightarrow> Inl ds
      | Inr deniedTools \<Rightarrow>
     (case optional_uuid lib ''Invalid OAuth Service ID'' (mcp_OAuthServiceID plan) of
        Inl ds \<Rightarrow> Inl ds
      | Inr req_OAuthServiceID \<Rightarrow>
          Inr \<lparr>ec_Name = ValueString (mcp_Name plan), ec_URL = ValueString (mcp_URL plan),
               ec_Description = (if \<not> IsNull (mcp_Description plan)
                   then NewOptNil (ValueString (mcp_Description plan))
                   else zero_OptNil []),
               ec_Headers = (if headers \<noteq> fmempty then NewOpt headers
                             else zero_Opt fmempty),
               ec_DevgraphAuth = NewOpt (ValueBool (mcp_DevgraphAuth plan)),
               ec_SupportsResources = NewOpt (ValueBool (mcp_SupportsResources plan)),
               ec_Immutable = NewOpt (ValueBool (mcp_Immutable plan)),
               ec_Active = NewOpt (ValueBool (mcp_Active plan)),
               ec_OAuthServiceID = req_OAuthServiceID,
               ec_AllowedTools = (if allowedTools \<noteq> [] then NewOptNil allowedTools
                                  else zero_OptNil []),
               ec_DeniedTools = (if deniedTools \<noteq> [] then NewOptNil deniedTools
                                 else zero_OptNil [])\<rparr>))))"

text \<open>
  The assignments after a response in \<^verbatim>\<open>Create\<close> and \<^verbatim>\<open>Read\<close>; \<^verbatim>\<open>Create\<close> assigns
  the identifier first.
\<close>

definition MCPEndpointResource_merge ::
  "library \<Rightarrow> bool \<Rightarrow> MCPEndpointResponse \<Rightarrow> MCPEndpointResourceModel
     \<Rightarrow> MCPEndpointResourceModel" where
  "MCPEndpointResource_merge lib with_id result m =
     m\<lparr>mcp_ID := (if with_id then TfValue (uuid_String lib (er_ID result)) else mcp_ID m),
       mcp_Name := TfValue (er_Name result),
       mcp_URL := TfValue (er_URL result),
       mcp_Description := (if OptNil_Set (er_Description result)
                           then TfValue (OptNil_Value (er_Description result))
                           else mcp_Description m),
       mcp_Headers := (if Opt_Set (er_Headers result)
                          \<and> Opt_Value (er_Headers result) \<noteq> fmempty
                       then TfValue (fmmap TfValue (Opt_Value (er_Headers result)))
                       else mcp_Headers m),
       mcp_DevgraphAuth := (if Opt_Set (er_DevgraphAuth result)
                            then TfValue (Opt_Value (er_DevgraphAuth result))
                            else mcp_DevgraphAuth m),
       mcp_SupportsResources := (if Opt_Set (er_SupportsResources result)
                                 then TfValue (Opt_Value (er_SupportsResources result))
                                 else mcp_SupportsResources m),
       mcp_Immutable := (if Opt_Set (er_Immutable result)
                         then TfValue (Opt_Value (er_Immutable result))
                         else mcp_Immutable m),
       mcp_Active := (if Opt_Set (er_Active result)
                      then TfValue (Opt_Value (er_Active result)) else mcp_Active m),
       mcp_OAuthServiceID :=
         (if OptNil_Set (er_OAuthServiceID result)
             \<and> OptNil_Value (er_OAuthServiceID result) \<noteq> uuid_Nil
          then TfValue (uuid_String lib (OptNil_Value (er_OAuthServiceID result)))
          else mcp_OAuthServiceID m)\<rparr>"

text \<open>The assignments after a response in \<^verbatim>\<open>Update\<close>: name, URL and description.\<close>

definition MCPEndpointResource_merge_update ::
  "MCPEndpointResponse \<Rightarrow> MCPEndpointResourceModel \<Rightarrow> MCPEndpointResourceModel" where
  "MCPEndpointResource_merge_update result m =
     m\<lparr>mcp_Name := TfValue (er_Name result),
       mcp_URL := TfValue (er_URL result),
       mcp_Description := (if OptNil_Set (er_Description result)
                           then TfValue (OptNil_Value (er_Description result))
                           else mcp_Description m)\<rparr>"

definition MCPEndpointResource_Create ::
  "library \<Rightarrow> MCPEndpointClient \<Rightarrow> MCPEndpointResourceModel
     \<Rightarrow> (MCPEndpointResourceModel, MCPEndpointCall) outcome" where
  "MCPEndpointResource_Create lib client plan =
     (case MCPEndpointResource_Create_request lib plan of
        Inl ds \<Rightarrow> \<lparr>Diagnostics = ds, Calls = [], State = NoStateWrite\<rparr>
      | Inr createReq \<Rightarrow>
         (case CreateMcpendpoint client createReq of
            Inl err \<Rightarrow>
              \<lparr>Diagnostics = [Error ''Error creating MCP endpoint''
                                (''Could not create MCP endpoint: '' @ err)],
               Calls = [Call_CreateMcpendpoint createReq], State = NoStateWrite\<rparr>
          | Inr (Other2 t) \<Rightarrow>
              \<lparr>Diagnostics = [Error ''Unexpected response type''
                                ''Expected MCPEndpointResponse''],
               Calls = [Call_CreateMcpendpoint createReq], State = NoStateWrite\<rparr>
          | Inr (Ok2 result) \<Rightarrow>
              \<lparr>Diagnostics = [], Calls = [Call_CreateMcpendpoint createReq],
               State = SetState (MCPEndpointResource_merge lib True result plan)\<rparr>))"

definition MCPEndpointResource_Read ::
  "library \<Rightarrow> MCPEndpointClient \<Rightarrow> MCPEndpointResourceModel
     \<Rightarrow> (MCPEndpointResourceModel, MCPEndpointCall) outcome" where
  "MCPEndpointResource_Read lib client state =
     (case uuid_Parse lib (ValueString (mcp_ID state)) of
        Inl err \<Rightarrow>
          \<lparr>Diagnostics = [Error ''Invalid MCP Endpoint ID'' err], Calls = [],
           State = NoStateWrite\<rparr>
      | Inr endpointID \<Rightarrow>
         (case GetMcpendpoint client endpointID of
            Inl err \<Rightarrow>
              \<lparr>Diagnostics = [Error ''Error reading MCP endpoint''
                 (''Could not read MCP endpoint ID '' @ ValueString (mcp_ID state)
                    @ '': '' @ err)],
               Calls = [Call_GetMcpendpoint endpointID], State = NoStateWrite\<rparr>
          | Inr NotFound3 \<Rightarrow>
              \<lparr>Diagnostics = [], Calls = [Call_GetMcpendpoint endpointID],
               State = RemoveResource\<rparr>
          | Inr (Other3 t) \<Rightarrow>
              \<lparr>Diagnostics = [Error ''Unexpected response type''
                 (''Expected *v1.MCPEndpointResponse, got: '' @ t)],
               Calls = [Call_GetMcpendpoint endpointID], State = NoStateWrite\<rparr>
          | Inr (Ok3 result) \<Rightarrow>
              \<lparr>Diagnostics = [], Calls = [Call_GetMcpendpoint endpointID],
               State = SetState (MCPEndpointResource_merge lib False result state)\<rparr>))"

text \<open>
  \<^verbatim>\<open>Update\<close> reads the plan only. Every field of the request is assigned by one
  guarded statement of its own, in the order name, URL, description, headers, the four
  booleans, OAuth service identifier, allowed tools, denied tools; the conversions of
  headers, identifier and tool lists return early on an error, in that order.
\<close>

definition MCPEndpointResource_Update_request ::
  "library \<Rightarrow> MCPEndpointResourceModel \<Rightarrow> diagnostic list + MCPEndpointUpdate" where
  "MCPEndpointResource_Update_request lib plan =
     (case optional_headers (mcp_Headers plan) of
        Inl ds \<Rightarrow> Inl ds
      | Inr req_Headers \<Rightarrow>
     (case optional_uuid lib ''Invalid OAuth Service ID'' (mcp_OAuthServiceID plan) of
        Inl ds \<Rightarrow> Inl ds
      | Inr req_OAuthServiceID \<Rightarrow>
     (case optional_tools (mcp_AllowedTools plan) of
        Inl ds \<Rightarrow> Inl ds
      | Inr req_AllowedTools \<Rightarrow>
     (case optional_tools (mcp_DeniedTools plan) of
        Inl ds \<Rightarrow> Inl ds
      | Inr req_DeniedTools \<Rightarrow>
         Inr \<lparr>eu_Name = (if \<not> IsNull (mcp_Name plan)
                          then NewOptNil (ValueString (mcp_Name plan)) else zero_OptNil []),
              eu_URL = (if \<not> IsNull (mcp_URL plan)
                          then NewOptNil (ValueString (mcp_URL plan)) else zero_OptNil []),
              eu_Description = (if \<not> IsNull (mcp_Description plan)
                          then NewOptNil (ValueString (mcp_Description plan))
                          else zero_OptNil []),
              eu_Headers = req_Headers,
              eu_DevgraphAuth = (if \<not> IsNull (mcp_DevgraphAuth plan)
                          then NewOptNil (ValueBool (mcp_DevgraphAuth plan))
                          else zero_OptNil False),
              eu_SupportsResources = (if \<not> IsNull (mcp_SupportsResources plan)
                          then NewOptNil (ValueBool (mcp_SupportsResources plan))
                          else zero_OptNil False),
              eu_Immutable = (if \<not> IsNull (mcp_Immutable plan)
                          then NewOptNil (ValueBool (mcp_Immutable plan))
                          else zero_OptNil False),
              eu_Active = (if \<not> IsNull (mcp_Active plan)
                          then NewOptNil (ValueBool (mcp_Active plan))
                          else zero_OptNil False),
              eu_OAuthServiceID = req_OAuthServiceID,
              eu_AllowedTools = req_AllowedTools,
              eu_DeniedTools = req_DeniedTools\<rparr>))))"

definition MCPEndpointResource_Update ::
  "library \<Rightarrow> MCPEndpointClient \<Rightarrow> MCPEndpointResourceModel \<Rightarrow> MCPEndpointResourceModel
     \<Rightarrow> (MCPEndpointResourceModel, MCPEndpointCall) outcome" where
  "MCPEndpointResource_Update lib client plan state =
     (case uuid_Parse lib (ValueString (mcp_ID plan)) of
        Inl err \<Rightarrow>
          \<lparr>Diagnostics = [Error ''Invalid MCP Endpoint ID'' err], Calls = [],
           State = NoStateWrite\<rparr>
      | Inr endpointID \<Rightarrow>
     (case MCPEndpointResource_Update_request lib plan of
        Inl ds \<Rightarrow> \<lparr>Diagnostics = ds, Calls = [], State = NoStateWrite\<rparr>
      | Inr updateReq \<Rightarrow>
         (case UpdateMcpendpoint client updateReq endpointID of
            Inl err \<Rightarrow>
              \<lparr>Diagnostics = [Error ''Error updating MCP endpoint''
                                (''Could not update MCP endpoint: '' @ err)],
               Calls = [Call_UpdateMcpendpoint updateReq endpointID], State = NoStateWrite\<rparr>
          | Inr (Other2 t) \<Rightarrow>
              \<lparr>Diagnostics = [Error ''Unexpected response type''
                                ''Expected MCPEndpointResponse''],
               Calls = [Call_UpdateMcpendpoint updateReq endpointID], State = NoStateWrite\<rparr>
          | Inr (Ok2 result) \<Rightarrow>
              \<lparr>Diagnostics = [], Calls = [Call_UpdateMcpendpoint updateReq endpointID],
               State = SetState (MCPEndpointResource_merge_update result plan)\<rparr>)))"

section \<open>devgraph\_oauth\_service\<close>

record OAuthServiceResourceModel =
  oa_ID :: types_String
  oa_Name :: types_String
  oa_DisplayName :: types_String
  oa_Description :: types_String
  oa_ClientID :: types_String
  oa_ClientSecret :: types_String
  oa_AuthorizationURL :: types_String
  oa_TokenURL :: types_String
  oa_UserinfoURL :: types_String
  oa_DefaultScopes :: types_List
  oa_SupportedGrantTypes :: types_List
  oa_IsActive :: types_Bool
  oa_IconURL :: types_String
  oa_HomepageURL :: types_String
  oa_CreatedAt :: types_String
  oa_UpdatedAt :: types_String

record OAuthServiceCreate =
  oc_Name :: string
  oc_DisplayName :: string
  oc_ClientID :: string
  oc_ClientSecret :: string
  oc_AuthorizationURL :: URL
  oc_TokenURL :: URL
  oc_SupportedGrantTypes :: "string list"
  oc_Description :: "string OptNil"
  oc_DefaultScopes :: "string list OptNil"
  oc_UserinfoURL :: "URL OptNil"
  oc_IsActive :: "bool Opt"
  oc_IconURL :: "URL OptNil"
  oc_HomepageURL :: "URL OptNil"

record OAuthServiceUpdate =
  ou_DisplayName :: "string OptNil"
  ou_ClientID :: "string OptNil"
  ou_ClientSecret :: "string OptNil"
  ou_AuthorizationURL :: "URL OptNil"
  ou_TokenURL :: "URL OptNil"
  ou_Description :: "string OptNil"
  ou_DefaultScopes :: "string list OptNil"
  ou_SupportedGrantTypes :: "string list OptNil"
  ou_UserinfoURL :: "URL OptNil"
  ou_IsActive :: "bool OptNil"
  ou_IconURL :: "URL OptNil"
  ou_HomepageURL :: "URL OptNil"

record OAuthServiceResponse =
  or_ID :: uuid
  or_DisplayName :: string
  or_AuthorizationURL :: string
  or_TokenURL :: string
  or_IsActive :: bool
  or_CreatedAt :: time_Time
  or_UpdatedAt :: time_Time
  or_Description :: "string OptNil"
  or_UserinfoURL :: "string OptNil"
  or_IconURL :: "string OptNil"
  or_HomepageURL :: "string OptNil"
  or_DefaultScopes :: "string list"
  or_SupportedGrantTypes :: "string list"

datatype OAuthServiceCall =
  Call_CreateOAuthService OAuthServiceCreate
| Call_GetOAuthService uuid
| Call_UpdateOAuthService OAuthServiceUpdate uuid

record OAuthServiceClient =
  CreateOAuthService :: "OAuthServiceCreate \<Rightarrow> string + OAuthServiceResponse response2"
  GetOAuthService :: "uuid \<Rightarrow> string + OAuthServiceResponse response3"
  UpdateOAuthService ::
    "OAuthServiceUpdate \<Rightarrow> uuid \<Rightarrow> string + OAuthServiceResponse response2"

text \<open>
  A guarded \<^verbatim>\<open>url.Parse\<close> of an optional URL attribute and a guarded \<^verbatim>\<open>ElementsAs\<close>
  of a list attribute, as \<^verbatim>\<open>Create\<close> and \<^verbatim>\<open>Update\<close> of the OAuth service repeat them:
  the field is set when the guard holds and the conversion succeeds, the handler
  returns with the error when it fails, and the field stays unset otherwise.
\<close>

definition optional_url ::
  "library \<Rightarrow> string \<Rightarrow> types_String \<Rightarrow> diagnostic list + URL OptNil" where
  "optional_url lib summary v =
     (if \<not> IsNull v
      then (case url_Parse lib (ValueString v) of
              Inl err \<Rightarrow> Inl [Error summary err]
            | Inr u \<Rightarrow> Inr (NewOptNil u))
      else Inr (zero_OptNil []))"

definition optional_list :: "types_List \<Rightarrow> diagnostic list + string list OptNil" where
  "optional_list v =
     (if \<not> IsNull v \<and> \<not> IsUnknown v
      then (case ElementsAs v of Inl ds \<Rightarrow> Inl ds | Inr xs \<Rightarrow> Inr (NewOptNil xs))
      else Inr (zero_OptNil []))"

text \<open>
  \<^verbatim>\<open>Create\<close> up to the remote call, in the order of its early returns: authorization
  URL, token URL, grant types, default scopes, userinfo URL, icon URL, homepage URL.
\<close>

definition OAuthServiceResource_Create_request ::
  "library \<Rightarrow> OAuthServiceResourceModel \<Rightarrow> diagnostic list + OAuthServiceCreate" where
  "OAuthServiceResource_Create_request lib plan =
     (case url_Parse lib (ValueString (oa_AuthorizationURL plan)) of
        Inl err \<Rightarrow> Inl [Error ''Invalid authorization URL'' err]
      | Inr authURL \<Rightarrow>
     (case url_Parse lib (ValueString (oa_TokenURL plan)) of
        Inl err \<Rightarrow> Inl [Error ''Invalid token URL'' err]
      | Inr tokenURL \<Rightarrow>
     (case (if \<not> IsNull (oa_SupportedGrantTypes plan)
               \<and> \<not> IsUnknown (oa_SupportedGrantTypes plan)
            then ElementsAs (oa_SupportedGrantTypes plan) else Inr []) of
        Inl ds \<Rightarrow> Inl ds
      | Inr supportedGrantTypes \<Rightarrow>
     (case optional_list (oa_DefaultScopes plan) of
        Inl ds \<Rightarrow> Inl ds
      | Inr req_DefaultScopes \<Rightarrow>
     (case optional_url lib ''Invalid userinfo URL'' (oa_UserinfoURL plan) of
        Inl ds \<Rightarrow> Inl ds
      | Inr req_UserinfoURL \<Rightarrow>
     (case optional_url lib ''Invalid icon URL'' (oa_IconURL plan) of
        Inl ds \<Rightarrow> Inl ds
      | Inr req_IconURL \<Rightarrow>
     (case optional_url lib ''Invalid homepage URL'' (oa_HomepageURL plan) of
        Inl ds \<Rightarrow> Inl ds
      | Inr req_HomepageURL \<Rightarrow>
         Inr \<lparr>oc_Name = ValueString (oa_Name plan),
              oc_DisplayName = ValueString (oa_DisplayName plan),
              oc_ClientID = ValueString (oa_ClientID plan),
              oc_ClientSecret = ValueString (oa_ClientSecret plan),
              oc_AuthorizationURL = authURL,
              oc_TokenURL = tokenURL,
              oc_SupportedGrantTypes = supportedGrantTypes,
              oc_Description = (if \<not> IsNull (oa_Description plan)
                  then NewOptNil (ValueString (oa_Description plan)) else zero_OptNil []),
              oc_DefaultScopes = req_DefaultScopes,
              oc_UserinfoURL = req_UserinfoURL,
              oc_IsActive = (if \<not> IsNull (oa_IsActive plan)
                  then NewOpt (ValueBool (oa_IsActive plan)) else zero_Opt False),
              oc_IconURL = req_IconURL,
              oc_HomepageURL = req_HomepageURL\<rparr>)))))))"

text \<open>
  The assignments after a response. The name, the client identifier and the client
  secret are not assigned; \<^verbatim>\<open>Create\<close> assigns the identifier, \<^verbatim>\<open>Create\<close> and
  \<^verbatim>\<open>Read\<close> assign the creation time.
\<close>

definition nilable_string :: "string OptNil \<Rightarrow> types_String" where
  "nilable_string v = (if \<not> OptNil_Null v then TfValue (OptNil_Value v) else TfNull)"

definition OAuthServiceResource_merge ::
  "library \<Rightarrow> bool \<Rightarrow> bool \<Rightarrow> OAuthServiceResponse \<Rightarrow> OAuthServiceResourceModel
     \<Rightarrow> OAuthServiceResourceModel" where
  "OAuthServiceResource_merge lib with_id with_created result m =
     m\<lparr>oa_ID := (if with_id then TfValue (uuid_String lib (or_ID result)) else oa_ID m),
       oa_DisplayName := TfValue (or_DisplayName result),
       oa_AuthorizationURL := TfValue (or_AuthorizationURL result),
       oa_TokenURL := TfValue (or_TokenURL result),
       oa_IsActive := TfValue (or_IsActive result),
       oa_CreatedAt := (if with_created then TfValue (time_String lib (or_CreatedAt result))
                        else oa_CreatedAt m),
       oa_UpdatedAt := TfValue (time_String lib (or_UpdatedAt result)),
       oa_Description := nilable_string (or_Description result),
       oa_UserinfoURL := nilable_string (or_UserinfoURL result),
       oa_IconURL := nilable_string (or_IconURL result),
       oa_HomepageURL := nilable_string (or_HomepageURL result),
       oa_DefaultScopes := TfValue (map TfValue (or_DefaultScopes result)),
       oa_SupportedGrantTypes := TfValue (map TfValue (or_SupportedGrantTypes result))\<rparr>"

definition OAuthServiceResource_Create ::
  "library \<Rightarrow> OAuthServiceClient \<Rightarrow> OAuthServiceResourceModel
     \<Rightarrow> (OAuthServiceResourceModel, OAuthServiceCall) outcome" where
  "OAuthServiceResource_Create lib client plan =
     (case OAuthServiceResource_Create_request lib plan of
        Inl ds \<Rightarrow> \<lparr>Diagnostics = ds, Calls = [], State = NoStateWrite\<rparr>
      | Inr createReq \<Rightarrow>
         (case CreateOAuthService client createReq of
            Inl err \<Rightarrow>
              \<lparr>Diagnostics = [Error ''Error creating OAuth service''
                                (''Could not create OAuth service: '' @ err)],
               Calls = [Call_CreateOAuthService createReq], State = NoStateWrite\<rparr>
          | Inr (Other2 t) \<Rightarrow>
              \<lparr>Diagnostics = [Error ''Unexpected response type''
                                (''Expected *v1.OAuthServiceResponse, got: '' @ t)],
               Calls = [Call_CreateOAuthService createReq], State = NoStateWrite\<rparr>
          | Inr (Ok2 result) \<Rightarrow>
              \<lparr>Diagnostics = [], Calls = [Call_CreateOAuthService createReq],
               State = SetState (OAuthServiceResource_merge lib True True result plan)\<rparr>))"

definition OAuthServiceResource_Read ::
  "library \<Rightarrow> OAuthServiceClient \<Rightarrow> OAuthServiceResourceModel
     \<Rightarrow> (OAuthServiceResourceModel, OAuthServiceCall) outcome" where
  "OAuthServiceResource_Read lib client state =
     (case uuid_Parse lib (ValueString (oa_ID state)) of
        Inl err \<Rightarrow>
          \<lparr>Diagnostics = [Error ''Invalid OAuth Service ID'' err], Calls = [],
           State = NoStateWrite\<rparr>
      | Inr serviceID \<Rightarrow>
         (case GetOAuthService client serviceID of
            Inl err \<Rightarrow>
              \<lparr>Diagnostics = [Error ''Error reading OAuth service''
                 (''Could not read OAuth service ID '' @ ValueString (oa_ID state)
                    @ '': '' @ err)],
               Calls = [Call_GetOAuthService serviceID], State = NoStateWrite\<rparr>
          | Inr NotFound3 \<Rightarrow>
              \<lparr>Diagnostics = [], Calls = [Call_GetOAuthService serviceID],
               State = RemoveResource\<rparr>
          | Inr (Other3 t) \<Rightarrow>
              \<lparr>Diagnostics = [Error ''Unexpected response type''
                 (''Expected *v1.OAuthServiceResponse, got: '' @ t)],
               Calls = [Call_GetOAuthService serviceID], State = NoStateWrite\<rparr>
          | Inr (Ok3 result) \<Rightarrow>
              \<lparr>Diagnostics = [], Calls = [Call_GetOAuthService serviceID],
               State = SetState (OAuthServiceResource_merge lib False True result state)\<rparr>))"

text \<open>
  \<^verbatim>\<open>Update\<close> reads the plan only. Its early returns come in the order identifier,
  authorization URL, token URL, default scopes, grant types, userinfo URL, icon URL,
  homepage URL.
\<close>

definition OAuthServiceResource_Update_request ::
  "library \<Rightarrow> OAuthServiceResourceModel \<Rightarrow> diagnostic list + OAuthServiceUpdate" where
  "OAuthServiceResource_Update_request lib plan =
     (case optional_url lib ''Invalid authorization URL'' (oa_AuthorizationURL plan) of
        Inl ds \<Rightarrow> Inl ds
      | Inr req_AuthorizationURL \<Rightarrow>
     (case optional_url lib ''Invalid token URL'' (oa_TokenURL plan) of
        Inl ds \<Rightarrow> Inl ds
      | Inr req_TokenURL \<Rightarrow>
     (case optional_list (oa_DefaultScopes plan) of
        Inl ds \<Rightarrow> Inl ds
      | Inr req_DefaultScopes \<Rightarrow>
     (case optional_list (oa_SupportedGrantTypes plan) of
        Inl ds \<Rightarrow> Inl ds
      | Inr req_SupportedGrantTypes \<Rightarrow>
     (case optional_url lib ''Invalid userinfo URL'' (oa_UserinfoURL plan) of
        Inl ds \<Rightarrow> Inl ds
      | Inr req_UserinfoURL \<Rightarrow>
     (case optional_url lib ''Invalid icon URL'' (oa_IconURL plan) of
        Inl ds \<Rightarrow> Inl ds
      | Inr req_IconURL \<Rightarrow>
     (case optional_url lib ''Invalid homepage URL'' (oa_HomepageURL plan) of
        Inl ds \<Rightarrow> Inl ds
      | Inr req_HomepageURL \<Rightarrow>
         Inr \<lparr>ou_DisplayName = (if \<not> IsNull (oa_DisplayName plan)
                  then NewOptNil (ValueString (oa_DisplayName plan)) else zero_OptNil []),
              ou_ClientID = (if \<not> IsNull (oa_ClientID plan)
                  then NewOptNil (ValueString (oa_ClientID plan)) else zero_OptNil []),
              ou_ClientSecret = (if \<not> IsNull (oa_ClientSecret plan)
                  then NewOptNil (ValueString (oa_ClientSecret plan)) else zero_OptNil []),
              ou_AuthorizationURL = req_AuthorizationURL,
              ou_TokenURL = req_TokenURL,
              ou_Description = (if \<not> IsNull (oa_Description plan)
                  then NewOptNil (ValueString (oa_Description plan)) else zero_OptNil []),
              ou_DefaultScopes = req_DefaultScopes,
              ou_SupportedGrantTypes = req_SupportedGrantTypes,
              ou_UserinfoURL = req_UserinfoURL,
              ou_IsActive = (if \<not> IsNull (oa_IsActive plan)
                  then NewOptNil (ValueBool (oa_IsActive plan)) else zero_OptNil False),
              ou_IconURL = req_IconURL,
              ou_HomepageURL = req_HomepageURL\<rparr>)))))))"

definition OAuthServiceResource_Update ::
  "library \<Rightarrow> OAuthServiceClient \<Rightarrow> OAuthServiceResourceModel \<Rightarrow> OAuthServiceResourceModel
     \<Rightarrow> (OAuthServiceResourceModel, OAuthServiceCall) outcome" where
  "OAuthServiceResource_Update lib client plan state =
     (case uuid_Parse lib (ValueString (oa_ID plan)) of
        Inl err \<Rightarrow>
          \<lparr>Diagnostics = [Error ''Invalid OAuth Service ID'' err], Calls = [],
           State = NoStateWrite\<rparr>
      | Inr serviceID \<Rightarrow>
     (case OAuthServiceResource_Update_request lib plan of
        Inl ds \<Rightarrow> \<lparr>Diagnostics = ds, Calls = [], State = NoStateWrite\<rparr>
      | Inr updateReq \<Rightarrow>
         (case UpdateOAuthService client updateReq serviceID of
            Inl err \<Rightarrow>
              \<lparr>Diagnostics = [Error ''Error updating OAuth service''
                                (''Could not update OAuth service: '' @ err)],
               Calls = [Call_UpdateOAuthService updateReq serviceID], State = NoStateWrite\<rparr>
          | Inr (Other2 t) \<Rightarrow>
              \<lparr>Diagnostics = [Error ''Unexpected response type''
                                (''Expected *v1.OAuthServiceResponse, got: '' @ t)],
               Calls = [Call_UpdateOAuthService updateReq serviceID], State = NoStateWrite\<rparr>
          | Inr (Ok2 result) \<Rightarrow>
              \<lparr>Diagnostics = [], Calls = [Call_UpdateOAuthService updateReq serviceID],
               State = SetState (OAuthServiceResource_merge lib False False result plan)\<rparr>)))"

section \<open>devgraph\_discovery\_provider\<close>

record DiscoveryProviderResourceModel =
  dp_ID :: types_String
  dp_Name :: types_String
  dp_ProviderType :: types_String
  dp_Enabled :: types_Bool
  dp_Interval :: types_Int64
  dp_Config :: types_String

text \<open>
  \<^verbatim>\<open>json.Unmarshal\<close> into a \<^verbatim>\<open>map[string]interface{}\<close> and \<^verbatim>\<open>json.Marshal\<close> of a
  decoded value are parameters too. A decoded map is given as the list of its entries in
  the order the \<^verbatim>\<open>range\<close> loop visits them. A Go \<^verbatim>\<open>int\<close> has 64 bits on the platforms
  the provider is built for, so the conversions between \<^verbatim>\<open>int\<close> and \<^verbatim>\<open>int64\<close> keep
  the value.
\<close>

record 'v encoding_json =
  json_Unmarshal :: "string \<Rightarrow> string + (string \<times> 'v) list"
  json_Marshal :: "'v \<Rightarrow> string + jx_Raw"

record ConfiguredProviderCreate =
  cc_Name :: string
  cc_ProviderType :: string
  cc_Config :: "(string, jx_Raw) fmap"
  cc_Enabled :: "bool Opt"
  cc_Interval :: "64 word Opt"

record ConfiguredProviderUpdate =
  cu_Name :: "string OptNil"
  cu_Enabled :: "bool OptNil"
  cu_Interval :: "64 word OptNil"
  cu_Config :: "(string, jx_Raw) fmap OptNil"

text \<open>
  The response carries a configuration as well, with its secrets masked, as the
  comments of the handlers say; no handler reads it.
\<close>

record ConfiguredProviderResponse =
  cr_ID :: uuid
  cr_Name :: string
  cr_ProviderType :: string
  cr_Enabled :: bool
  cr_Interval :: "64 word"
  cr_Config :: "(string, jx_Raw) fmap"

datatype DiscoveryProviderCall =
  Call_CreateConfiguredProvider ConfiguredProviderCreate
| Call_GetConfiguredProvider uuid
| Call_UpdateConfiguredProvider ConfiguredProviderUpdate uuid

record DiscoveryProviderClient =
  CreateConfiguredProvider ::
    "ConfiguredProviderCreate \<Rightarrow> string + ConfiguredProviderResponse response3"
  GetConfiguredProvider :: "uuid \<Rightarrow> string + ConfiguredProviderResponse response3"
  UpdateConfiguredProvider ::
    "ConfiguredProviderUpdate \<Rightarrow> uuid \<Rightarrow> string + ConfiguredProviderResponse response2"

text \<open>The loop that re-encodes every value of the decoded configuration.\<close>

fun encode_config ::
  "('v \<Rightarrow> string + jx_Raw) \<Rightarrow> (string \<times> 'v) list \<Rightarrow> (string, jx_Raw) fmap
     \<Rightarrow> diagnostic list + (string, jx_Raw) fmap" where
  "encode_config marshal [] configMap = Inr configMap"
| "encode_config marshal ((key, v) # rest) configMap =
     (case marshal v of
        Inl err \<Rightarrow>
          Inl [Error ''Error encoding config value''
                 (''Could not encode value for key '' @ key @ '': '' @ err)]
      | Inr valueJSON \<Rightarrow> encode_config marshal rest (fmupd key valueJSON configMap))"

text \<open>Validation and conversion of the configuration string.\<close>

definition parse_config ::
  "'v encoding_json \<Rightarrow> string \<Rightarrow> diagnostic list + (string, jx_Raw) fmap" where
  "parse_config js configJSON =
     (case json_Unmarshal js configJSON of
        Inl err \<Rightarrow>
          Inl [Error ''Invalid Config JSON'' (''Could not parse config as JSON: '' @ err)]
      | Inr validateMap \<Rightarrow> encode_config (json_Marshal js) validateMap fmempty)"

definition DiscoveryProviderResource_merge ::
  "library \<Rightarrow> bool \<Rightarrow> ConfiguredProviderResponse \<Rightarrow> DiscoveryProviderResourceModel
     \<Rightarrow> DiscoveryProviderResourceModel" where
  "DiscoveryProviderResource_merge lib with_id result m =
     m\<lparr>dp_ID := (if with_id then TfValue (uuid_String lib (cr_ID result)) else dp_ID m),
       dp_Name := TfValue (cr_Name result),
       dp_ProviderType := TfValue (cr_ProviderType result),
       dp_Enabled := TfValue (cr_Enabled result),
       dp_Interval := TfValue (cr_Interval result)\<rparr>"

text \<open>\<^verbatim>\<open>Create\<close> up to the remote call: the configuration first, then the request.\<close>

definition DiscoveryProviderResource_Create_request ::
  "'v encoding_json \<Rightarrow> DiscoveryProviderResourceModel
     \<Rightarrow> diagnostic list + ConfiguredProviderCreate" where
  "DiscoveryProviderResource_Create_request js plan =
     (case parse_config js (ValueString (dp_Config plan)) of
        Inl ds \<Rightarrow> Inl ds
      | Inr configMap \<Rightarrow>
          Inr \<lparr>cc_Name = ValueString (dp_Name plan),
               cc_ProviderType = ValueString (dp_ProviderType plan),
               cc_Config = configMap,
               cc_Enabled = (if \<not> IsNull (dp_Enabled plan)
                             then NewOpt (ValueBool (dp_Enabled plan)) else zero_Opt False),
               cc_Interval = (if \<not> IsNull (dp_Interval plan)
                              then NewOpt (ValueInt64 (dp_Interval plan))
                              else zero_Opt 0)\<rparr>)"

definition DiscoveryProviderResource_Create ::
  "'v encoding_json \<Rightarrow> library \<Rightarrow> DiscoveryProviderClient \<Rightarrow> DiscoveryProviderResourceModel
     \<Rightarrow> (DiscoveryProviderResourceModel, DiscoveryProviderCall) outcome" where
  "DiscoveryProviderResource_Create js lib client plan =
     (case DiscoveryProviderResource_Create_request js plan of
        Inl ds \<Rightarrow> \<lparr>Diagnostics = ds, Calls = [], State = NoStateWrite\<rparr>
      | Inr createReq \<Rightarrow>
         (case CreateConfiguredProvider client createReq of
            Inl err \<Rightarrow>
              \<lparr>Diagnostics = [Error ''Error creating discovery provider''
                                (''Could not create discovery provider: '' @ err)],
               Calls = [Call_CreateConfiguredProvider createReq], State = NoStateWrite\<rparr>
          | Inr (Ok3 result) \<Rightarrow>
              \<lparr>Diagnostics = [], Calls = [Call_CreateConfiguredProvider createReq],
               State = SetState (DiscoveryProviderResource_merge lib True result plan)\<rparr>
          | Inr NotFound3 \<Rightarrow>
              \<lparr>Diagnostics = [Error ''Provider type not found''
                 (''The provider type '' @ [CHR 0x27] @ ValueString (dp_ProviderType plan)
                    @ [CHR 0x27] @ '' was not found. Check that it''
                    @ [CHR 0x27] @ ''s a valid provider type ''
                    @ ''(github, gitlab, argo, vercel, docker, file, fossa).'')],
               Calls = [Call_CreateConfiguredProvider createReq], State = NoStateWrite\<rparr>
          | Inr (Other3 t) \<Rightarrow>
              \<lparr>Diagnostics = [Error ''Unexpected response type''
                 (''Expected *v1.ConfiguredProviderResponse, got: '' @ t)],
               Calls = [Call_CreateConfiguredProvider createReq], State = NoStateWrite\<rparr>))"

definition DiscoveryProviderResource_Read ::
  "library \<Rightarrow> DiscoveryProviderClient \<Rightarrow> DiscoveryProviderResourceModel
     \<Rightarrow> (DiscoveryProviderResourceModel, DiscoveryProviderCall) outcome" where
  "DiscoveryProviderResource_Read lib client state =
     (case uuid_Parse lib (ValueString (dp_ID state)) of
        Inl err \<Rightarrow>
          \<lparr>Diagnostics = [Error ''Invalid provider ID''
                            (''Could not parse provider ID as UUID: '' @ err)],
           Calls = [], State = NoStateWrite\<rparr>
      | Inr providerID \<Rightarrow>
         (case GetConfiguredProvider client providerID of
            Inl err \<Rightarrow>
              \<lparr>Diagnostics = [Error ''Error reading discovery provider''
                                (''Could not read discovery provider: '' @ err)],
               Calls = [Call_GetConfiguredProvider providerID], State = NoStateWrite\<rparr>
          | Inr (Ok3 result) \<Rightarrow>
              \<lparr>Diagnostics = [], Calls = [Call_GetConfiguredProvider providerID],
               State = SetState (DiscoveryProviderResource_merge lib False result state)\<rparr>
          | Inr NotFound3 \<Rightarrow>
              \<lparr>Diagnostics = [], Calls = [Call_GetConfiguredProvider providerID],
               State = RemoveResource\<rparr>
          | Inr (Other3 t) \<Rightarrow>
              \<lparr>Diagnostics = [Error ''Unexpected response type''
                 (''Expected *v1.ConfiguredProviderResponse, got: '' @ t)],
               Calls = [Call_GetConfiguredProvider providerID], State = NoStateWrite\<rparr>))"

text \<open>
  \<^verbatim>\<open>Update\<close>: name, enabled, interval and configuration are compared with the prior
  state; a changed configuration is validated and converted last.
\<close>

definition DiscoveryProviderResource_Update_request ::
  "'v encoding_json \<Rightarrow> DiscoveryProviderResourceModel \<Rightarrow> DiscoveryProviderResourceModel
     \<Rightarrow> diagnostic list + ConfiguredProviderUpdate" where
  "DiscoveryProviderResource_Update_request js plan state =
     (case (if \<not> Equal (dp_Config plan) (dp_Config state)
            then (case parse_config js (ValueString (dp_Config plan)) of
                    Inl ds \<Rightarrow> Inl ds
                  | Inr configMap \<Rightarrow> Inr (NewOptNil configMap))
            else Inr (zero_OptNil fmempty)) of
        Inl ds \<Rightarrow> Inl ds
      | Inr req_Config \<Rightarrow>
          Inr \<lparr>cu_Name = (if \<not> Equal (dp_Name plan) (dp_Name state)
                           then NewOptNil (ValueString (dp_Name plan)) else zero_OptNil []),
               cu_Enabled = (if \<not> Equal (dp_Enabled plan) (dp_Enabled state)
                              then NewOptNil (ValueBool (dp_Enabled plan))
                              else zero_OptNil False),
               cu_Interval = (if \<not> Equal (dp_Interval plan) (dp_Interval state)
                               then NewOptNil (ValueInt64 (dp_Interval plan))
                               else zero_OptNil 0),
               cu_Config = req_Config\<rparr>)"

definition DiscoveryProviderResource_Update ::
  "'v encoding_json \<Rightarrow> library \<Rightarrow> DiscoveryProviderClient \<Rightarrow> DiscoveryProviderResourceModel
     \<Rightarrow> DiscoveryProviderResourceModel
     \<Rightarrow> (DiscoveryProviderResourceModel, DiscoveryProviderCall) outcome" where
  "DiscoveryProviderResource_Update js lib client plan state =
     (case uuid_Parse lib (ValueString (dp_ID state)) of
        Inl err \<Rightarrow>
          \<lparr>Diagnostics = [Error ''Invalid provider ID''
                            (''Could not parse provider ID as UUID: '' @ err)],
           Calls = [], State = NoStateWrite\<rparr>
      | Inr providerID \<Rightarrow>
     (case DiscoveryProviderResource_Update_request js plan state of
        Inl ds \<Rightarrow> \<lparr>Diagnostics = ds, Calls = [], State = NoStateWrite\<rparr>
      | Inr updateReq \<Rightarrow>
         (case UpdateConfiguredProvider client updateReq providerID of
            Inl err \<Rightarrow>
              \<lparr>Diagnostics = [Error ''Error updating discovery provider''
                                (''Could not update discovery provider: '' @ err)],
               Calls = [Call_UpdateConfiguredProvider updateReq providerID],
               State = NoStateWrite\<rparr>
          | Inr (Other2 t) \<Rightarrow>
              \<lparr>Diagnostics = [Error ''Unexpected response type''
                 (''Expected *v1.ConfiguredProviderResponse, got: '' @ t)],
               Calls = [Call_UpdateConfiguredProvider updateReq providerID],
               State = NoStateWrite\<rparr>
          | Inr (Ok2 result) \<Rightarrow>
              \<lparr>Diagnostics = [], Calls = [Call_UpdateConfiguredProvider updateReq providerID],
               State = SetState (DiscoveryProviderResource_merge lib True result plan)\<rparr>)))"

section \<open>devgraph\_environment\<close>

record EnvironmentResourceModel =
  env_ID :: types_String
  env_Name :: types_String
  env_Slug :: types_String
  env_ClerkOrganizationID :: types_String
  env_CustomerID :: types_String
  env_SubscriptionID :: types_String
  env_InvitedUsers :: types_List
  env_StripeSubscriptionID :: types_String
  env_InstanceURL :: types_String

record EnvironmentCreate =
  vc_Name :: string
  vc_StripeSubscriptionID :: string
  vc_InstanceURL :: string
  vc_InvitedUsers :: "string list"

record EnvironmentResponse =
  vr_ID :: uuid
  vr_Name :: string
  vr_Slug :: string
  vr_ClerkOrganizationID :: string
  vr_CustomerID :: string
  vr_SubscriptionID :: uuid

datatype EnvironmentCall =
  Call_CreateEnvironment EnvironmentCreate
| Call_GetEnvironments

record EnvironmentClient =
  CreateEnvironment :: "EnvironmentCreate \<Rightarrow> string + EnvironmentResponse response2"
  GetEnvironments :: "string + EnvironmentResponse list response2"

text \<open>
  The assignments from an environment of a response; \<^verbatim>\<open>Create\<close> assigns the identifier
  first, the loop of \<^verbatim>\<open>Read\<close> does not.
\<close>

definition EnvironmentResource_merge ::
  "library \<Rightarrow> bool \<Rightarrow> EnvironmentResponse \<Rightarrow> EnvironmentResourceModel
     \<Rightarrow> EnvironmentResourceModel" where
  "EnvironmentResource_merge lib with_id env m =
     m\<lparr>env_ID := (if with_id then TfValue (uuid_String lib (vr_ID env)) else env_ID m),
       env_Name := TfValue (vr_Name env),
       env_Slug := TfValue (vr_Slug env),
       env_ClerkOrganizationID := TfValue (vr_ClerkOrganizationID env),
       env_CustomerID := TfValue (vr_CustomerID env),
       env_SubscriptionID := TfValue (uuid_String lib (vr_SubscriptionID env))\<rparr>"

text \<open>\<^verbatim>\<open>Create\<close> up to the remote call.\<close>

definition EnvironmentResource_Create_request ::
  "EnvironmentResourceModel \<Rightarrow> diagnostic list + EnvironmentCreate" where
  "EnvironmentResource_Create_request plan =
     (case (if \<not> IsNull (env_InvitedUsers plan) then ElementsAs (env_InvitedUsers plan)
            else Inr []) of
        Inl ds \<Rightarrow> Inl ds
      | Inr invitedUsers \<Rightarrow>
          Inr \<lparr>vc_Name = ValueString (env_Name plan),
               vc_StripeSubscriptionID = ValueString (env_StripeSubscriptionID plan),
               vc_InstanceURL = ValueString (env_InstanceURL plan),
               vc_InvitedUsers = invitedUsers\<rparr>)"

definition EnvironmentResource_Create ::
  "library \<Rightarrow> EnvironmentClient \<Rightarrow> EnvironmentResourceModel
     \<Rightarrow> (EnvironmentResourceModel, EnvironmentCall) outcome" where
  "EnvironmentResource_Create lib client plan =
     (case EnvironmentResource_Create_request plan of
        Inl ds \<Rightarrow> \<lparr>Diagnostics = ds, Calls = [], State = NoStateWrite\<rparr>
      | Inr createReq \<Rightarrow>
         (case CreateEnvironment client createReq of
            Inl err \<Rightarrow>
              \<lparr>Diagnostics = [Error ''Error creating environment''
                                (''Could not create environment: '' @ err)],
               Calls = [Call_CreateEnvironment createReq], State = NoStateWrite\<rparr>
          | Inr (Other2 t) \<Rightarrow>
              \<lparr>Diagnostics = [Error ''Unexpected response type''
                                (''Expected *v1.EnvironmentResponse, got: '' @ t)],
               Calls = [Call_CreateEnvironment createReq], State = NoStateWrite\<rparr>
          | Inr (Ok2 result) \<Rightarrow>
              \<lparr>Diagnostics = [], Calls = [Call_CreateEnvironment createReq],
               State = SetState (EnvironmentResource_merge lib True result plan)\<rparr>))"

text \<open>
  The loop of \<^verbatim>\<open>Read\<close> over the listed environments: the first one whose identifier
  prints as the stored identifier is copied into the state and ends the loop. The
  result is the state and the flag \<^verbatim>\<open>found\<close>.
\<close>

fun EnvironmentResource_Read_loop ::
  "library \<Rightarrow> EnvironmentResponse list \<Rightarrow> EnvironmentResourceModel
     \<Rightarrow> EnvironmentResourceModel \<times> bool" where
  "EnvironmentResource_Read_loop lib [] state = (state, False)"
| "EnvironmentResource_Read_loop lib (env # environments) state =
     (if uuid_String lib (vr_ID env) = ValueString (env_ID state)
      then (EnvironmentResource_merge lib False env state, True)
      else EnvironmentResource_Read_loop lib environments state)"

definition EnvironmentResource_Read ::
  "library \<Rightarrow> EnvironmentClient \<Rightarrow> EnvironmentResourceModel
     \<Rightarrow> (EnvironmentResourceModel, EnvironmentCall) outcome" where
  "EnvironmentResource_Read lib client state =
     (case GetEnvironments client of
        Inl err \<Rightarrow>
          \<lparr>Diagnostics = [Error ''Error reading environments''
                            (''Could not read environments: '' @ err)],
           Calls = [Call_GetEnvironments], State = NoStateWrite\<rparr>
      | Inr (Other2 t) \<Rightarrow>
          \<lparr>Diagnostics = [Error ''Unexpected response type''
             (''Expected *v1.GetEnvironmentsOKApplicationJSON, got: '' @ t)],
           Calls = [Call_GetEnvironments], State = NoStateWrite\<rparr>
      | Inr (Ok2 environments) \<Rightarrow>
         (case EnvironmentResource_Read_loop lib environments state of
            (state', found) \<Rightarrow>
              if \<not> found
              then \<lparr>Diagnostics = [], Calls = [Call_GetEnvironments], State = RemoveResource\<rparr>
              else \<lparr>Diagnostics = [], Calls = [Call_GetEnvironments],
                    State = SetState state'\<rparr>))"

text \<open>\<^verbatim>\<open>Update\<close> and \<^verbatim>\<open>Delete\<close> only add an error.\<close>

definition EnvironmentResource_Update ::
  "EnvironmentClient \<Rightarrow> EnvironmentResourceModel \<Rightarrow> EnvironmentResourceModel
     \<Rightarrow> (EnvironmentResourceModel, EnvironmentCall) outcome" where
  "EnvironmentResource_Update client plan state =
     \<lparr>Diagnostics = [Error ''Update not supported''
        (''Environments cannot be updated after creation. ''
           @ ''Please destroy and recreate the resource.'')],
      Calls = [], State = NoStateWrite\<rparr>"

definition EnvironmentResource_Delete ::
  "EnvironmentClient \<Rightarrow> EnvironmentResourceModel
     \<Rightarrow> (EnvironmentResourceModel, EnvironmentCall) outcome" where
  "EnvironmentResource_Delete client state =
     \<lparr>Diagnostics = [Error ''Delete not supported''
        (''Environments cannot be deleted through the API. ''
           @ ''Please manage environment deletion through the Devgraph console.'')],
      Calls = [], State = NoStateWrite\<rparr>"

section \<open>devgraph\_chat\_suggestion\<close>

record ChatSuggestionResourceModel =
  cs_ID :: types_String
  cs_Title :: types_String
  cs_Label :: types_String
  cs_Action :: types_String
  cs_Active :: types_Bool

record ChatSuggestionCreate =
  sc_Title :: string
  sc_Label :: string
  sc_Action :: string
  sc_Active :: "bool Opt"

record ChatSuggestionResponse =
  sr_ID :: uuid
  sr_Title :: string
  sr_Label :: string
  sr_Action :: string
  sr_Active :: "bool Opt"

datatype ChatSuggestionCall =
  Call_CreateChatSuggestion ChatSuggestionCreate
| Call_ListChatSuggestions

record ChatSuggestionClient =
  CreateChatSuggestion ::
    "ChatSuggestionCreate \<Rightarrow> string + ChatSuggestionResponse response2"
  ListChatSuggestions :: "string + ChatSuggestionResponse list response2"

text \<open>
  The assignments from a suggestion of a response; \<^verbatim>\<open>Create\<close> assigns the identifier
  first, the loop of \<^verbatim>\<open>Read\<close> does not.
\<close>

definition ChatSuggestionResource_merge ::
  "library \<Rightarrow> bool \<Rightarrow> ChatSuggestionResponse \<Rightarrow> ChatSuggestionResourceModel
     \<Rightarrow> ChatSuggestionResourceModel" where
  "ChatSuggestionResource_merge lib with_id suggestion m =
     m\<lparr>cs_ID := (if with_id then TfValue (uuid_String lib (sr_ID suggestion)) else cs_ID m),
       cs_Title := TfValue (sr_Title suggestion),
       cs_Label := TfValue (sr_Label suggestion),
       cs_Action := TfValue (sr_Action suggestion),
       cs_Active := (if Opt_Set (sr_Active suggestion)
                     then TfValue (Opt_Value (sr_Active suggestion)) else cs_Active m)\<rparr>"

text \<open>The request of \<^verbatim>\<open>Create\<close>.\<close>

definition ChatSuggestionResource_Create_request ::
  "ChatSuggestionResourceModel \<Rightarrow> ChatSuggestionCreate" where
  "ChatSuggestionResource_Create_request plan =
     \<lparr>sc_Title = ValueString (cs_Title plan),
      sc_Label = ValueString (cs_Label plan),
      sc_Action = ValueString (cs_Action plan),
      sc_Active = (if \<not> IsNull (cs_Active plan)
                   then NewOpt (ValueBool (cs_Active plan)) else zero_Opt False)\<rparr>"

definition ChatSuggestionResource_Create ::
  "library \<Rightarrow> ChatSuggestionClient \<Rightarrow> ChatSuggestionResourceModel
     \<Rightarrow> (ChatSuggestionResourceModel, ChatSuggestionCall) outcome" where
  "ChatSuggestionResource_Create lib client plan =
     (case CreateChatSuggestion client (ChatSuggestionResource_Create_request plan) of
        Inl err \<Rightarrow>
          \<lparr>Diagnostics = [Error ''Error creating chat suggestion''
                            (''Could not create chat suggestion: '' @ err)],
           Calls = [Call_CreateChatSuggestion (ChatSuggestionResource_Create_request plan)], State = NoStateWrite\<rparr>
      | Inr (Other2 t) \<Rightarrow>
          \<lparr>Diagnostics = [Error ''Unexpected response type''
                            (''Expected *v1.ChatSuggestionResponse, got: '' @ t)],
           Calls = [Call_CreateChatSuggestion (ChatSuggestionResource_Create_request plan)], State = NoStateWrite\<rparr>
      | Inr (Ok2 result) \<Rightarrow>
          \<lparr>Diagnostics = [], Calls = [Call_CreateChatSuggestion (ChatSuggestionResource_Create_request plan)],
           State = SetState (ChatSuggestionResource_merge lib True result plan)\<rparr>)"

text \<open>
  The loop of \<^verbatim>\<open>Read\<close> over the listed suggestions, which compares the identifiers
  as UUIDs.
\<close>

fun ChatSuggestionResource_Read_loop ::
  "library \<Rightarrow> uuid \<Rightarrow> ChatSuggestionResponse list \<Rightarrow> ChatSuggestionResourceModel
     \<Rightarrow> ChatSuggestionResourceModel \<times> bool" where
  "ChatSuggestionResource_Read_loop lib suggestionID [] state = (state, False)"
| "ChatSuggestionResource_Read_loop lib suggestionID (suggestion # suggestions) state =
     (if sr_ID suggestion = suggestionID
      then (ChatSuggestionResource_merge lib False suggestion state, True)
      else ChatSuggestionResource_Read_loop lib suggestionID suggestions state)"

definition ChatSuggestionResource_Read ::
  "library \<Rightarrow> ChatSuggestionClient \<Rightarrow> ChatSuggestionResourceModel
     \<Rightarrow> (ChatSuggestionResourceModel, ChatSuggestionCall) outcome" where
  "ChatSuggestionResource_Read lib client state =
     (case uuid_Parse lib (ValueString (cs_ID state)) of
        Inl err \<Rightarrow>
          \<lparr>Diagnostics = [Error ''Invalid suggestion ID''
                            (''Could not parse suggestion ID as UUID: '' @ err)],
           Calls = [], State = NoStateWrite\<rparr>
      | Inr suggestionID \<Rightarrow>
     (case ListChatSuggestions client of
        Inl err \<Rightarrow>
          \<lparr>Diagnostics = [Error ''Error reading chat suggestions''
                            (''Could not read chat suggestions: '' @ err)],
           Calls = [Call_ListChatSuggestions], State = NoStateWrite\<rparr>
      | Inr (Other2 t) \<Rightarrow>
          \<lparr>Diagnostics = [Error ''Unexpected response type''
             (''Expected *v1.ListChatSuggestionsOKApplicationJSON, got: '' @ t)],
           Calls = [Call_ListChatSuggestions], State = NoStateWrite\<rparr>
      | Inr (Ok2 suggestions) \<Rightarrow>
         (case ChatSuggestionResource_Read_loop lib suggestionID suggestions state of
            (state', found) \<Rightarrow>
              if \<not> found
              then \<lparr>Diagnostics = [], Calls = [Call_ListChatSuggestions],
                    State = RemoveResource\<rparr>
              else \<lparr>Diagnostics = [], Calls = [Call_ListChatSuggestions],
                    State = SetState state'\<rparr>)))"

definition ChatSuggestionResource_Update ::
  "ChatSuggestionClient \<Rightarrow> ChatSuggestionResourceModel \<Rightarrow> ChatSuggestionResourceModel
     \<Rightarrow> (ChatSuggestionResourceModel, ChatSuggestionCall) outcome" where
  "ChatSuggestionResource_Update client plan state =
     \<lparr>Diagnostics = [Error ''Update not supported''
        (''Chat suggestions cannot be updated. ''
           @ ''Please destroy and recreate the resource to make changes.'')],
      Calls = [], State = NoStateWrite\<rparr>"

section \<open>Schemas\<close>

text \<open>
  An attribute of a schema: its kind, the flags of the struct literal, its plan
  modifiers, the value lists of its \<^verbatim>\<open>OneOf\<close> validators and its static default. A field
  the literal leaves out has the zero value. Descriptions are left out. A schema is
  its \<^verbatim>\<open>Attributes\<close> map, written as the list of its entries.
\<close>

datatype attribute_kind =
  StringAttribute | BoolAttribute | Int64Attribute | ListAttribute | MapAttribute

datatype plan_modifier = UseStateForUnknown | RequiresReplace

datatype static_default =
  NoDefault | StaticBool bool | StaticInt64 int | StaticEmptyList | StaticEmptyMap

record attribute =
  Kind :: attribute_kind
  Required :: bool
  Optional :: bool
  Computed :: bool
  Sensitive :: bool
  PlanModifiers :: "plan_modifier list"
  Validators :: "string list list"
  Default :: static_default

definition attr :: "attribute_kind \<Rightarrow> attribute" where
  "attr k = \<lparr>Kind = k, Required = False, Optional = False, Computed = False,
             Sensitive = False, PlanModifiers = [], Validators = [], Default = NoDefault\<rparr>"

definition ModelProviderResource_Schema :: "(string \<times> attribute) list" where
  "ModelProviderResource_Schema =
     [(''id'', (attr StringAttribute)\<lparr>Computed := True, PlanModifiers := [UseStateForUnknown]\<rparr>),
      (''type'', (attr StringAttribute)
         \<lparr>Required := True, Validators := [[''openai'', ''anthropic'', ''xai'']]\<rparr>),
      (''name'', (attr StringAttribute)\<lparr>Required := True\<rparr>),
      (''api_key'', (attr StringAttribute)\<lparr>Required := True, Sensitive := True\<rparr>),
      (''default'', (attr BoolAttribute)
         \<lparr>Optional := True, Computed := True, Default := StaticBool False\<rparr>)]"

definition OAuthServiceResource_Schema :: "(string \<times> attribute) list" where
  "OAuthServiceResource_Schema =
     [(''id'', (attr StringAttribute)\<lparr>Computed := True, PlanModifiers := [UseStateForUnknown]\<rparr>),
      (''name'', (attr StringAttribute)\<lparr>Required := True, PlanModifiers := [RequiresReplace]\<rparr>),
      (''display_name'', (attr StringAttribute)\<lparr>Required := True\<rparr>),
      (''description'', (attr StringAttribute)\<lparr>Optional := True\<rparr>),
      (''client_id'', (attr StringAttribute)\<lparr>Required := True\<rparr>),
      (''client_secret'', (attr StringAttribute)\<lparr>Required := True, Sensitive := True\<rparr>),
      (''authorization_url'', (attr StringAttribute)\<lparr>Required := True\<rparr>),
      (''token_url'', (attr StringAttribute)\<lparr>Required := True\<rparr>),
      (''userinfo_url'', (attr StringAttribute)\<lparr>Optional := True\<rparr>),
      (''default_scopes'', (attr ListAttribute)
         \<lparr>Optional := True, Computed := True, Default := StaticEmptyList\<rparr>),
      (''supported_grant_types'', (attr ListAttribute)
         \<lparr>Optional := True, Computed := True, Default := StaticEmptyList\<rparr>),
      (''is_active'', (attr BoolAttribute)
         \<lparr>Optional := True, Computed := True, Default := StaticBool True\<rparr>),
      (''icon_url'', (attr StringAttribute)\<lparr>Optional := True\<rparr>),
      (''homepage_url'', (attr StringAttribute)\<lparr>Optional := True\<rparr>),
      (''created_at'', (attr StringAttribute)
         \<lparr>Computed := True, PlanModifiers := [UseStateForUnknown]\<rparr>),
      (''updated_at'', (attr StringAttribute)\<lparr>Computed := True\<rparr>)]"

definition DiscoveryProviderResource_Schema :: "(string \<times> attribute) list" where
  "DiscoveryProviderResource_Schema =
     [(''id'', (attr StringAttribute)\<lparr>Computed := True, PlanModifiers := [UseStateForUnknown]\<rparr>),
      (''name'', (attr StringAttribute)\<lparr>Required := True\<rparr>),
      (''provider_type'', (attr StringAttribute)
         \<lparr>Required := True, PlanModifiers := [RequiresReplace]\<rparr>),
      (''enabled'', (attr BoolAttribute)
         \<lparr>Optional := True, Computed := True, Default := StaticBool True\<rparr>),
      (''interval'', (attr Int64Attribute)
         \<lparr>Optional := True, Computed := True, Default := StaticInt64 300\<rparr>),
      (''config'', (attr StringAttribute)\<lparr>Required := True, Sensitive := True\<rparr>)]"

definition ModelResource_Schema :: "(string \<times> attribute) list" where
  "ModelResource_Schema =
     [(''id'', (attr StringAttribute)\<lparr>Computed := True, PlanModifiers := [UseStateForUnknown]\<rparr>),
      (''name'', (attr StringAttribute)\<lparr>Required := True\<rparr>),
      (''description'', (attr StringAttribute)\<lparr>Optional := True\<rparr>),
      (''provider_id'', (attr StringAttribute)\<lparr>Required := True\<rparr>),
      (''default'', (attr BoolAttribute)
         \<lparr>Optional := True, Computed := True, Default := StaticBool False\<rparr>)]"

text \<open>
  Whether a change of an attribute forces the replacement of the resource: the
  attribute carries the modifier \<^verbatim>\<open>RequiresReplace\<close>.
\<close>

definition forces_replacement :: "(string \<times> attribute) list \<Rightarrow> string \<Rightarrow> bool" where
  "forces_replacement schema name =
     (case map_of schema name of
        None \<Rightarrow> False
      | Some a \<Rightarrow> RequiresReplace \<in> set (PlanModifiers a))"

section \<open>Concrete inputs\<close>

text \<open>
  A library and clients to run the handlers on: two UUIDs with their canonical
  strings, a URL parser that accepts every string, and clients that answer every call
  with a given response.
\<close>

definition example_library :: library where
  "example_library =
     \<lparr>uuid_Parse = (\<lambda>s. if s = ''00000000-0000-0000-0000-000000000001'' then Inr 1
                       else if s = ''00000000-0000-0000-0000-000000000002'' then Inr 2
                       else Inl (''invalid UUID length: '' @ s)),
      uuid_String = (\<lambda>u. if u = 1 then ''00000000-0000-0000-0000-000000000001''
                        else if u = 2 then ''00000000-0000-0000-0000-000000000002''
                        else ''ffffffff-ffff-ffff-ffff-ffffffffffff''),
      url_Parse = Inr,
      time_String = (\<lambda>t. if t = 0 then ''1970-01-01 00:00:00 +0000 UTC''
                        else ''1970-01-01 00:00:01 +0000 UTC'')\<rparr>"

definition example_json :: "string encoding_json" where
  "example_json =
     \<lparr>json_Unmarshal = (\<lambda>s. if s = ''{\"token\":\"t\"}'' then Inr [(''token'', ''t'')]
                           else Inl ''invalid character'' ),
      json_Marshal = (\<lambda>v. Inr (''\"'' @ v @ ''\"''))\<rparr>"

definition zero_ProviderResponse :: ProviderResponse where
  "zero_ProviderResponse =
     \<lparr>pr_ID = 0, pr_Type = [], pr_Name = [], pr_APIKey = [], pr_Default = zero_Opt False\<rparr>"

definition anthropic_response :: "string \<Rightarrow> ModelProviderResponse" where
  "anthropic_response key =
     \<lparr>mpr_Type = AnthropicModelProviderResponseModelProviderResponse,
      mpr_OpenAIModelProviderResponse = zero_ProviderResponse,
      mpr_AnthropicModelProviderResponse =
        \<lparr>pr_ID = 1, pr_Type = ''anthropic'', pr_Name = ''p1'', pr_APIKey = key,
         pr_Default = zero_Opt False\<rparr>,
      mpr_XAIModelProviderResponse = zero_ProviderResponse\<rparr>"

definition untagged_response :: ModelProviderResponse where
  "untagged_response =
     \<lparr>mpr_Type = OtherModelProviderResponseType [],
      mpr_OpenAIModelProviderResponse = zero_ProviderResponse,
      mpr_AnthropicModelProviderResponse = zero_ProviderResponse,
      mpr_XAIModelProviderResponse = zero_ProviderResponse\<rparr>"

definition stub_ModelProviderClient :: "ModelProviderResponse \<Rightarrow> ModelProviderClient" where
  "stub_ModelProviderClient r =
     \<lparr>CreateModelprovider = (\<lambda>req. Inr (Ok2 r)),
      GetModelprovider = (\<lambda>u. Inr (Ok3 r)),
      UpdateModelprovider = (\<lambda>req u. Inr (Ok2 r))\<rparr>"

definition example_model_provider :: ModelProviderResourceModel where
  "example_model_provider =
     \<lparr>mp_ID = TfValue ''00000000-0000-0000-0000-000000000001'',
      mp_Type = TfValue ''anthropic'', mp_Name = TfValue ''p1'', mp_APIKey = TfValue ''k1'',
      mp_Default = TfValue False\<rparr>"

definition example_model :: ModelResourceModel where
  "example_model =
     \<lparr>mdl_ID = TfValue ''00000000-0000-0000-0000-000000000002'',
      mdl_Name = TfValue ''gpt-4'', mdl_Description = TfNull,
      mdl_ProviderID = TfValue ''00000000-0000-0000-0000-000000000001'',
      mdl_Default = TfValue False\<rparr>"

definition example_ModelResponse :: ModelResponse where
  "example_ModelResponse =
     \<lparr>mr_ID = 2, mr_Name = ''gpt-4'', mr_Description = zero_OptNil [], mr_ProviderID = 1,
      mr_Default = zero_Opt False\<rparr>"

definition stub_ModelClient :: "ModelResponse \<Rightarrow> ModelClient" where
  "stub_ModelClient r =
     \<lparr>CreateModel = (\<lambda>req. Inr (Ok2 r)),
      GetModel = (\<lambda>n. Inr (Ok3 r)),
      UpdateModel = (\<lambda>req n. Inr (Ok2 r))\<rparr>"

definition example_mcp_endpoint :: MCPEndpointResourceModel where
  "example_mcp_endpoint =
     \<lparr>mcp_ID = TfValue ''00000000-0000-0000-0000-000000000001'',
      mcp_Name = TfValue ''my-mcp-server'', mcp_URL = TfValue ''https://mcp.example.com/v1'',
      mcp_Description = TfNull, mcp_Headers = TfValue fmempty,
      mcp_DevgraphAuth = TfValue False, mcp_SupportsResources = TfValue True,
      mcp_OAuthServiceID = TfNull, mcp_Immutable = TfValue False, mcp_Active = TfValue True,
      mcp_AllowedTools = TfNull, mcp_DeniedTools = TfNull\<rparr>"

definition example_MCPEndpointResponse :: MCPEndpointResponse where
  "example_MCPEndpointResponse =
     \<lparr>er_ID = 1, er_Name = ''my-mcp-server'', er_URL = ''https://mcp.example.com/v1'',
      er_Description = zero_OptNil [], er_Headers = zero_Opt fmempty,
      er_DevgraphAuth = zero_Opt False, er_SupportsResources = zero_Opt False,
      er_Immutable = zero_Opt False, er_Active = zero_Opt False,
      er_OAuthServiceID = zero_OptNil 0\<rparr>"

definition stub_MCPEndpointClient :: "MCPEndpointResponse \<Rightarrow> MCPEndpointClient" where
  "stub_MCPEndpointClient r =
     \<lparr>CreateMcpendpoint = (\<lambda>req. Inr (Ok2 r)),
      GetMcpendpoint = (\<lambda>u. Inr (Ok3 r)),
      UpdateMcpendpoint = (\<lambda>req u. Inr (Ok2 r))\<rparr>"

definition example_oauth_service :: OAuthServiceResourceModel where
  "example_oauth_service =
     \<lparr>oa_ID = TfValue ''00000000-0000-0000-0000-000000000001'',
      oa_Name = TfValue ''github'', oa_DisplayName = TfValue ''GitHub'',
      oa_Description = TfNull, oa_ClientID = TfValue ''client-1'',
      oa_ClientSecret = TfValue ''s3cret'',
      oa_AuthorizationURL = TfValue ''https://github.com/login/oauth/authorize'',
      oa_TokenURL = TfValue ''https://github.com/login/oauth/access_token'',
      oa_UserinfoURL = TfNull, oa_DefaultScopes = TfValue [],
      oa_SupportedGrantTypes = TfValue [], oa_IsActive = TfValue True,
      oa_IconURL = TfNull, oa_HomepageURL = TfNull,
      oa_CreatedAt = TfValue ''1970-01-01 00:00:00 +0000 UTC'',
      oa_UpdatedAt = TfValue ''1970-01-01 00:00:00 +0000 UTC''\<rparr>"

definition null_OptNil :: "'a \<Rightarrow> 'a OptNil" where
  "null_OptNil z = \<lparr>OptNil_Value = z, OptNil_Set = True, OptNil_Null = True\<rparr>"

definition example_OAuthServiceResponse :: OAuthServiceResponse where
  "example_OAuthServiceResponse =
     \<lparr>or_ID = 1, or_DisplayName = ''GitHub'',
      or_AuthorizationURL = ''https://github.com/login/oauth/authorize'',
      or_TokenURL = ''https://github.com/login/oauth/access_token'',
      or_IsActive = True, or_CreatedAt = 0, or_UpdatedAt = 0,
      or_Description = null_OptNil [], or_UserinfoURL = null_OptNil [],
      or_IconURL = null_OptNil [], or_HomepageURL = null_OptNil [],
      or_DefaultScopes = [], or_SupportedGrantTypes = []\<rparr>"

definition stub_OAuthServiceClient :: "OAuthServiceResponse \<Rightarrow> OAuthServiceClient" where
  "stub_OAuthServiceClient r =
     \<lparr>CreateOAuthService = (\<lambda>req. Inr (Ok2 r)),
      GetOAuthService = (\<lambda>u. Inr (Ok3 r)),
      UpdateOAuthService = (\<lambda>req u. Inr (Ok2 r))\<rparr>"

definition example_discovery_provider :: DiscoveryProviderResourceModel where
  "example_discovery_provider =
     \<lparr>dp_ID = TfValue ''00000000-0000-0000-0000-000000000001'',
      dp_Name = TfValue ''GitHub Production'', dp_ProviderType = TfValue ''github'',
      dp_Enabled = TfValue True, dp_Interval = TfValue 300,
      dp_Config = TfValue ''{\"token\":\"t\"}''\<rparr>"

definition example_ConfiguredProviderResponse :: ConfiguredProviderResponse where
  "example_ConfiguredProviderResponse =
     \<lparr>cr_ID = 1, cr_Name = ''GitHub Production'', cr_ProviderType = ''github'',
      cr_Enabled = True, cr_Interval = 300,
      cr_Config = fmupd ''token'' ''\"***\"'' fmempty\<rparr>"

definition stub_DiscoveryProviderClient ::
  "ConfiguredProviderResponse \<Rightarrow> DiscoveryProviderClient" where
  "stub_DiscoveryProviderClient r =
     \<lparr>CreateConfiguredProvider = (\<lambda>req. Inr (Ok3 r)),
      GetConfiguredProvider = (\<lambda>u. Inr (Ok3 r)),
      UpdateConfiguredProvider = (\<lambda>req u. Inr (Ok2 r))\<rparr>"

definition example_environment :: EnvironmentResourceModel where
  "example_environment =
     \<lparr>env_ID = TfValue ''00000000-0000-0000-0000-000000000001'',
      env_Name = TfValue ''prod'', env_Slug = TfValue ''prod'',
      env_ClerkOrganizationID = TfValue ''org_1'', env_CustomerID = TfValue ''cus_1'',
      env_SubscriptionID = TfValue ''00000000-0000-0000-0000-000000000002'',
      env_InvitedUsers = TfValue [], env_StripeSubscriptionID = TfValue ''sub_1'',
      env_InstanceURL = TfValue ''https://prod.example.com''\<rparr>"

definition example_EnvironmentResponse :: EnvironmentResponse where
  "example_EnvironmentResponse =
     \<lparr>vr_ID = 1, vr_Name = ''prod'', vr_Slug = ''prod'', vr_ClerkOrganizationID = ''org_1'',
      vr_CustomerID = ''cus_1'', vr_SubscriptionID = 2\<rparr>"

definition stub_EnvironmentClient ::
  "EnvironmentResponse \<Rightarrow> EnvironmentResponse list \<Rightarrow> EnvironmentClient" where
  "stub_EnvironmentClient r rs =
     \<lparr>CreateEnvironment = (\<lambda>req. Inr (Ok2 r)), GetEnvironments = Inr (Ok2 rs)\<rparr>"

definition example_chat_suggestion :: ChatSuggestionResourceModel where
  "example_chat_suggestion =
     \<lparr>cs_ID = TfValue ''00000000-0000-0000-0000-000000000001'',
      cs_Title = TfValue ''Explore'', cs_Label = TfValue ''start'',
      cs_Action = TfValue ''Show me my services'', cs_Active = TfValue True\<rparr>"

definition example_ChatSuggestionResponse :: ChatSuggestionResponse where
  "example_ChatSuggestionResponse =
     \<lparr>sr_ID = 1, sr_Title = ''Explore'', sr_Label = ''start'',
      sr_Action = ''Show me my services'', sr_Active = zero_Opt False\<rparr>"

definition stub_ChatSuggestionClient ::
  "ChatSuggestionResponse \<Rightarrow> ChatSuggestionResponse list \<Rightarrow> ChatSuggestionClient" where
  "stub_ChatSuggestionClient r rs =
     \<lparr>CreateChatSuggestion = (\<lambda>req. Inr (Ok2 r)), ListChatSuggestions = Inr (Ok2 rs)\<rparr>"

section \<open>What a handler persists\<close>

text \<open>
  The three outcomes of a client call, as the handlers tell them apart.
\<close>

lemma response2_cases:
  obtains err where "x = Inl err" | t where "x = Inr (Other2 t)" | r where "x = Inr (Ok2 r)"
proof (cases x)
  case (Inl err)
  then show ?thesis using that by simp
next
  case (Inr y)
  then show ?thesis using that by (cases y) simp_all
qed

lemma response3_cases:
  obtains err where "x = Inl err" | "x = Inr NotFound3" | t where "x = Inr (Other3 t)"
  | r where "x = Inr (Ok3 r)"
proof (cases x)
  case (Inl err)
  then show ?thesis using that by simp
next
  case (Inr y)
  then show ?thesis using that by (cases y) simp_all
qed

text \<open>
  A handler that wrote a record built its request, received a response of the expected
  type from its one remote call, added no diagnostic, and wrote the merge of that
  response.
\<close>

lemma ModelProviderResource_Create_SetState:
  assumes "State (ModelProviderResource_Create lib client plan) = SetState s"
  obtains createReq result where
    "ModelProviderResource_Create_request plan = Inr createReq"
    "CreateModelprovider client createReq = Inr (Ok2 result)"
    "ModelProviderResource_Create lib client plan =
       \<lparr>Diagnostics = [], Calls = [Call_CreateModelprovider createReq],
        State = SetState (ModelProviderResource_merge lib True result plan)\<rparr>"
proof (cases "ModelProviderResource_Create_request plan")
  case (Inl ds)
  with assms show ?thesis by (simp add: ModelProviderResource_Create_def)
next
  case (Inr createReq)
  with assms that show ?thesis
    by (cases "CreateModelprovider client createReq" rule: response2_cases) (simp_all add: ModelProviderResource_Create_def)
qed

lemma ModelProviderResource_Read_SetState:
  assumes "State (ModelProviderResource_Read lib client state) = SetState s"
  obtains providerID result where
    "uuid_Parse lib (ValueString (mp_ID state)) = Inr providerID"
    "GetModelprovider client providerID = Inr (Ok3 result)"
    "ModelProviderResource_Read lib client state =
       \<lparr>Diagnostics = [], Calls = [Call_GetModelprovider providerID],
        State = SetState (ModelProviderResource_merge lib False result state)\<rparr>"
proof (cases "uuid_Parse lib (ValueString (mp_ID state))")
  case (Inl err)
  with assms show ?thesis by (simp add: ModelProviderResource_Read_def)
next
  case (Inr providerID)
  with assms that show ?thesis
    by (cases "GetModelprovider client providerID" rule: response3_cases) (simp_all add: ModelProviderResource_Read_def)
qed

lemma ModelProviderResource_Update_SetState:
  assumes "State (ModelProviderResource_Update lib client plan state) = SetState s"
  obtains providerID result where
    "uuid_Parse lib (ValueString (mp_ID state)) = Inr providerID"
    "UpdateModelprovider client (ModelProviderResource_Update_request plan state) providerID
       = Inr (Ok2 result)"
    "ModelProviderResource_Update lib client plan state =
       \<lparr>Diagnostics = [],
        Calls = [Call_UpdateModelprovider
                   (ModelProviderResource_Update_request plan state) providerID],
        State = SetState (ModelProviderResource_merge lib True result plan)\<rparr>"
proof (cases "uuid_Parse lib (ValueString (mp_ID state))")
  case (Inl err)
  with assms show ?thesis by (simp add: ModelProviderResource_Update_def)
next
  case (Inr providerID)
  with assms that show ?thesis
    by (cases "UpdateModelprovider client
                 (ModelProviderResource_Update_request plan state) providerID"
          rule: response2_cases)
       (simp_all add: ModelProviderResource_Update_def)
qed

lemma ModelResource_Create_SetState:
  assumes "State (ModelResource_Create lib client plan) = SetState s"
  obtains createReq result where
    "ModelResource_Create_request lib plan = Inr createReq"
    "CreateModel client createReq = Inr (Ok2 result)"
    "ModelResource_Create lib client plan =
       \<lparr>Diagnostics = [], Calls = [Call_CreateModel createReq],
        State = SetState (ModelResource_merge lib result plan)\<rparr>"
proof (cases "ModelResource_Create_request lib plan")
  case (Inl ds)
  with assms show ?thesis by (simp add: ModelResource_Create_def)
next
  case (Inr createReq)
  with assms that show ?thesis
    by (cases "CreateModel client createReq" rule: response2_cases) (simp_all add: ModelResource_Create_def)
qed

lemma ModelResource_Read_SetState:
  assumes "State (ModelResource_Read lib client state) = SetState s"
  obtains result where
    "GetModel client (ValueString (mdl_Name state)) = Inr (Ok3 result)"
    "ModelResource_Read lib client state =
       \<lparr>Diagnostics = [], Calls = [Call_GetModel (ValueString (mdl_Name state))],
        State = SetState (ModelResource_merge lib result state)\<rparr>"
  using assms
  by (cases "GetModel client (ValueString (mdl_Name state))" rule: response3_cases)
     (simp_all add: ModelResource_Read_def)

lemma ModelResource_Update_SetState:
  assumes "State (ModelResource_Update lib client plan state) = SetState s"
  obtains updateReq result where
    "ModelResource_Update_request lib plan state = Inr updateReq"
    "UpdateModel client updateReq (ValueString (mdl_Name state)) = Inr (Ok2 result)"
    "ModelResource_Update lib client plan state =
       \<lparr>Diagnostics = [],
        Calls = [Call_UpdateModel updateReq (ValueString (mdl_Name state))],
        State = SetState (ModelResource_merge lib result plan)\<rparr>"
proof (cases "ModelResource_Update_request lib plan state")
  case (Inl ds)
  with assms show ?thesis by (simp add: ModelResource_Update_def)
next
  case (Inr updateReq)
  with assms that show ?thesis
    by (cases "UpdateModel client updateReq (ValueString (mdl_Name state))"
          rule: response2_cases)
       (simp_all add: ModelResource_Update_def)
qed

lemma MCPEndpointResource_Create_SetState:
  assumes "State (MCPEndpointResource_Create lib client plan) = SetState s"
  obtains createReq result where
    "MCPEndpointResource_Create_request lib plan = Inr createReq"
    "CreateMcpendpoint client createReq = Inr (Ok2 result)"
    "MCPEndpointResource_Create lib client plan =
       \<lparr>Diagnostics = [], Calls = [Call_CreateMcpendpoint createReq],
        State = SetState (MCPEndpointResource_merge lib True result plan)\<rparr>"
proof (cases "MCPEndpointResource_Create_request lib plan")
  case (Inl ds)
  with assms show ?thesis by (simp add: MCPEndpointResource_Create_def)
next
  case (Inr createReq)
  with assms that show ?thesis
    by (cases "CreateMcpendpoint client createReq" rule: response2_cases) (simp_all add: MCPEndpointResource_Create_def)
qed

lemma MCPEndpointResource_Read_SetState:
  assumes "State (MCPEndpointResource_Read lib client state) = SetState s"
  obtains endpointID result where
    "uuid_Parse lib (ValueString (mcp_ID state)) = Inr endpointID"
    "GetMcpendpoint client endpointID = Inr (Ok3 result)"
    "MCPEndpointResource_Read lib client state =
       \<lparr>Diagnostics = [], Calls = [Call_GetMcpendpoint endpointID],
        State = SetState (MCPEndpointResource_merge lib False result state)\<rparr>"
proof (cases "uuid_Parse lib (ValueString (mcp_ID state))")
  case (Inl err)
  with assms show ?thesis by (simp add: MCPEndpointResource_Read_def)
next
  case (Inr endpointID)
  with assms that show ?thesis
    by (cases "GetMcpendpoint client endpointID" rule: response3_cases) (simp_all add: MCPEndpointResource_Read_def)
qed

lemma MCPEndpointResource_Update_SetState:
  assumes "State (MCPEndpointResource_Update lib client plan state) = SetState s"
  obtains endpointID updateReq result where
    "uuid_Parse lib (ValueString (mcp_ID plan)) = Inr endpointID"
    "MCPEndpointResource_Update_request lib plan = Inr updateReq"
    "UpdateMcpendpoint client updateReq endpointID = Inr (Ok2 result)"
    "MCPEndpointResource_Update lib client plan state =
       \<lparr>Diagnostics = [], Calls = [Call_UpdateMcpendpoint updateReq endpointID],
        State = SetState (MCPEndpointResource_merge_update result plan)\<rparr>"
proof (cases "uuid_Parse lib (ValueString (mcp_ID plan))")
  case (Inl err)
  with assms show ?thesis by (simp add: MCPEndpointResource_Update_def)
next
  case parsed: (Inr endpointID)
  show ?thesis
  proof (cases "MCPEndpointResource_Update_request lib plan")
    case (Inl ds)
    with assms parsed show ?thesis by (simp add: MCPEndpointResource_Update_def)
  next
    case (Inr updateReq)
    with assms parsed that show ?thesis
      by (cases "UpdateMcpendpoint client updateReq endpointID" rule: response2_cases)
         (simp_all add: MCPEndpointResource_Update_def)
  qed
qed

lemma OAuthServiceResource_Create_SetState:
  assumes "State (OAuthServiceResource_Create lib client plan) = SetState s"
  obtains createReq result where
    "OAuthServiceResource_Create_request lib plan = Inr createReq"
    "CreateOAuthService client createReq = Inr (Ok2 result)"
    "OAuthServiceResource_Create lib client plan =
       \<lparr>Diagnostics = [], Calls = [Call_CreateOAuthService createReq],
        State = SetState (OAuthServiceResource_merge lib True True result plan)\<rparr>"
proof (cases "OAuthServiceResource_Create_request lib plan")
  case (Inl ds)
  with assms show ?thesis by (simp add: OAuthServiceResource_Create_def)
next
  case (Inr createReq)
  with assms that show ?thesis
    by (cases "CreateOAuthService client createReq" rule: response2_cases) (simp_all add: OAuthServiceResource_Create_def)
qed



lemma DiscoveryProviderResource_Create_SetState:
  assumes "State (DiscoveryProviderResource_Create js lib client plan) = SetState s"
  obtains createReq result where
    "DiscoveryProviderResource_Create_request js plan = Inr createReq"
    "CreateConfiguredProvider client createReq = Inr (Ok3 result)"
    "DiscoveryProviderResource_Create js lib client plan =
       \<lparr>Diagnostics = [], Calls = [Call_CreateConfiguredProvider createReq],
        State = SetState (DiscoveryProviderResource_merge lib True result plan)\<rparr>"
proof (cases "DiscoveryProviderResource_Create_request js plan")
  case (Inl ds)
  with assms show ?thesis by (simp add: DiscoveryProviderResource_Create_def)
next
  case (Inr createReq)
  with assms that show ?thesis
    by (cases "CreateConfiguredProvider client createReq" rule: response3_cases) (simp_all add: DiscoveryProviderResource_Create_def)
qed



lemma EnvironmentResource_Create_SetState:
  assumes "State (EnvironmentResource_Create lib client plan) = SetState s"
  obtains createReq result where
    "EnvironmentResource_Create_request plan = Inr createReq"
    "CreateEnvironment client createReq = Inr (Ok2 result)"
    "EnvironmentResource_Create lib client plan =
       \<lparr>Diagnostics = [], Calls = [Call_CreateEnvironment createReq],
        State = SetState (EnvironmentResource_merge lib True result plan)\<rparr>"
proof (cases "EnvironmentResource_Create_request plan")
  case (Inl ds)
  with assms show ?thesis by (simp add: EnvironmentResource_Create_def)
next
  case (Inr createReq)
  with assms that show ?thesis
    by (cases "CreateEnvironment client createReq" rule: response2_cases) (simp_all add: EnvironmentResource_Create_def)
qed

lemma ChatSuggestionResource_Create_SetState:
  assumes "State (ChatSuggestionResource_Create lib client plan) = SetState s"
  obtains result where
    "CreateChatSuggestion client (ChatSuggestionResource_Create_request plan) = Inr (Ok2 result)"
    "ChatSuggestionResource_Create lib client plan =
       \<lparr>Diagnostics = [], Calls = [Call_CreateChatSuggestion (ChatSuggestionResource_Create_request plan)],
        State = SetState (ChatSuggestionResource_merge lib True result plan)\<rparr>"
  using assms
  by (cases "CreateChatSuggestion client (ChatSuggestionResource_Create_request plan)" rule: response2_cases)
     (simp_all add: ChatSuggestionResource_Create_def)

text \<open>The two list scans return the first match, merged, or the state as it was.\<close>

lemma EnvironmentResource_Read_loop_find:
  "EnvironmentResource_Read_loop lib environments state =
     (case find (\<lambda>env. uuid_String lib (vr_ID env) = ValueString (env_ID state)) environments of
        None \<Rightarrow> (state, False)
      | Some env \<Rightarrow> (EnvironmentResource_merge lib False env state, True))"
  by (induction environments) simp_all

lemma ChatSuggestionResource_Read_loop_find:
  "ChatSuggestionResource_Read_loop lib suggestionID suggestions state =
     (case find (\<lambda>suggestion. sr_ID suggestion = suggestionID) suggestions of
        None \<Rightarrow> (state, False)
      | Some suggestion \<Rightarrow> (ChatSuggestionResource_merge lib False suggestion state, True))"
  by (induction suggestions) simp_all

section \<open>The handlers on the concrete inputs\<close>

text \<open>What the stub clients answer, and the identifiers of the example records.\<close>

lemma stub_ModelProviderClient_answers:
  "CreateModelprovider (stub_ModelProviderClient r) req = Inr (Ok2 r)"
  "GetModelprovider (stub_ModelProviderClient r) u = Inr (Ok3 r)"
  "UpdateModelprovider (stub_ModelProviderClient r) upd u = Inr (Ok2 r)"
  by (simp_all add: stub_ModelProviderClient_def)

lemma stub_ModelClient_answers:
  "CreateModel (stub_ModelClient r) req = Inr (Ok2 r)"
  "GetModel (stub_ModelClient r) n = Inr (Ok3 r)"
  "UpdateModel (stub_ModelClient r) upd n = Inr (Ok2 r)"
  by (simp_all add: stub_ModelClient_def)

lemma stub_MCPEndpointClient_answers:
  "CreateMcpendpoint (stub_MCPEndpointClient r) req = Inr (Ok2 r)"
  "GetMcpendpoint (stub_MCPEndpointClient r) u = Inr (Ok3 r)"
  "UpdateMcpendpoint (stub_MCPEndpointClient r) upd u = Inr (Ok2 r)"
  by (simp_all add: stub_MCPEndpointClient_def)

lemma stub_OAuthServiceClient_answers:
  "CreateOAuthService (stub_OAuthServiceClient r) req = Inr (Ok2 r)"
  "GetOAuthService (stub_OAuthServiceClient r) u = Inr (Ok3 r)"
  "UpdateOAuthService (stub_OAuthServiceClient r) upd u = Inr (Ok2 r)"
  by (simp_all add: stub_OAuthServiceClient_def)

lemma stub_DiscoveryProviderClient_answers:
  "CreateConfiguredProvider (stub_DiscoveryProviderClient r) req = Inr (Ok3 r)"
  "GetConfiguredProvider (stub_DiscoveryProviderClient r) u = Inr (Ok3 r)"
  "UpdateConfiguredProvider (stub_DiscoveryProviderClient r) upd u = Inr (Ok2 r)"
  by (simp_all add: stub_DiscoveryProviderClient_def)

lemma stub_EnvironmentClient_answers:
  "CreateEnvironment (stub_EnvironmentClient r rs) req = Inr (Ok2 r)"
  "GetEnvironments (stub_EnvironmentClient r rs) = Inr (Ok2 rs)"
  by (simp_all add: stub_EnvironmentClient_def)

lemma stub_ChatSuggestionClient_answers:
  "CreateChatSuggestion (stub_ChatSuggestionClient r rs) req = Inr (Ok2 r)"
  "ListChatSuggestions (stub_ChatSuggestionClient r rs) = Inr (Ok2 rs)"
  by (simp_all add: stub_ChatSuggestionClient_def)

lemma example_identifiers:
  "uuid_Parse example_library (ValueString (mp_ID example_model_provider)) = Inr 1"
  "uuid_Parse example_library (ValueString (mcp_ID example_mcp_endpoint)) = Inr 1"
  "uuid_Parse example_library (ValueString (oa_ID example_oauth_service)) = Inr 1"
  "uuid_Parse example_library (ValueString (dp_ID example_discovery_provider)) = Inr 1"
  "uuid_Parse example_library (ValueString (cs_ID example_chat_suggestion)) = Inr 1"
  "ValueString (mdl_Name example_model) = ''gpt-4''"
  by (simp_all add: example_library_def example_model_provider_def example_mcp_endpoint_def
      example_oauth_service_def example_discovery_provider_def example_chat_suggestion_def
      example_model_def)

text \<open>\<^verbatim>\<open>Create\<close> of each example record, planned with an unknown identifier.\<close>

lemma example_model_provider_created:
  "ModelProviderResource_Create example_library
       (stub_ModelProviderClient (anthropic_response ''k1''))
       (example_model_provider\<lparr>mp_ID := TfUnknown\<rparr>)
     = \<lparr>Diagnostics = [],
        Calls = [Call_CreateModelprovider (AnthropicModelProviderCreate
                  \<lparr>pc_Type = ''anthropic'', pc_Name = ''p1'', pc_APIKey = ''k1'',
                   pc_Default = NewOpt False\<rparr>)],
        State = SetState example_model_provider\<rparr>"
  by (simp add: ModelProviderResource_Create_def ModelProviderResource_Create_request_def
      ModelProviderResource_merge_def ModelProviderResource_assign_def example_library_def
      stub_ModelProviderClient_def anthropic_response_def example_model_provider_def
      zero_Opt_def)

lemma example_model_created:
  "ModelResource_Create example_library (stub_ModelClient example_ModelResponse)
       (example_model\<lparr>mdl_ID := TfUnknown\<rparr>)
     = \<lparr>Diagnostics = [],
        Calls = [Call_CreateModel
                  \<lparr>mc_Name = ''gpt-4'', mc_ProviderID = 1, mc_Default = NewOpt False,
                   mc_Description = zero_OptNil []\<rparr>],
        State = SetState example_model\<rparr>"
  by (simp add: ModelResource_Create_def ModelResource_Create_request_def
      ModelResource_merge_def example_library_def stub_ModelClient_def
      example_ModelResponse_def example_model_def zero_Opt_def zero_OptNil_def)

lemma example_mcp_endpoint_created:
  "MCPEndpointResource_Create example_library
       (stub_MCPEndpointClient example_MCPEndpointResponse)
       (example_mcp_endpoint\<lparr>mcp_ID := TfUnknown\<rparr>)
     = \<lparr>Diagnostics = [],
        Calls = [Call_CreateMcpendpoint
                  \<lparr>ec_Name = ''my-mcp-server'', ec_URL = ''https://mcp.example.com/v1'',
                   ec_Description = zero_OptNil [], ec_Headers = zero_Opt fmempty,
                   ec_DevgraphAuth = NewOpt False, ec_SupportsResources = NewOpt True,
                   ec_Immutable = NewOpt False, ec_Active = NewOpt True,
                   ec_OAuthServiceID = zero_OptNil 0, ec_AllowedTools = zero_OptNil [],
                   ec_DeniedTools = zero_OptNil []\<rparr>],
        State = SetState example_mcp_endpoint\<rparr>"
  by (simp add: MCPEndpointResource_Create_def MCPEndpointResource_Create_request_def
      optional_uuid_def MCPEndpointResource_merge_def example_library_def stub_MCPEndpointClient_def
      example_MCPEndpointResponse_def example_mcp_endpoint_def zero_Opt_def zero_OptNil_def)

lemma example_oauth_service_created:
  "OAuthServiceResource_Create example_library
       (stub_OAuthServiceClient example_OAuthServiceResponse)
       (example_oauth_service\<lparr>oa_ID := TfUnknown, oa_CreatedAt := TfUnknown,
          oa_UpdatedAt := TfUnknown\<rparr>)
     = \<lparr>Diagnostics = [],
        Calls = [Call_CreateOAuthService
                  \<lparr>oc_Name = ''github'', oc_DisplayName = ''GitHub'',
                   oc_ClientID = ''client-1'', oc_ClientSecret = ''s3cret'',
                   oc_AuthorizationURL = ''https://github.com/login/oauth/authorize'',
                   oc_TokenURL = ''https://github.com/login/oauth/access_token'',
                   oc_SupportedGrantTypes = [], oc_Description = zero_OptNil [],
                   oc_DefaultScopes = NewOptNil [], oc_UserinfoURL = zero_OptNil [],
                   oc_IsActive = NewOpt True, oc_IconURL = zero_OptNil [],
                   oc_HomepageURL = zero_OptNil []\<rparr>],
        State = SetState example_oauth_service\<rparr>"
  by (simp add: OAuthServiceResource_Create_def OAuthServiceResource_Create_request_def
      OAuthServiceResource_merge_def optional_url_def optional_list_def nilable_string_def
      example_library_def stub_OAuthServiceClient_def example_OAuthServiceResponse_def
      example_oauth_service_def null_OptNil_def)

lemma example_discovery_provider_created:
  "DiscoveryProviderResource_Create example_json example_library
       (stub_DiscoveryProviderClient example_ConfiguredProviderResponse)
       (example_discovery_provider\<lparr>dp_ID := TfUnknown\<rparr>)
     = \<lparr>Diagnostics = [],
        Calls = [Call_CreateConfiguredProvider
                  \<lparr>cc_Name = ''GitHub Production'', cc_ProviderType = ''github'',
                   cc_Config = fmupd ''token'' ''\"t\"'' fmempty,
                   cc_Enabled = NewOpt True, cc_Interval = NewOpt 300\<rparr>],
        State = SetState example_discovery_provider\<rparr>"
  by (simp add: DiscoveryProviderResource_Create_def
      DiscoveryProviderResource_Create_request_def parse_config_def
      DiscoveryProviderResource_merge_def example_library_def example_json_def
      stub_DiscoveryProviderClient_def example_ConfiguredProviderResponse_def
      example_discovery_provider_def zero_Opt_def)

lemma example_environment_created:
  "EnvironmentResource_Create example_library
       (stub_EnvironmentClient example_EnvironmentResponse [example_EnvironmentResponse])
       (example_environment\<lparr>env_ID := TfUnknown, env_Slug := TfUnknown\<rparr>)
     = \<lparr>Diagnostics = [],
        Calls = [Call_CreateEnvironment
                  \<lparr>vc_Name = ''prod'', vc_StripeSubscriptionID = ''sub_1'',
                   vc_InstanceURL = ''https://prod.example.com'', vc_InvitedUsers = []\<rparr>],
        State = SetState example_environment\<rparr>"
  by (simp add: EnvironmentResource_Create_def EnvironmentResource_Create_request_def
      EnvironmentResource_merge_def example_library_def stub_EnvironmentClient_def
      example_EnvironmentResponse_def example_environment_def)

lemma example_chat_suggestion_created:
  "ChatSuggestionResource_Create example_library
       (stub_ChatSuggestionClient example_ChatSuggestionResponse
          [example_ChatSuggestionResponse])
       (example_chat_suggestion\<lparr>cs_ID := TfUnknown\<rparr>)
     = \<lparr>Diagnostics = [],
        Calls = [Call_CreateChatSuggestion
                  \<lparr>sc_Title = ''Explore'', sc_Label = ''start'',
                   sc_Action = ''Show me my services'', sc_Active = NewOpt True\<rparr>],
        State = SetState example_chat_suggestion\<rparr>"
  by (simp add: ChatSuggestionResource_Create_def ChatSuggestionResource_Create_request_def
      ChatSuggestionResource_merge_def example_library_def stub_ChatSuggestionClient_def
      example_ChatSuggestionResponse_def example_chat_suggestion_def zero_Opt_def)

text \<open>\<^verbatim>\<open>Read\<close> of each example record.\<close>

lemma example_model_provider_read:
  "ModelProviderResource_Read example_library
       (stub_ModelProviderClient (anthropic_response ''k1'')) example_model_provider
     = \<lparr>Diagnostics = [], Calls = [Call_GetModelprovider 1],
        State = SetState example_model_provider\<rparr>"
  by (simp add: ModelProviderResource_Read_def ModelProviderResource_merge_def
      ModelProviderResource_assign_def example_library_def stub_ModelProviderClient_def
      anthropic_response_def example_model_provider_def zero_Opt_def)

lemma example_model_read:
  "ModelResource_Read example_library (stub_ModelClient example_ModelResponse) example_model
     = \<lparr>Diagnostics = [], Calls = [Call_GetModel ''gpt-4''],
        State = SetState example_model\<rparr>"
  by (simp add: ModelResource_Read_def ModelResource_merge_def example_library_def
      stub_ModelClient_def example_ModelResponse_def example_model_def zero_Opt_def
      zero_OptNil_def)

lemma example_mcp_endpoint_read:
  "MCPEndpointResource_Read example_library
       (stub_MCPEndpointClient example_MCPEndpointResponse) example_mcp_endpoint
     = \<lparr>Diagnostics = [], Calls = [Call_GetMcpendpoint 1],
        State = SetState example_mcp_endpoint\<rparr>"
  by (simp add: MCPEndpointResource_Read_def MCPEndpointResource_merge_def
      example_library_def stub_MCPEndpointClient_def example_MCPEndpointResponse_def
      example_mcp_endpoint_def zero_Opt_def zero_OptNil_def)



lemma example_chat_suggestion_read:
  "ChatSuggestionResource_Read example_library
       (stub_ChatSuggestionClient example_ChatSuggestionResponse
          [example_ChatSuggestionResponse])
       example_chat_suggestion
     = \<lparr>Diagnostics = [], Calls = [Call_ListChatSuggestions],
        State = SetState example_chat_suggestion\<rparr>"
  by (simp add: ChatSuggestionResource_Read_def ChatSuggestionResource_merge_def
      example_library_def stub_ChatSuggestionClient_def example_ChatSuggestionResponse_def
      example_chat_suggestion_def zero_Opt_def)

text \<open>
  \<^verbatim>\<open>Update\<close> of each example record: a new name for the model provider, a description
  for the model, a longer interval for the discovery provider, and a plan equal to the
  prior state for the MCP endpoint and the OAuth service.
\<close>

lemma example_model_provider_updated:
  "ModelProviderResource_Update example_library
       (stub_ModelProviderClient (anthropic_response ''k1''))
       (example_model_provider\<lparr>mp_Name := TfValue ''p2''\<rparr>) example_model_provider
     = \<lparr>Diagnostics = [],
        Calls = [Call_UpdateModelprovider
                  \<lparr>mpu_Name = NewOptNil ''p2'', mpu_APIKey = zero_OptNil [],
                   mpu_Default = zero_OptNil False\<rparr> 1],
        State = SetState example_model_provider\<rparr>"
  by (simp add: ModelProviderResource_Update_def ModelProviderResource_Update_request_def
      ModelProviderResource_merge_def ModelProviderResource_assign_def example_library_def
      stub_ModelProviderClient_def anthropic_response_def example_model_provider_def
      Equal_def zero_Opt_def)

lemma example_model_updated:
  "ModelResource_Update example_library (stub_ModelClient example_ModelResponse)
       (example_model\<lparr>mdl_Description := TfValue ''Claude''\<rparr>) example_model
     = \<lparr>Diagnostics = [],
        Calls = [Call_UpdateModel
                  \<lparr>mu_Description = NewOptNil ''Claude'', mu_ProviderID = zero_OptNil 0,
                   mu_Default = zero_OptNil False\<rparr> ''gpt-4''],
        State = SetState (example_model\<lparr>mdl_Description := TfValue ''Claude''\<rparr>)\<rparr>"
  by (simp add: ModelResource_Update_def ModelResource_Update_request_def
      ModelResource_merge_def example_library_def stub_ModelClient_def
      example_ModelResponse_def example_model_def Equal_def zero_Opt_def zero_OptNil_def)

lemma example_mcp_endpoint_updated:
  "MCPEndpointResource_Update example_library
       (stub_MCPEndpointClient example_MCPEndpointResponse)
       example_mcp_endpoint example_mcp_endpoint
     = \<lparr>Diagnostics = [],
        Calls = [Call_UpdateMcpendpoint
                  \<lparr>eu_Name = NewOptNil ''my-mcp-server'',
                   eu_URL = NewOptNil ''https://mcp.example.com/v1'',
                   eu_Description = zero_OptNil [], eu_Headers = NewOptNil fmempty,
                   eu_DevgraphAuth = NewOptNil False, eu_SupportsResources = NewOptNil True,
                   eu_Immutable = NewOptNil False, eu_Active = NewOptNil True,
                   eu_OAuthServiceID = zero_OptNil 0, eu_AllowedTools = zero_OptNil [],
                   eu_DeniedTools = zero_OptNil []\<rparr> 1],
        State = SetState example_mcp_endpoint\<rparr>"
  by (simp add: MCPEndpointResource_Update_def MCPEndpointResource_Update_request_def
      optional_uuid_def optional_headers_def optional_tools_def
      MCPEndpointResource_merge_update_def example_library_def stub_MCPEndpointClient_def
      example_MCPEndpointResponse_def example_mcp_endpoint_def zero_OptNil_def)



section \<open>Unsupported operations\<close>

text \<open>
  C3. Update and Delete of \<^verbatim>\<open>devgraph_environment\<close> and Update of
  \<^verbatim>\<open>devgraph_chat_suggestion\<close>: whatever the client, the plan and the prior state are,
  the handler adds exactly one error, whose summary and detail are constants, makes no
  remote call and does not write the state.
\<close>

theorem unsupported_operations_fixed_error:
  "EnvironmentResource_Update env_client env_plan env_state =
     \<lparr>Diagnostics = [Error ''Update not supported''
        ''Environments cannot be updated after creation. Please destroy and recreate the resource.''],
      Calls = [], State = NoStateWrite\<rparr>
   \<and> EnvironmentResource_Delete env_client env_state =
     \<lparr>Diagnostics = [Error ''Delete not supported''
        ''Environments cannot be deleted through the API. Please manage environment deletion through the Devgraph console.''],
      Calls = [], State = NoStateWrite\<rparr>
   \<and> ChatSuggestionResource_Update cs_client cs_plan cs_state =
     \<lparr>Diagnostics = [Error ''Update not supported''
        ''Chat suggestions cannot be updated. Please destroy and recreate the resource to make changes.''],
      Calls = [], State = NoStateWrite\<rparr>"
  by (simp add: EnvironmentResource_Update_def EnvironmentResource_Delete_def
      ChatSuggestionResource_Update_def)
section \<open>Read of a resource that is gone\<close>

text \<open>
  C4. \<^verbatim>\<open>Read\<close> of every resource: when the remote call answers that the stored
  identifier does not exist (a not-found response of the get-by-id resources; for
  environments and chat suggestions a list in which no element has the stored
  identifier), the handler removes the resource from the state and adds no diagnostic.
\<close>

theorem read_not_found_removes_resource:
  "(uuid_Parse lib (ValueString (mp_ID mp_state)) = Inr mp_id
      \<and> GetModelprovider mp_client mp_id = Inr NotFound3
    \<longrightarrow> ModelProviderResource_Read lib mp_client mp_state =
          \<lparr>Diagnostics = [], Calls = [Call_GetModelprovider mp_id],
           State = RemoveResource\<rparr>)
   \<and> (uuid_Parse lib (ValueString (oa_ID oa_state)) = Inr oa_id
      \<and> GetOAuthService oa_client oa_id = Inr NotFound3
    \<longrightarrow> OAuthServiceResource_Read lib oa_client oa_state =
          \<lparr>Diagnostics = [], Calls = [Call_GetOAuthService oa_id],
           State = RemoveResource\<rparr>)
   \<and> (uuid_Parse lib (ValueString (mcp_ID mcp_state)) = Inr mcp_id
      \<and> GetMcpendpoint mcp_client mcp_id = Inr NotFound3
    \<longrightarrow> MCPEndpointResource_Read lib mcp_client mcp_state =
          \<lparr>Diagnostics = [], Calls = [Call_GetMcpendpoint mcp_id],
           State = RemoveResource\<rparr>)
   \<and> (uuid_Parse lib (ValueString (dp_ID dp_state)) = Inr dp_id
      \<and> GetConfiguredProvider dp_client dp_id = Inr NotFound3
    \<longrightarrow> DiscoveryProviderResource_Read lib dp_client dp_state =
          \<lparr>Diagnostics = [], Calls = [Call_GetConfiguredProvider dp_id],
           State = RemoveResource\<rparr>)
   \<and> (GetModel mdl_client (ValueString (mdl_Name mdl_state)) = Inr NotFound3
    \<longrightarrow> ModelResource_Read lib mdl_client mdl_state =
          \<lparr>Diagnostics = [], Calls = [Call_GetModel (ValueString (mdl_Name mdl_state))],
           State = RemoveResource\<rparr>)
   \<and> (GetEnvironments env_client = Inr (Ok2 environments)
      \<and> (\<forall>env \<in> set environments.
            uuid_String lib (vr_ID env) \<noteq> ValueString (env_ID env_state))
    \<longrightarrow> EnvironmentResource_Read lib env_client env_state =
          \<lparr>Diagnostics = [], Calls = [Call_GetEnvironments], State = RemoveResource\<rparr>)
   \<and> (uuid_Parse lib (ValueString (cs_ID cs_state)) = Inr cs_id
      \<and> ListChatSuggestions cs_client = Inr (Ok2 suggestions)
      \<and> (\<forall>suggestion \<in> set suggestions. sr_ID suggestion \<noteq> cs_id)
    \<longrightarrow> ChatSuggestionResource_Read lib cs_client cs_state =
          \<lparr>Diagnostics = [], Calls = [Call_ListChatSuggestions], State = RemoveResource\<rparr>)"
proof -
  have env: "find (\<lambda>env. uuid_String lib (vr_ID env) = ValueString (env_ID env_state))
               environments = None"
    if "\<forall>env \<in> set environments.
          uuid_String lib (vr_ID env) \<noteq> ValueString (env_ID env_state)"
    using that by (simp add: find_None_iff)
  have cs: "find (\<lambda>suggestion. sr_ID suggestion = cs_id) suggestions = None"
    if "\<forall>suggestion \<in> set suggestions. sr_ID suggestion \<noteq> cs_id"
    using that by (simp add: find_None_iff)
  show ?thesis
    by (simp add: ModelProviderResource_Read_def OAuthServiceResource_Read_def
        MCPEndpointResource_Read_def DiscoveryProviderResource_Read_def
        ModelResource_Read_def EnvironmentResource_Read_def ChatSuggestionResource_Read_def
        EnvironmentResource_Read_loop_find ChatSuggestionResource_Read_loop_find env cs)
qed

theorem read_not_found_removes_resource_witness:
  "ModelProviderResource_Read example_library
       ((stub_ModelProviderClient untagged_response)\<lparr>GetModelprovider := \<lambda>u. Inr NotFound3\<rparr>)
       example_model_provider
     = \<lparr>Diagnostics = [], Calls = [Call_GetModelprovider 1], State = RemoveResource\<rparr>
   \<and> OAuthServiceResource_Read example_library
       ((stub_OAuthServiceClient example_OAuthServiceResponse)
          \<lparr>GetOAuthService := \<lambda>u. Inr NotFound3\<rparr>)
       example_oauth_service
     = \<lparr>Diagnostics = [], Calls = [Call_GetOAuthService 1], State = RemoveResource\<rparr>
   \<and> MCPEndpointResource_Read example_library
       ((stub_MCPEndpointClient example_MCPEndpointResponse)
          \<lparr>GetMcpendpoint := \<lambda>u. Inr NotFound3\<rparr>)
       example_mcp_endpoint
     = \<lparr>Diagnostics = [], Calls = [Call_GetMcpendpoint 1], State = RemoveResource\<rparr>
   \<and> DiscoveryProviderResource_Read example_library
       ((stub_DiscoveryProviderClient example_ConfiguredProviderResponse)
          \<lparr>GetConfiguredProvider := \<lambda>u. Inr NotFound3\<rparr>)
       example_discovery_provider
     = \<lparr>Diagnostics = [], Calls = [Call_GetConfiguredProvider 1], State = RemoveResource\<rparr>
   \<and> ModelResource_Read example_library
       ((stub_ModelClient example_ModelResponse)\<lparr>GetModel := \<lambda>n. Inr NotFound3\<rparr>)
       example_model
     = \<lparr>Diagnostics = [], Calls = [Call_GetModel ''gpt-4''], State = RemoveResource\<rparr>
   \<and> EnvironmentResource_Read example_library
       (stub_EnvironmentClient example_EnvironmentResponse
          [example_EnvironmentResponse\<lparr>vr_ID := 2\<rparr>])
       example_environment
     = \<lparr>Diagnostics = [], Calls = [Call_GetEnvironments], State = RemoveResource\<rparr>
   \<and> ChatSuggestionResource_Read example_library
       (stub_ChatSuggestionClient example_ChatSuggestionResponse
          [example_ChatSuggestionResponse\<lparr>sr_ID := 2\<rparr>])
       example_chat_suggestion
     = \<lparr>Diagnostics = [], Calls = [Call_ListChatSuggestions], State = RemoveResource\<rparr>"
  using read_not_found_removes_resource
    [where lib = example_library
       and mp_state = example_model_provider and mp_id = 1
       and mp_client = "(stub_ModelProviderClient untagged_response)
                          \<lparr>GetModelprovider := \<lambda>u. Inr NotFound3\<rparr>"
       and oa_state = example_oauth_service and oa_id = 1
       and oa_client = "(stub_OAuthServiceClient example_OAuthServiceResponse)
                          \<lparr>GetOAuthService := \<lambda>u. Inr NotFound3\<rparr>"
       and mcp_state = example_mcp_endpoint and mcp_id = 1
       and mcp_client = "(stub_MCPEndpointClient example_MCPEndpointResponse)
                           \<lparr>GetMcpendpoint := \<lambda>u. Inr NotFound3\<rparr>"
       and dp_state = example_discovery_provider and dp_id = 1
       and dp_client = "(stub_DiscoveryProviderClient example_ConfiguredProviderResponse)
                          \<lparr>GetConfiguredProvider := \<lambda>u. Inr NotFound3\<rparr>"
       and mdl_state = example_model
       and mdl_client = "(stub_ModelClient example_ModelResponse)
                           \<lparr>GetModel := \<lambda>n. Inr NotFound3\<rparr>"
       and env_state = example_environment
       and env_client = "stub_EnvironmentClient example_EnvironmentResponse
                           [example_EnvironmentResponse\<lparr>vr_ID := 2\<rparr>]"
       and environments = "[example_EnvironmentResponse\<lparr>vr_ID := 2\<rparr>]"
       and cs_state = example_chat_suggestion and cs_id = 1
       and cs_client = "stub_ChatSuggestionClient example_ChatSuggestionResponse
                          [example_ChatSuggestionResponse\<lparr>sr_ID := 2\<rparr>]"
       and suggestions = "[example_ChatSuggestionResponse\<lparr>sr_ID := 2\<rparr>]"]
  by (simp add: example_library_def example_model_provider_def example_oauth_service_def
      example_mcp_endpoint_def example_discovery_provider_def example_model_def
      example_environment_def example_chat_suggestion_def stub_ModelProviderClient_def
      stub_OAuthServiceClient_def stub_MCPEndpointClient_def stub_DiscoveryProviderClient_def
      stub_ModelClient_def stub_EnvironmentClient_def stub_ChatSuggestionClient_def
      example_EnvironmentResponse_def example_ChatSuggestionResponse_def)

section \<open>Create followed by Read\<close>

text \<open>
  Merging a response into a record that already holds the merge of that response
  changes nothing.
\<close>

lemma ModelProviderResource_merge_again:
  "ModelProviderResource_merge lib False result (ModelProviderResource_merge lib True result m)
     = ModelProviderResource_merge lib True result m"
  by (cases "mpr_Type result")
     (simp_all add: ModelProviderResource_merge_def ModelProviderResource_assign_def)

lemma ModelResource_merge_again:
  "ModelResource_merge lib result (ModelResource_merge lib result m)
     = ModelResource_merge lib result m"
  by (simp add: ModelResource_merge_def)

lemma MCPEndpointResource_merge_again:
  "MCPEndpointResource_merge lib False result (MCPEndpointResource_merge lib True result m)
     = MCPEndpointResource_merge lib True result m"
  by (simp add: MCPEndpointResource_merge_def)

lemma OAuthServiceResource_merge_again:
  "OAuthServiceResource_merge lib False True result
       (OAuthServiceResource_merge lib True True result m)
     = OAuthServiceResource_merge lib True True result m"
  by (simp add: OAuthServiceResource_merge_def)

lemma DiscoveryProviderResource_merge_again:
  "DiscoveryProviderResource_merge lib False result
       (DiscoveryProviderResource_merge lib True result m)
     = DiscoveryProviderResource_merge lib True result m"
  by (simp add: DiscoveryProviderResource_merge_def)

lemma EnvironmentResource_merge_again:
  "EnvironmentResource_merge lib False result (EnvironmentResource_merge lib True result m)
     = EnvironmentResource_merge lib True result m"
  by (simp add: EnvironmentResource_merge_def)

lemma ChatSuggestionResource_merge_again:
  "ChatSuggestionResource_merge lib False result
       (ChatSuggestionResource_merge lib True result m)
     = ChatSuggestionResource_merge lib True result m"
  by (simp add: ChatSuggestionResource_merge_def)

lemma EnvironmentResource_merge_ID:
  "env_ID (EnvironmentResource_merge lib True result m) = TfValue (uuid_String lib (vr_ID result))"
  by (simp add: EnvironmentResource_merge_def)

text \<open>
  \<^verbatim>\<open>Read\<close> after \<^verbatim>\<open>Create\<close>, one resource at a time: \<^verbatim>\<open>Create\<close> wrote the record
  \<open>s\<close> from the response \<open>result\<close> to its request, and the remote call of \<^verbatim>\<open>Read\<close>
  for the identifier in \<open>s\<close> answers with the same \<open>result\<close>.
\<close>

lemma ModelProviderResource_Create_then_Read:
  assumes "State (ModelProviderResource_Create lib client plan) = SetState s"
    and "Calls (ModelProviderResource_Create lib client plan) = [Call_CreateModelprovider req]"
    and "CreateModelprovider client req = Inr (Ok2 result)"
    and "uuid_Parse lib (ValueString (mp_ID s)) = Inr providerID"
    and "GetModelprovider client providerID = Inr (Ok3 result)"
  shows "ModelProviderResource_Read lib client s =
           \<lparr>Diagnostics = [], Calls = [Call_GetModelprovider providerID], State = SetState s\<rparr>"
proof -
  from assms(1) obtain createReq result' where
    "CreateModelprovider client createReq = Inr (Ok2 result')"
    "ModelProviderResource_Create lib client plan =
       \<lparr>Diagnostics = [], Calls = [Call_CreateModelprovider createReq],
        State = SetState (ModelProviderResource_merge lib True result' plan)\<rparr>"
    by (rule ModelProviderResource_Create_SetState)
  with assms(1,2,3) have "s = ModelProviderResource_merge lib True result plan"
    by simp
  with assms(4,5) show ?thesis
    by (simp add: ModelProviderResource_Read_def ModelProviderResource_merge_again)
qed

lemma MCPEndpointResource_Create_then_Read:
  assumes "State (MCPEndpointResource_Create lib client plan) = SetState s"
    and "Calls (MCPEndpointResource_Create lib client plan) = [Call_CreateMcpendpoint req]"
    and "CreateMcpendpoint client req = Inr (Ok2 result)"
    and "uuid_Parse lib (ValueString (mcp_ID s)) = Inr endpointID"
    and "GetMcpendpoint client endpointID = Inr (Ok3 result)"
  shows "MCPEndpointResource_Read lib client s =
           \<lparr>Diagnostics = [], Calls = [Call_GetMcpendpoint endpointID], State = SetState s\<rparr>"
proof -
  from assms(1) obtain createReq result' where
    "CreateMcpendpoint client createReq = Inr (Ok2 result')"
    "MCPEndpointResource_Create lib client plan =
       \<lparr>Diagnostics = [], Calls = [Call_CreateMcpendpoint createReq],
        State = SetState (MCPEndpointResource_merge lib True result' plan)\<rparr>"
    by (rule MCPEndpointResource_Create_SetState)
  with assms(1,2,3) have "s = MCPEndpointResource_merge lib True result plan"
    by simp
  with assms(4,5) show ?thesis
    by (simp add: MCPEndpointResource_Read_def MCPEndpointResource_merge_again)
qed

lemma OAuthServiceResource_Create_then_Read:
  assumes "State (OAuthServiceResource_Create lib client plan) = SetState s"
    and "Calls (OAuthServiceResource_Create lib client plan) = [Call_CreateOAuthService req]"
    and "CreateOAuthService client req = Inr (Ok2 result)"
    and "uuid_Parse lib (ValueString (oa_ID s)) = Inr serviceID"
    and "GetOAuthService client serviceID = Inr (Ok3 result)"
  shows "OAuthServiceResource_Read lib client s =
           \<lparr>Diagnostics = [], Calls = [Call_GetOAuthService serviceID], State = SetState s\<rparr>"
proof -
  from assms(1) obtain createReq result' where
    "CreateOAuthService client createReq = Inr (Ok2 result')"
    "OAuthServiceResource_Create lib client plan =
       \<lparr>Diagnostics = [], Calls = [Call_CreateOAuthService createReq],
        State = SetState (OAuthServiceResource_merge lib True True result' plan)\<rparr>"
    by (rule OAuthServiceResource_Create_SetState)
  with assms(1,2,3) have "s = OAuthServiceResource_merge lib True True result plan"
    by simp
  with assms(4,5) show ?thesis
    by (simp add: OAuthServiceResource_Read_def OAuthServiceResource_merge_again)
qed

lemma DiscoveryProviderResource_Create_then_Read:
  assumes "State (DiscoveryProviderResource_Create js lib client plan) = SetState s"
    and "Calls (DiscoveryProviderResource_Create js lib client plan) = [Call_CreateConfiguredProvider req]"
    and "CreateConfiguredProvider client req = Inr (Ok3 result)"
    and "uuid_Parse lib (ValueString (dp_ID s)) = Inr providerID"
    and "GetConfiguredProvider client providerID = Inr (Ok3 result)"
  shows "DiscoveryProviderResource_Read lib client s =
           \<lparr>Diagnostics = [], Calls = [Call_GetConfiguredProvider providerID], State = SetState s\<rparr>"
proof -
  from assms(1) obtain createReq result' where
    "CreateConfiguredProvider client createReq = Inr (Ok3 result')"
    "DiscoveryProviderResource_Create js lib client plan =
       \<lparr>Diagnostics = [], Calls = [Call_CreateConfiguredProvider createReq],
        State = SetState (DiscoveryProviderResource_merge lib True result' plan)\<rparr>"
    by (rule DiscoveryProviderResource_Create_SetState)
  with assms(1,2,3) have "s = DiscoveryProviderResource_merge lib True result plan"
    by simp
  with assms(4,5) show ?thesis
    by (simp add: DiscoveryProviderResource_Read_def DiscoveryProviderResource_merge_again)
qed

lemma ModelResource_Create_then_Read:
  assumes "State (ModelResource_Create lib client plan) = SetState s"
    and "Calls (ModelResource_Create lib client plan) = [Call_CreateModel req]"
    and "CreateModel client req = Inr (Ok2 result)"
    and "GetModel client (ValueString (mdl_Name s)) = Inr (Ok3 result)"
  shows "ModelResource_Read lib client s =
           \<lparr>Diagnostics = [], Calls = [Call_GetModel (ValueString (mdl_Name s))],
            State = SetState s\<rparr>"
proof -
  from assms(1) obtain createReq result' where
    "CreateModel client createReq = Inr (Ok2 result')"
    "ModelResource_Create lib client plan =
       \<lparr>Diagnostics = [], Calls = [Call_CreateModel createReq],
        State = SetState (ModelResource_merge lib result' plan)\<rparr>"
    by (rule ModelResource_Create_SetState)
  with assms(1,2,3) have "s = ModelResource_merge lib result plan"
    by simp
  with assms(4) show ?thesis
    by (simp add: ModelResource_Read_def ModelResource_merge_again)
qed

lemma EnvironmentResource_Create_then_Read:
  assumes "State (EnvironmentResource_Create lib client plan) = SetState s"
    and "Calls (EnvironmentResource_Create lib client plan) = [Call_CreateEnvironment req]"
    and "CreateEnvironment client req = Inr (Ok2 result)"
    and "GetEnvironments client = Inr (Ok2 environments)"
    and "find (\<lambda>env. uuid_String lib (vr_ID env) = ValueString (env_ID s)) environments
           = Some result"
  shows "EnvironmentResource_Read lib client s =
           \<lparr>Diagnostics = [], Calls = [Call_GetEnvironments], State = SetState s\<rparr>"
proof -
  from assms(1) obtain createReq result' where
    "CreateEnvironment client createReq = Inr (Ok2 result')"
    "EnvironmentResource_Create lib client plan =
       \<lparr>Diagnostics = [], Calls = [Call_CreateEnvironment createReq],
        State = SetState (EnvironmentResource_merge lib True result' plan)\<rparr>"
    by (rule EnvironmentResource_Create_SetState)
  with assms(1,2,3) have "s = EnvironmentResource_merge lib True result plan"
    by simp
  with assms(4,5) show ?thesis
    by (simp add: EnvironmentResource_Read_def EnvironmentResource_Read_loop_find
        EnvironmentResource_merge_again)
qed

lemma ChatSuggestionResource_Create_then_Read:
  assumes "State (ChatSuggestionResource_Create lib client plan) = SetState s"
    and "Calls (ChatSuggestionResource_Create lib client plan) = [Call_CreateChatSuggestion req]"
    and "CreateChatSuggestion client req = Inr (Ok2 result)"
    and "uuid_Parse lib (ValueString (cs_ID s)) = Inr suggestionID"
    and "ListChatSuggestions client = Inr (Ok2 suggestions)"
    and "find (\<lambda>suggestion. sr_ID suggestion = suggestionID) suggestions = Some result"
  shows "ChatSuggestionResource_Read lib client s =
           \<lparr>Diagnostics = [], Calls = [Call_ListChatSuggestions], State = SetState s\<rparr>"
proof -
  from assms(1) obtain result' where
    "CreateChatSuggestion client (ChatSuggestionResource_Create_request plan)
       = Inr (Ok2 result')"
    "ChatSuggestionResource_Create lib client plan =
       \<lparr>Diagnostics = [],
        Calls = [Call_CreateChatSuggestion (ChatSuggestionResource_Create_request plan)],
        State = SetState (ChatSuggestionResource_merge lib True result' plan)\<rparr>"
    by (rule ChatSuggestionResource_Create_SetState)
  with assms(1,2,3) have "s = ChatSuggestionResource_merge lib True result plan"
    by simp
  with assms(4,5,6) show ?thesis
    by (simp add: ChatSuggestionResource_Read_def ChatSuggestionResource_Read_loop_find
        ChatSuggestionResource_merge_again)
qed

text \<open>
  C5. For every resource: \<^verbatim>\<open>Create\<close> succeeded and wrote the record \<open>s\<close> from the response
  \<open>result\<close>; the remote API then reports the created object as that same \<open>result\<close>
  (by identifier, by name for models, as the first listed element with the identifier
  for environments and chat suggestions). Then \<^verbatim>\<open>Read\<close> of \<open>s\<close> succeeds and writes \<open>s\<close>
  again: the record after \<^verbatim>\<open>Read\<close> equals the record after \<^verbatim>\<open>Create\<close> on every
  field, the secret ones included.
\<close>

theorem create_then_read_keeps_record:
  "(State (ModelProviderResource_Create lib mp_client mp_plan) = SetState mp_s
      \<and> Calls (ModelProviderResource_Create lib mp_client mp_plan)
          = [Call_CreateModelprovider mp_req]
      \<and> CreateModelprovider mp_client mp_req = Inr (Ok2 mp_result)
      \<and> uuid_Parse lib (ValueString (mp_ID mp_s)) = Inr mp_id
      \<and> GetModelprovider mp_client mp_id = Inr (Ok3 mp_result)
    \<longrightarrow> ModelProviderResource_Read lib mp_client mp_s =
          \<lparr>Diagnostics = [], Calls = [Call_GetModelprovider mp_id], State = SetState mp_s\<rparr>)
   \<and> (State (ModelResource_Create lib mdl_client mdl_plan) = SetState mdl_s
      \<and> Calls (ModelResource_Create lib mdl_client mdl_plan) = [Call_CreateModel mdl_req]
      \<and> CreateModel mdl_client mdl_req = Inr (Ok2 mdl_result)
      \<and> GetModel mdl_client (ValueString (mdl_Name mdl_s)) = Inr (Ok3 mdl_result)
    \<longrightarrow> ModelResource_Read lib mdl_client mdl_s =
          \<lparr>Diagnostics = [], Calls = [Call_GetModel (ValueString (mdl_Name mdl_s))],
           State = SetState mdl_s\<rparr>)
   \<and> (State (MCPEndpointResource_Create lib mcp_client mcp_plan) = SetState mcp_s
      \<and> Calls (MCPEndpointResource_Create lib mcp_client mcp_plan)
          = [Call_CreateMcpendpoint mcp_req]
      \<and> CreateMcpendpoint mcp_client mcp_req = Inr (Ok2 mcp_result)
      \<and> uuid_Parse lib (ValueString (mcp_ID mcp_s)) = Inr mcp_id
      \<and> GetMcpendpoint mcp_client mcp_id = Inr (Ok3 mcp_result)
    \<longrightarrow> MCPEndpointResource_Read lib mcp_client mcp_s =
          \<lparr>Diagnostics = [], Calls = [Call_GetMcpendpoint mcp_id], State = SetState mcp_s\<rparr>)
   \<and> (State (OAuthServiceResource_Create lib oa_client oa_plan) = SetState oa_s
      \<and> Calls (OAuthServiceResource_Create lib oa_client oa_plan)
          = [Call_CreateOAuthService oa_req]
      \<and> CreateOAuthService oa_client oa_req = Inr (Ok2 oa_result)
      \<and> uuid_Parse lib (ValueString (oa_ID oa_s)) = Inr oa_id
      \<and> GetOAuthService oa_client oa_id = Inr (Ok3 oa_result)
    \<longrightarrow> OAuthServiceResource_Read lib oa_client oa_s =
          \<lparr>Diagnostics = [], Calls = [Call_GetOAuthService oa_id], State = SetState oa_s\<rparr>)
   \<and> (State (DiscoveryProviderResource_Create js lib dp_client dp_plan) = SetState dp_s
      \<and> Calls (DiscoveryProviderResource_Create js lib dp_client dp_plan)
          = [Call_CreateConfiguredProvider dp_req]
      \<and> CreateConfiguredProvider dp_client dp_req = Inr (Ok3 dp_result)
      \<and> uuid_Parse lib (ValueString (dp_ID dp_s)) = Inr dp_id
      \<and> GetConfiguredProvider dp_client dp_id = Inr (Ok3 dp_result)
    \<longrightarrow> DiscoveryProviderResource_Read lib dp_client dp_s =
          \<lparr>Diagnostics = [], Calls = [Call_GetConfiguredProvider dp_id],
           State = SetState dp_s\<rparr>)
   \<and> (State (EnvironmentResource_Create lib env_client env_plan) = SetState env_s
      \<and> Calls (EnvironmentResource_Create lib env_client env_plan)
          = [Call_CreateEnvironment env_req]
      \<and> CreateEnvironment env_client env_req = Inr (Ok2 env_result)
      \<and> GetEnvironments env_client = Inr (Ok2 environments)
      \<and> find (\<lambda>env. uuid_String lib (vr_ID env) = ValueString (env_ID env_s)) environments
          = Some env_result
    \<longrightarrow> EnvironmentResource_Read lib env_client env_s =
          \<lparr>Diagnostics = [], Calls = [Call_GetEnvironments], State = SetState env_s\<rparr>)
   \<and> (State (ChatSuggestionResource_Create lib cs_client cs_plan) = SetState cs_s
      \<and> Calls (ChatSuggestionResource_Create lib cs_client cs_plan)
          = [Call_CreateChatSuggestion cs_req]
      \<and> CreateChatSuggestion cs_client cs_req = Inr (Ok2 cs_result)
      \<and> uuid_Parse lib (ValueString (cs_ID cs_s)) = Inr cs_id
      \<and> ListChatSuggestions cs_client = Inr (Ok2 suggestions)
      \<and> find (\<lambda>suggestion. sr_ID suggestion = cs_id) suggestions = Some cs_result
    \<longrightarrow> ChatSuggestionResource_Read lib cs_client cs_s =
          \<lparr>Diagnostics = [], Calls = [Call_ListChatSuggestions], State = SetState cs_s\<rparr>)"
proof (intro conjI impI, goal_cases)
  case 1
  then show ?case by (elim conjE) (rule ModelProviderResource_Create_then_Read)
next
  case 2
  then show ?case by (elim conjE) (rule ModelResource_Create_then_Read)
next
  case 3
  then show ?case by (elim conjE) (rule MCPEndpointResource_Create_then_Read)
next
  case 4
  then show ?case by (elim conjE) (rule OAuthServiceResource_Create_then_Read)
next
  case 5
  then show ?case by (elim conjE) (rule DiscoveryProviderResource_Create_then_Read)
next
  case 6
  then show ?case by (elim conjE) (rule EnvironmentResource_Create_then_Read)
next
  case 7
  then show ?case by (elim conjE) (rule ChatSuggestionResource_Create_then_Read)
qed

theorem create_then_read_keeps_record_witness:
  "State (ModelProviderResource_Create example_library
            (stub_ModelProviderClient (anthropic_response ''k1''))
            (example_model_provider\<lparr>mp_ID := TfUnknown\<rparr>)) = SetState example_model_provider
   \<and> ModelProviderResource_Read example_library
        (stub_ModelProviderClient (anthropic_response ''k1'')) example_model_provider
      = \<lparr>Diagnostics = [], Calls = [Call_GetModelprovider 1],
         State = SetState example_model_provider\<rparr>
   \<and> State (ModelResource_Create example_library (stub_ModelClient example_ModelResponse)
            (example_model\<lparr>mdl_ID := TfUnknown\<rparr>)) = SetState example_model
   \<and> ModelResource_Read example_library (stub_ModelClient example_ModelResponse) example_model
      = \<lparr>Diagnostics = [], Calls = [Call_GetModel ''gpt-4''],
         State = SetState example_model\<rparr>
   \<and> State (MCPEndpointResource_Create example_library
            (stub_MCPEndpointClient example_MCPEndpointResponse)
            (example_mcp_endpoint\<lparr>mcp_ID := TfUnknown\<rparr>)) = SetState example_mcp_endpoint
   \<and> MCPEndpointResource_Read example_library
        (stub_MCPEndpointClient example_MCPEndpointResponse) example_mcp_endpoint
      = \<lparr>Diagnostics = [], Calls = [Call_GetMcpendpoint 1],
         State = SetState example_mcp_endpoint\<rparr>
   \<and> State (OAuthServiceResource_Create example_library
            (stub_OAuthServiceClient example_OAuthServiceResponse)
            (example_oauth_service\<lparr>oa_ID := TfUnknown, oa_CreatedAt := TfUnknown,
               oa_UpdatedAt := TfUnknown\<rparr>)) = SetState example_oauth_service
   \<and> OAuthServiceResource_Read example_library
        (stub_OAuthServiceClient example_OAuthServiceResponse) example_oauth_service
      = \<lparr>Diagnostics = [], Calls = [Call_GetOAuthService 1],
         State = SetState example_oauth_service\<rparr>
   \<and> State (DiscoveryProviderResource_Create example_json example_library
            (stub_DiscoveryProviderClient example_ConfiguredProviderResponse)
            (example_discovery_provider\<lparr>dp_ID := TfUnknown\<rparr>))
      = SetState example_discovery_provider
   \<and> DiscoveryProviderResource_Read example_library
        (stub_DiscoveryProviderClient example_ConfiguredProviderResponse)
        example_discovery_provider
      = \<lparr>Diagnostics = [], Calls = [Call_GetConfiguredProvider 1],
         State = SetState example_discovery_provider\<rparr>
   \<and> State (EnvironmentResource_Create example_library
            (stub_EnvironmentClient example_EnvironmentResponse [example_EnvironmentResponse])
            (example_environment\<lparr>env_ID := TfUnknown, env_Slug := TfUnknown\<rparr>))
      = SetState example_environment
   \<and> EnvironmentResource_Read example_library
        (stub_EnvironmentClient example_EnvironmentResponse [example_EnvironmentResponse])
        example_environment
      = \<lparr>Diagnostics = [], Calls = [Call_GetEnvironments],
         State = SetState example_environment\<rparr>
   \<and> State (ChatSuggestionResource_Create example_library
            (stub_ChatSuggestionClient example_ChatSuggestionResponse
               [example_ChatSuggestionResponse])
            (example_chat_suggestion\<lparr>cs_ID := TfUnknown\<rparr>)) = SetState example_chat_suggestion
   \<and> ChatSuggestionResource_Read example_library
        (stub_ChatSuggestionClient example_ChatSuggestionResponse
           [example_ChatSuggestionResponse])
        example_chat_suggestion
      = \<lparr>Diagnostics = [], Calls = [Call_ListChatSuggestions],
         State = SetState example_chat_suggestion\<rparr>"
proof -
  note T = create_then_read_keeps_record [where lib = example_library and js = example_json]
  have read_mp: "ModelProviderResource_Read example_library
        (stub_ModelProviderClient (anthropic_response ''k1'')) example_model_provider
      = \<lparr>Diagnostics = [], Calls = [Call_GetModelprovider 1],
         State = SetState example_model_provider\<rparr>"
    by (rule T [where mp_plan = "example_model_provider\<lparr>mp_ID := TfUnknown\<rparr>"
                  and mp_result = "anthropic_response ''k1''"
                  and mp_req = "AnthropicModelProviderCreate
                     \<lparr>pc_Type = ''anthropic'', pc_Name = ''p1'', pc_APIKey = ''k1'',
                      pc_Default = NewOpt False\<rparr>",
                THEN conjunct1, THEN mp])
       (simp add: example_model_provider_created stub_ModelProviderClient_answers
          example_identifiers)
  have read_mdl: "ModelResource_Read example_library (stub_ModelClient example_ModelResponse)
        example_model
      = \<lparr>Diagnostics = [], Calls = [Call_GetModel (ValueString (mdl_Name example_model))],
         State = SetState example_model\<rparr>"
    by (rule T [where mdl_plan = "example_model\<lparr>mdl_ID := TfUnknown\<rparr>"
                  and mdl_result = example_ModelResponse
                  and mdl_req = "\<lparr>mc_Name = ''gpt-4'', mc_ProviderID = 1,
                      mc_Default = NewOpt False, mc_Description = zero_OptNil []\<rparr>",
                THEN conjunct2, THEN conjunct1, THEN mp])
       (simp add: example_model_created stub_ModelClient_answers)
  have read_mcp: "MCPEndpointResource_Read example_library
        (stub_MCPEndpointClient example_MCPEndpointResponse) example_mcp_endpoint
      = \<lparr>Diagnostics = [], Calls = [Call_GetMcpendpoint 1],
         State = SetState example_mcp_endpoint\<rparr>"
    by (rule T [where mcp_plan = "example_mcp_endpoint\<lparr>mcp_ID := TfUnknown\<rparr>"
                  and mcp_result = example_MCPEndpointResponse
                  and mcp_req = "\<lparr>ec_Name = ''my-mcp-server'',
                   ec_URL = ''https://mcp.example.com/v1'',
                   ec_Description = zero_OptNil [], ec_Headers = zero_Opt fmempty,
                   ec_DevgraphAuth = NewOpt False, ec_SupportsResources = NewOpt True,
                   ec_Immutable = NewOpt False, ec_Active = NewOpt True,
                   ec_OAuthServiceID = zero_OptNil 0, ec_AllowedTools = zero_OptNil [],
                   ec_DeniedTools = zero_OptNil []\<rparr>",
                THEN conjunct2, THEN conjunct2, THEN conjunct1, THEN mp])
       (simp add: example_mcp_endpoint_created stub_MCPEndpointClient_answers
          example_identifiers)
  have read_oa: "OAuthServiceResource_Read example_library
        (stub_OAuthServiceClient example_OAuthServiceResponse) example_oauth_service
      = \<lparr>Diagnostics = [], Calls = [Call_GetOAuthService 1],
         State = SetState example_oauth_service\<rparr>"
    by (rule T [where oa_plan = "example_oauth_service\<lparr>oa_ID := TfUnknown,
                     oa_CreatedAt := TfUnknown, oa_UpdatedAt := TfUnknown\<rparr>"
                  and oa_result = example_OAuthServiceResponse
                  and oa_req = "\<lparr>oc_Name = ''github'', oc_DisplayName = ''GitHub'',
                   oc_ClientID = ''client-1'', oc_ClientSecret = ''s3cret'',
                   oc_AuthorizationURL = ''https://github.com/login/oauth/authorize'',
                   oc_TokenURL = ''https://github.com/login/oauth/access_token'',
                   oc_SupportedGrantTypes = [], oc_Description = zero_OptNil [],
                   oc_DefaultScopes = NewOptNil [], oc_UserinfoURL = zero_OptNil [],
                   oc_IsActive = NewOpt True, oc_IconURL = zero_OptNil [],
                   oc_HomepageURL = zero_OptNil []\<rparr>",
                THEN conjunct2, THEN conjunct2, THEN conjunct2, THEN conjunct1, THEN mp])
       (simp add: example_oauth_service_created stub_OAuthServiceClient_answers
          example_identifiers)
  have read_dp: "DiscoveryProviderResource_Read example_library
        (stub_DiscoveryProviderClient example_ConfiguredProviderResponse)
        example_discovery_provider
      = \<lparr>Diagnostics = [], Calls = [Call_GetConfiguredProvider 1],
         State = SetState example_discovery_provider\<rparr>"
    by (rule T [where dp_plan = "example_discovery_provider\<lparr>dp_ID := TfUnknown\<rparr>"
                  and dp_result = example_ConfiguredProviderResponse
                  and dp_req = "\<lparr>cc_Name = ''GitHub Production'',
                   cc_ProviderType = ''github'',
                   cc_Config = fmupd ''token'' ''\"t\"'' fmempty,
                   cc_Enabled = NewOpt True, cc_Interval = NewOpt 300\<rparr>",
                THEN conjunct2, THEN conjunct2, THEN conjunct2, THEN conjunct2,
                THEN conjunct1, THEN mp])
       (simp add: example_discovery_provider_created stub_DiscoveryProviderClient_answers
          example_identifiers)
  have found_env:
    "uuid_String example_library (vr_ID example_EnvironmentResponse)
       = ValueString (env_ID example_environment)"
    by (simp add: example_environment_def example_EnvironmentResponse_def example_library_def)
  have read_env: "EnvironmentResource_Read example_library
        (stub_EnvironmentClient example_EnvironmentResponse [example_EnvironmentResponse])
        example_environment
      = \<lparr>Diagnostics = [], Calls = [Call_GetEnvironments],
         State = SetState example_environment\<rparr>"
    by (rule T [where env_plan = "example_environment\<lparr>env_ID := TfUnknown,
                     env_Slug := TfUnknown\<rparr>"
                  and env_result = example_EnvironmentResponse
                  and environments = "[example_EnvironmentResponse]"
                  and env_req = "\<lparr>vc_Name = ''prod'', vc_StripeSubscriptionID = ''sub_1'',
                   vc_InstanceURL = ''https://prod.example.com'', vc_InvitedUsers = []\<rparr>",
                THEN conjunct2, THEN conjunct2, THEN conjunct2, THEN conjunct2,
                THEN conjunct2, THEN conjunct1, THEN mp])
       (simp add: example_environment_created stub_EnvironmentClient_answers found_env)
  have found_cs: "sr_ID example_ChatSuggestionResponse = 1"
    by (simp add: example_ChatSuggestionResponse_def)
  have read_cs: "ChatSuggestionResource_Read example_library
        (stub_ChatSuggestionClient example_ChatSuggestionResponse
           [example_ChatSuggestionResponse])
        example_chat_suggestion
      = \<lparr>Diagnostics = [], Calls = [Call_ListChatSuggestions],
         State = SetState example_chat_suggestion\<rparr>"
    by (rule T [where cs_plan = "example_chat_suggestion\<lparr>cs_ID := TfUnknown\<rparr>"
                  and cs_result = example_ChatSuggestionResponse
                  and cs_id = 1
                  and suggestions = "[example_ChatSuggestionResponse]"
                  and cs_req = "\<lparr>sc_Title = ''Explore'', sc_Label = ''start'',
                   sc_Action = ''Show me my services'', sc_Active = NewOpt True\<rparr>",
                THEN conjunct2, THEN conjunct2, THEN conjunct2, THEN conjunct2,
                THEN conjunct2, THEN conjunct2, THEN mp])
       (simp add: example_chat_suggestion_created stub_ChatSuggestionClient_answers
          example_identifiers found_cs)
  show ?thesis
    using read_mp read_mdl read_mcp read_oa read_dp read_env read_cs
    by (simp add: example_model_provider_created example_model_created
        example_mcp_endpoint_created example_oauth_service_created
        example_discovery_provider_created example_environment_created
        example_chat_suggestion_created example_identifiers)
qed
section \<open>Validation of the discovery provider configuration\<close>

text \<open>
  The loop that re-encodes the decoded values reports its own error only; the remote
  call and the response report theirs.
\<close>

lemma encode_config_diagnostics:
  "encode_config marshal entries configMap = Inl ds
     \<Longrightarrow> \<exists>detail. ds = [Error ''Error encoding config value'' detail]"
  by (induction entries arbitrary: configMap) (auto split: sum.splits)

lemma DiscoveryProviderResource_Create_request_diagnostics:
  assumes "json_Unmarshal js (ValueString (dp_Config plan)) = Inr validateMap"
    and "DiscoveryProviderResource_Create_request js plan = Inl ds"
  shows "\<exists>detail. ds = [Error ''Error encoding config value'' detail]"
proof -
  from assms have "encode_config (json_Marshal js) validateMap fmempty = Inl ds"
    by (simp add: DiscoveryProviderResource_Create_request_def parse_config_def Let_def
        split: sum.splits)
  then show ?thesis by (rule encode_config_diagnostics)
qed

text \<open>
  C6. \<^verbatim>\<open>Create\<close> of \<^verbatim>\<open>devgraph_discovery_provider\<close>. When \<^verbatim>\<open>json.Unmarshal\<close> rejects the
  configuration string of the plan, as it does for every string that is not valid JSON,
  the handler adds the error "Invalid Config JSON", makes no remote call and writes no
  state. When \<^verbatim>\<open>json.Unmarshal\<close> accepts it, as it does for every JSON object, no
  diagnostic of the handler is an "Invalid Config JSON" error.
\<close>

theorem invalid_config_fails_before_any_call:
  "(json_Unmarshal js (ValueString (dp_Config plan)) = Inl err
    \<longrightarrow> DiscoveryProviderResource_Create js lib client plan =
          \<lparr>Diagnostics = [Error ''Invalid Config JSON''
                            (''Could not parse config as JSON: '' @ err)],
           Calls = [], State = NoStateWrite\<rparr>)
   \<and> (json_Unmarshal js (ValueString (dp_Config plan)) = Inr validateMap
    \<longrightarrow> (\<forall>detail. Error ''Invalid Config JSON'' detail
            \<notin> set (Diagnostics (DiscoveryProviderResource_Create js lib client plan))))"
proof (intro conjI impI allI)
  assume "json_Unmarshal js (ValueString (dp_Config plan)) = Inl err"
  then show "DiscoveryProviderResource_Create js lib client plan =
          \<lparr>Diagnostics = [Error ''Invalid Config JSON''
                            (''Could not parse config as JSON: '' @ err)],
           Calls = [], State = NoStateWrite\<rparr>"
    by (simp add: DiscoveryProviderResource_Create_def
        DiscoveryProviderResource_Create_request_def parse_config_def)
next
  fix detail
  assume parsed: "json_Unmarshal js (ValueString (dp_Config plan)) = Inr validateMap"
  show "Error ''Invalid Config JSON'' detail
          \<notin> set (Diagnostics (DiscoveryProviderResource_Create js lib client plan))"
  proof (cases "DiscoveryProviderResource_Create_request js plan")
    case (Inl ds)
    with parsed obtain d where "ds = [Error ''Error encoding config value'' d]"
      using DiscoveryProviderResource_Create_request_diagnostics by blast
    with Inl show ?thesis by (simp add: DiscoveryProviderResource_Create_def)
  next
    case (Inr createReq)
    then show ?thesis
      by (cases "CreateConfiguredProvider client createReq" rule: response3_cases)
         (simp_all add: DiscoveryProviderResource_Create_def)
  qed
qed

theorem invalid_config_fails_before_any_call_witness:
  "DiscoveryProviderResource_Create example_json example_library
       (stub_DiscoveryProviderClient example_ConfiguredProviderResponse)
       (example_discovery_provider\<lparr>dp_ID := TfUnknown, dp_Config := TfValue ''{bad''\<rparr>)
     = \<lparr>Diagnostics = [Error ''Invalid Config JSON''
                       ''Could not parse config as JSON: invalid character''],
        Calls = [], State = NoStateWrite\<rparr>
   \<and> json_Unmarshal example_json (ValueString (dp_Config example_discovery_provider))
       = Inr [(''token'', ''t'')]
   \<and> Error ''Invalid Config JSON'' ''Could not parse config as JSON: invalid character''
       \<notin> set (Diagnostics (DiscoveryProviderResource_Create example_json example_library
               (stub_DiscoveryProviderClient example_ConfiguredProviderResponse)
               (example_discovery_provider\<lparr>dp_ID := TfUnknown\<rparr>)))"
proof -
  have bad: "json_Unmarshal example_json
               (ValueString (dp_Config (example_discovery_provider
                  \<lparr>dp_ID := TfUnknown, dp_Config := TfValue ''{bad''\<rparr>)))
             = Inl ''invalid character''"
    by (simp add: example_json_def)
  have good: "json_Unmarshal example_json
                (ValueString (dp_Config (example_discovery_provider\<lparr>dp_ID := TfUnknown\<rparr>)))
              = Inr [(''token'', ''t'')]"
    by (simp add: example_json_def example_discovery_provider_def)
  note T = invalid_config_fails_before_any_call
    [where js = example_json and lib = example_library
       and client = "stub_DiscoveryProviderClient example_ConfiguredProviderResponse"]
  from T [where plan = "example_discovery_provider
                          \<lparr>dp_ID := TfUnknown, dp_Config := TfValue ''{bad''\<rparr>"
            and err = "''invalid character''", THEN conjunct1, THEN mp, OF bad]
  have 1: "DiscoveryProviderResource_Create example_json example_library
       (stub_DiscoveryProviderClient example_ConfiguredProviderResponse)
       (example_discovery_provider\<lparr>dp_ID := TfUnknown, dp_Config := TfValue ''{bad''\<rparr>)
     = \<lparr>Diagnostics = [Error ''Invalid Config JSON''
                       ''Could not parse config as JSON: invalid character''],
        Calls = [], State = NoStateWrite\<rparr>"
    by simp
  from T [where plan = "example_discovery_provider\<lparr>dp_ID := TfUnknown\<rparr>"
            and validateMap = "[(''token'', ''t'')]", THEN conjunct2, THEN mp, OF good]
  have 2: "Error ''Invalid Config JSON'' ''Could not parse config as JSON: invalid character''
       \<notin> set (Diagnostics (DiscoveryProviderResource_Create example_json example_library
               (stub_DiscoveryProviderClient example_ConfiguredProviderResponse)
               (example_discovery_provider\<lparr>dp_ID := TfUnknown\<rparr>)))"
    by blast
  from good have 3: "json_Unmarshal example_json
       (ValueString (dp_Config example_discovery_provider)) = Inr [(''token'', ''t'')]"
    by simp
  from 1 2 3 show ?thesis by blast
qed

section \<open>A model provider response with an unrecognized discriminator\<close>

text \<open>
  C7. The switch of the model provider on the discriminator of the response has no
  default case. With a response whose discriminator is none of the three constants
  (here the zero value of the response struct), \<^verbatim>\<open>Create\<close>, \<^verbatim>\<open>Read\<close> and \<^verbatim>\<open>Update\<close>
  add no diagnostic and write the plan, or the prior state, as it was: \<^verbatim>\<open>Create\<close>
  persists a record whose identifier is still unknown.
\<close>

theorem unrecognized_discriminator_persists_state:
  "ModelProviderResource_Create example_library (stub_ModelProviderClient untagged_response)
       (example_model_provider\<lparr>mp_ID := TfUnknown\<rparr>)
     = \<lparr>Diagnostics = [],
        Calls = [Call_CreateModelprovider (AnthropicModelProviderCreate
                  \<lparr>pc_Type = ''anthropic'', pc_Name = ''p1'', pc_APIKey = ''k1'',
                   pc_Default = NewOpt False\<rparr>)],
        State = SetState (example_model_provider\<lparr>mp_ID := TfUnknown\<rparr>)\<rparr>
   \<and> ModelProviderResource_Read example_library (stub_ModelProviderClient untagged_response)
       example_model_provider
     = \<lparr>Diagnostics = [], Calls = [Call_GetModelprovider 1],
        State = SetState example_model_provider\<rparr>
   \<and> ModelProviderResource_Update example_library (stub_ModelProviderClient untagged_response)
       (example_model_provider\<lparr>mp_Name := TfValue ''p2''\<rparr>) example_model_provider
     = \<lparr>Diagnostics = [],
        Calls = [Call_UpdateModelprovider
                  \<lparr>mpu_Name = NewOptNil ''p2'', mpu_APIKey = zero_OptNil [],
                   mpu_Default = zero_OptNil False\<rparr> 1],
        State = SetState (example_model_provider\<lparr>mp_Name := TfValue ''p2''\<rparr>)\<rparr>"
  by (simp add: ModelProviderResource_Create_def ModelProviderResource_Read_def
      ModelProviderResource_Update_def ModelProviderResource_Create_request_def
      ModelProviderResource_Update_request_def ModelProviderResource_merge_def
      example_library_def stub_ModelProviderClient_def untagged_response_def
      example_model_provider_def Equal_def)

section \<open>Attributes that force replacement\<close>

text \<open>
  C8. The name of the OAuth service and the provider type of the discovery provider
  carry \<^verbatim>\<open>RequiresReplace\<close>; the type of the model provider carries a validator and no
  plan modifier. A plan that changes only the type of a model provider therefore
  reaches \<^verbatim>\<open>Update\<close>, which sends a request with no field set and writes the type
  the remote API reports.
\<close>

theorem model_provider_type_not_replaced:
  "\<not> forces_replacement ModelProviderResource_Schema ''type''
   \<and> forces_replacement OAuthServiceResource_Schema ''name''
   \<and> forces_replacement DiscoveryProviderResource_Schema ''provider_type''
   \<and> ModelProviderResource_Update example_library
        (stub_ModelProviderClient (anthropic_response ''k1''))
        (example_model_provider\<lparr>mp_Type := TfValue ''openai''\<rparr>) example_model_provider
     = \<lparr>Diagnostics = [],
        Calls = [Call_UpdateModelprovider
                  \<lparr>mpu_Name = zero_OptNil [], mpu_APIKey = zero_OptNil [],
                   mpu_Default = zero_OptNil False\<rparr> 1],
        State = SetState example_model_provider\<rparr>"
  by (simp add: forces_replacement_def ModelProviderResource_Schema_def
      OAuthServiceResource_Schema_def DiscoveryProviderResource_Schema_def attr_def
      ModelProviderResource_Update_def ModelProviderResource_Update_request_def
      ModelProviderResource_merge_def ModelProviderResource_assign_def
      example_library_def stub_ModelProviderClient_def anthropic_response_def
      example_model_provider_def Equal_def zero_Opt_def)

section \<open>Update of a model\<close>

text \<open>
  C10. \<^verbatim>\<open>Update\<close> of \<^verbatim>\<open>devgraph_model\<close>. The request has the three fields description,
  provider identifier and default, and does not depend on the name of the plan; the
  one remote call, when the request is built, is addressed by the name of the prior
  state. A plan that differs from the prior state in the name only sends the request
  with no field set to the old name.
\<close>

theorem model_update_never_sends_name:
  "ModelResource_Update_request lib (plan\<lparr>mdl_Name := name\<rparr>) state
     = ModelResource_Update_request lib plan state
   \<and> Calls (ModelResource_Update lib client plan state)
     = (case ModelResource_Update_request lib plan state of
          Inl ds \<Rightarrow> []
        | Inr updateReq \<Rightarrow> [Call_UpdateModel updateReq (ValueString (mdl_Name state))])
   \<and> Calls (ModelResource_Update lib client (state\<lparr>mdl_Name := name\<rparr>) state)
     = [Call_UpdateModel
          \<lparr>mu_Description = zero_OptNil [], mu_ProviderID = zero_OptNil 0,
           mu_Default = zero_OptNil False\<rparr>
          (ValueString (mdl_Name state))]"
proof (intro conjI)
  show "ModelResource_Update_request lib (plan\<lparr>mdl_Name := name\<rparr>) state
          = ModelResource_Update_request lib plan state"
    by (simp add: ModelResource_Update_request_def cong: sum.case_cong if_cong)
  show "Calls (ModelResource_Update lib client plan state)
     = (case ModelResource_Update_request lib plan state of
          Inl ds \<Rightarrow> []
        | Inr updateReq \<Rightarrow> [Call_UpdateModel updateReq (ValueString (mdl_Name state))])"
  proof (cases "ModelResource_Update_request lib plan state")
    case (Inl ds)
    then show ?thesis by (simp add: ModelResource_Update_def)
  next
    case (Inr updateReq)
    then show ?thesis
      by (cases "UpdateModel client updateReq (ValueString (mdl_Name state))"
            rule: response2_cases)
         (simp_all add: ModelResource_Update_def)
  qed
  have req: "ModelResource_Update_request lib (state\<lparr>mdl_Name := name\<rparr>) state
               = Inr \<lparr>mu_Description = zero_OptNil [], mu_ProviderID = zero_OptNil 0,
                      mu_Default = zero_OptNil False\<rparr>"
    by (simp add: ModelResource_Update_request_def Equal_def)
  show "Calls (ModelResource_Update lib client (state\<lparr>mdl_Name := name\<rparr>) state)
     = [Call_UpdateModel
          \<lparr>mu_Description = zero_OptNil [], mu_ProviderID = zero_OptNil 0,
           mu_Default = zero_OptNil False\<rparr>
          (ValueString (mdl_Name state))]"
    by (cases "UpdateModel client
                 \<lparr>mu_Description = zero_OptNil [], mu_ProviderID = zero_OptNil 0,
                  mu_Default = zero_OptNil False\<rparr> (ValueString (mdl_Name state))"
          rule: response2_cases)
       (simp_all add: ModelResource_Update_def req)
qed

theorem model_update_never_sends_name_witness:
  "Calls (ModelResource_Update example_library (stub_ModelClient example_ModelResponse)
            (example_model\<lparr>mdl_Name := TfValue ''gpt-5''\<rparr>) example_model)
     = [Call_UpdateModel
          \<lparr>mu_Description = zero_OptNil [], mu_ProviderID = zero_OptNil 0,
           mu_Default = zero_OptNil False\<rparr> ''gpt-4'']"
  using model_update_never_sends_name
    [where lib = example_library and client = "stub_ModelClient example_ModelResponse"
       and state = example_model and name = "TfValue ''gpt-5''",
     THEN conjunct2, THEN conjunct2]
  by (simp add: example_identifiers)

section \<open>Optional fields of a response that are not set\<close>

text \<open>
  \<^verbatim>\<open>Read\<close> of a chat suggestion writes the merge of a listed suggestion.
\<close>

lemma ChatSuggestionResource_Read_SetState:
  assumes "State (ChatSuggestionResource_Read lib client state) = SetState s"
  obtains suggestions suggestion where
    "ListChatSuggestions client = Inr (Ok2 suggestions)"
    "suggestion \<in> set suggestions"
    "s = ChatSuggestionResource_merge lib False suggestion state"
proof (cases "uuid_Parse lib (ValueString (cs_ID state))")
  case (Inl err)
  with assms show ?thesis by (simp add: ChatSuggestionResource_Read_def)
next
  case parsed: (Inr suggestionID)
  show ?thesis
  proof (cases "ListChatSuggestions client" rule: response2_cases)
    case (1 err)
    with assms parsed show ?thesis by (simp add: ChatSuggestionResource_Read_def)
  next
    case (2 t)
    with assms parsed show ?thesis by (simp add: ChatSuggestionResource_Read_def)
  next
    case (3 suggestions)
    show ?thesis
    proof (cases "find (\<lambda>suggestion. sr_ID suggestion = suggestionID) suggestions")
      case None
      with assms parsed 3 show ?thesis
        by (simp add: ChatSuggestionResource_Read_def ChatSuggestionResource_Read_loop_find)
    next
      case (Some suggestion)
      then have "suggestion \<in> set suggestions"
        by (auto simp: find_Some_iff)
      moreover from assms parsed 3 Some
      have "s = ChatSuggestionResource_merge lib False suggestion state"
        by (simp add: ChatSuggestionResource_Read_def ChatSuggestionResource_Read_loop_find)
      ultimately show ?thesis using 3 that by blast
    qed
  qed
qed

text \<open>
  C9. The fields merged through an optional wrapper: the default of a model provider;
  description, headers, the four booleans and the OAuth service identifier of an MCP
  endpoint; description and default of a model; active of a chat suggestion. Whenever
  the response leaves the field unset, the merge keeps the value the record had; the
  merge of \<^verbatim>\<open>Update\<close> of an MCP endpoint keeps every such field but the description
  whatever the response holds. Every record a handler of these resources writes is such
  a merge of the response it received into its plan, or into its prior state for
  \<^verbatim>\<open>Read\<close>.
\<close>

theorem unset_optional_field_keeps_prior_value:
  "(\<not> Opt_Set (pr_Default provider)
      \<longrightarrow> mp_Default (ModelProviderResource_assign lib with_id provider mp) = mp_Default mp)
   \<and> ((case mpr_Type mp_result of
          OpenAIModelProviderResponseModelProviderResponse \<Rightarrow>
            \<not> Opt_Set (pr_Default (mpr_OpenAIModelProviderResponse mp_result))
        | AnthropicModelProviderResponseModelProviderResponse \<Rightarrow>
            \<not> Opt_Set (pr_Default (mpr_AnthropicModelProviderResponse mp_result))
        | XAIModelProviderResponseModelProviderResponse \<Rightarrow>
            \<not> Opt_Set (pr_Default (mpr_XAIModelProviderResponse mp_result))
        | OtherModelProviderResponseType t \<Rightarrow> True)
      \<longrightarrow> mp_Default (ModelProviderResource_merge lib with_id mp_result mp) = mp_Default mp)
   \<and> (\<not> OptNil_Set (er_Description mcp_result)
      \<longrightarrow> mcp_Description (MCPEndpointResource_merge lib with_id mcp_result mcp)
            = mcp_Description mcp
          \<and> mcp_Description (MCPEndpointResource_merge_update mcp_result mcp)
            = mcp_Description mcp)
   \<and> (\<not> Opt_Set (er_Headers mcp_result)
      \<longrightarrow> mcp_Headers (MCPEndpointResource_merge lib with_id mcp_result mcp) = mcp_Headers mcp)
   \<and> (\<not> Opt_Set (er_DevgraphAuth mcp_result)
      \<longrightarrow> mcp_DevgraphAuth (MCPEndpointResource_merge lib with_id mcp_result mcp)
            = mcp_DevgraphAuth mcp)
   \<and> (\<not> Opt_Set (er_SupportsResources mcp_result)
      \<longrightarrow> mcp_SupportsResources (MCPEndpointResource_merge lib with_id mcp_result mcp)
            = mcp_SupportsResources mcp)
   \<and> (\<not> Opt_Set (er_Immutable mcp_result)
      \<longrightarrow> mcp_Immutable (MCPEndpointResource_merge lib with_id mcp_result mcp)
            = mcp_Immutable mcp)
   \<and> (\<not> Opt_Set (er_Active mcp_result)
      \<longrightarrow> mcp_Active (MCPEndpointResource_merge lib with_id mcp_result mcp) = mcp_Active mcp)
   \<and> (\<not> OptNil_Set (er_OAuthServiceID mcp_result)
      \<longrightarrow> mcp_OAuthServiceID (MCPEndpointResource_merge lib with_id mcp_result mcp)
            = mcp_OAuthServiceID mcp)
   \<and> mcp_Headers (MCPEndpointResource_merge_update mcp_result mcp) = mcp_Headers mcp
   \<and> mcp_DevgraphAuth (MCPEndpointResource_merge_update mcp_result mcp)
       = mcp_DevgraphAuth mcp
   \<and> mcp_SupportsResources (MCPEndpointResource_merge_update mcp_result mcp)
       = mcp_SupportsResources mcp
   \<and> mcp_Immutable (MCPEndpointResource_merge_update mcp_result mcp) = mcp_Immutable mcp
   \<and> mcp_Active (MCPEndpointResource_merge_update mcp_result mcp) = mcp_Active mcp
   \<and> mcp_OAuthServiceID (MCPEndpointResource_merge_update mcp_result mcp)
       = mcp_OAuthServiceID mcp
   \<and> (\<not> OptNil_Set (mr_Description mdl_result)
      \<longrightarrow> mdl_Description (ModelResource_merge lib mdl_result mdl) = mdl_Description mdl)
   \<and> (\<not> Opt_Set (mr_Default mdl_result)
      \<longrightarrow> mdl_Default (ModelResource_merge lib mdl_result mdl) = mdl_Default mdl)
   \<and> (\<not> Opt_Set (sr_Active cs_result)
      \<longrightarrow> cs_Active (ChatSuggestionResource_merge lib with_id cs_result cs) = cs_Active cs)
   \<and> (State (ModelProviderResource_Create lib mp_client mp) = SetState mp'
      \<longrightarrow> (\<exists>req result. CreateModelprovider mp_client req = Inr (Ok2 result)
            \<and> mp' = ModelProviderResource_merge lib True result mp))
   \<and> (State (ModelProviderResource_Read lib mp_client mp) = SetState mp'
      \<longrightarrow> (\<exists>u result. GetModelprovider mp_client u = Inr (Ok3 result)
            \<and> mp' = ModelProviderResource_merge lib False result mp))
   \<and> (State (ModelProviderResource_Update lib mp_client mp mp_state) = SetState mp'
      \<longrightarrow> (\<exists>req u result. UpdateModelprovider mp_client req u = Inr (Ok2 result)
            \<and> mp' = ModelProviderResource_merge lib True result mp))
   \<and> (State (MCPEndpointResource_Create lib mcp_client mcp) = SetState mcp'
      \<longrightarrow> (\<exists>req result. CreateMcpendpoint mcp_client req = Inr (Ok2 result)
            \<and> mcp' = MCPEndpointResource_merge lib True result mcp))
   \<and> (State (MCPEndpointResource_Read lib mcp_client mcp) = SetState mcp'
      \<longrightarrow> (\<exists>u result. GetMcpendpoint mcp_client u = Inr (Ok3 result)
            \<and> mcp' = MCPEndpointResource_merge lib False result mcp))
   \<and> (State (MCPEndpointResource_Update lib mcp_client mcp mcp_state) = SetState mcp'
      \<longrightarrow> (\<exists>req u result. UpdateMcpendpoint mcp_client req u = Inr (Ok2 result)
            \<and> mcp' = MCPEndpointResource_merge_update result mcp))
   \<and> (State (ModelResource_Create lib mdl_client mdl) = SetState mdl'
      \<longrightarrow> (\<exists>req result. CreateModel mdl_client req = Inr (Ok2 result)
            \<and> mdl' = ModelResource_merge lib result mdl))
   \<and> (State (ModelResource_Read lib mdl_client mdl) = SetState mdl'
      \<longrightarrow> (\<exists>n result. GetModel mdl_client n = Inr (Ok3 result)
            \<and> mdl' = ModelResource_merge lib result mdl))
   \<and> (State (ModelResource_Update lib mdl_client mdl mdl_state) = SetState mdl'
      \<longrightarrow> (\<exists>req n result. UpdateModel mdl_client req n = Inr (Ok2 result)
            \<and> mdl' = ModelResource_merge lib result mdl))
   \<and> (State (ChatSuggestionResource_Create lib cs_client cs) = SetState cs'
      \<longrightarrow> (\<exists>req result. CreateChatSuggestion cs_client req = Inr (Ok2 result)
            \<and> cs' = ChatSuggestionResource_merge lib True result cs))
   \<and> (State (ChatSuggestionResource_Read lib cs_client cs) = SetState cs'
      \<longrightarrow> (\<exists>suggestions result. ListChatSuggestions cs_client = Inr (Ok2 suggestions)
            \<and> result \<in> set suggestions
            \<and> cs' = ChatSuggestionResource_merge lib False result cs))"
proof (intro conjI impI, goal_cases)
  case 1
  then show ?case by (simp add: ModelProviderResource_assign_def)
next
  case 2
  then show ?case
    by (cases "mpr_Type mp_result")
       (simp_all add: ModelProviderResource_merge_def ModelProviderResource_assign_def)
next
  case 3
  then show ?case by (simp add: MCPEndpointResource_merge_def)
next
  case 4
  then show ?case by (simp add: MCPEndpointResource_merge_update_def)
next
  case 5
  then show ?case by (simp add: MCPEndpointResource_merge_def)
next
  case 6
  then show ?case by (simp add: MCPEndpointResource_merge_def)
next
  case 7
  then show ?case by (simp add: MCPEndpointResource_merge_def)
next
  case 8
  then show ?case by (simp add: MCPEndpointResource_merge_def)
next
  case 9
  then show ?case by (simp add: MCPEndpointResource_merge_def)
next
  case 10
  then show ?case by (simp add: MCPEndpointResource_merge_def)
next
  case 11
  show ?case by (simp add: MCPEndpointResource_merge_update_def)
next
  case 12
  show ?case by (simp add: MCPEndpointResource_merge_update_def)
next
  case 13
  show ?case by (simp add: MCPEndpointResource_merge_update_def)
next
  case 14
  show ?case by (simp add: MCPEndpointResource_merge_update_def)
next
  case 15
  show ?case by (simp add: MCPEndpointResource_merge_update_def)
next
  case 16
  show ?case by (simp add: MCPEndpointResource_merge_update_def)
next
  case 17
  then show ?case by (simp add: ModelResource_merge_def)
next
  case 18
  then show ?case by (simp add: ModelResource_merge_def)
next
  case 19
  then show ?case by (simp add: ChatSuggestionResource_merge_def)
next
  case 20
  show ?case by (rule ModelProviderResource_Create_SetState [OF 20]) (use 20 in auto)
next
  case 21
  show ?case by (rule ModelProviderResource_Read_SetState [OF 21]) (use 21 in auto)
next
  case 22
  show ?case by (rule ModelProviderResource_Update_SetState [OF 22]) (use 22 in auto)
next
  case 23
  show ?case by (rule MCPEndpointResource_Create_SetState [OF 23]) (use 23 in auto)
next
  case 24
  show ?case by (rule MCPEndpointResource_Read_SetState [OF 24]) (use 24 in auto)
next
  case 25
  show ?case by (rule MCPEndpointResource_Update_SetState [OF 25]) (use 25 in auto)
next
  case 26
  show ?case by (rule ModelResource_Create_SetState [OF 26]) (use 26 in auto)
next
  case 27
  show ?case by (rule ModelResource_Read_SetState [OF 27]) (use 27 in auto)
next
  case 28
  show ?case by (rule ModelResource_Update_SetState [OF 28]) (use 28 in auto)
next
  case 29
  show ?case by (rule ChatSuggestionResource_Create_SetState [OF 29]) (use 29 in auto)
next
  case 30
  show ?case by (rule ChatSuggestionResource_Read_SetState [OF 30]) (use 30 in auto)
qed

theorem unset_optional_field_keeps_prior_value_witness:
  "(mp_Default (ModelProviderResource_assign example_library False
        (mpr_AnthropicModelProviderResponse (anthropic_response ''k1'')) example_model_provider)
      = mp_Default example_model_provider)
   \<and> (mp_Default (ModelProviderResource_merge example_library False (anthropic_response ''k1'')
        example_model_provider)
      = mp_Default example_model_provider)
   \<and> (mcp_Description (MCPEndpointResource_merge example_library True example_MCPEndpointResponse
        example_mcp_endpoint)
      = mcp_Description example_mcp_endpoint)
   \<and> (mcp_Description (MCPEndpointResource_merge_update example_MCPEndpointResponse
        example_mcp_endpoint)
      = mcp_Description example_mcp_endpoint)
   \<and> (mcp_Headers (MCPEndpointResource_merge example_library True example_MCPEndpointResponse
        example_mcp_endpoint)
      = mcp_Headers example_mcp_endpoint)
   \<and> (mcp_DevgraphAuth (MCPEndpointResource_merge example_library True example_MCPEndpointResponse
        example_mcp_endpoint)
      = mcp_DevgraphAuth example_mcp_endpoint)
   \<and> (mcp_SupportsResources (MCPEndpointResource_merge example_library True example_MCPEndpointResponse
        example_mcp_endpoint)
      = mcp_SupportsResources example_mcp_endpoint)
   \<and> (mcp_Immutable (MCPEndpointResource_merge example_library True example_MCPEndpointResponse
        example_mcp_endpoint)
      = mcp_Immutable example_mcp_endpoint)
   \<and> (mcp_Active (MCPEndpointResource_merge example_library True example_MCPEndpointResponse
        example_mcp_endpoint)
      = mcp_Active example_mcp_endpoint)
   \<and> (mcp_OAuthServiceID (MCPEndpointResource_merge example_library True example_MCPEndpointResponse
        example_mcp_endpoint)
      = mcp_OAuthServiceID example_mcp_endpoint)
   \<and> (mdl_Description (ModelResource_merge example_library example_ModelResponse example_model)
      = mdl_Description example_model)
   \<and> (mdl_Default (ModelResource_merge example_library example_ModelResponse example_model)
      = mdl_Default example_model)
   \<and> (cs_Active (ChatSuggestionResource_merge example_library False
        example_ChatSuggestionResponse example_chat_suggestion)
      = cs_Active example_chat_suggestion)
   \<and> (\<exists>req result.
       CreateModelprovider (stub_ModelProviderClient (anthropic_response ''k1'')) req
         = Inr (Ok2 result)
       \<and> example_model_provider
         = ModelProviderResource_merge example_library True result
             (example_model_provider\<lparr>mp_ID := TfUnknown\<rparr>))
   \<and> (\<exists>u result.
       GetModelprovider (stub_ModelProviderClient (anthropic_response ''k1'')) u
         = Inr (Ok3 result)
       \<and> example_model_provider
         = ModelProviderResource_merge example_library False result example_model_provider)
   \<and> (\<exists>req u result.
       UpdateModelprovider (stub_ModelProviderClient (anthropic_response ''k1'')) req u
         = Inr (Ok2 result)
       \<and> example_model_provider
         = ModelProviderResource_merge example_library True result
             (example_model_provider\<lparr>mp_Name := TfValue ''p2''\<rparr>))
   \<and> (\<exists>req result.
       CreateMcpendpoint (stub_MCPEndpointClient example_MCPEndpointResponse) req
         = Inr (Ok2 result)
       \<and> example_mcp_endpoint
         = MCPEndpointResource_merge example_library True result
             (example_mcp_endpoint\<lparr>mcp_ID := TfUnknown\<rparr>))
   \<and> (\<exists>u result.
       GetMcpendpoint (stub_MCPEndpointClient example_MCPEndpointResponse) u
         = Inr (Ok3 result)
       \<and> example_mcp_endpoint
         = MCPEndpointResource_merge example_library False result example_mcp_endpoint)
   \<and> (\<exists>req u result.
       UpdateMcpendpoint (stub_MCPEndpointClient example_MCPEndpointResponse) req u
         = Inr (Ok2 result)
       \<and> example_mcp_endpoint = MCPEndpointResource_merge_update result example_mcp_endpoint)
   \<and> (\<exists>req result.
       CreateModel (stub_ModelClient example_ModelResponse) req = Inr (Ok2 result)
       \<and> example_model
         = ModelResource_merge example_library result (example_model\<lparr>mdl_ID := TfUnknown\<rparr>))
   \<and> (\<exists>n result.
       GetModel (stub_ModelClient example_ModelResponse) n = Inr (Ok3 result)
       \<and> example_model = ModelResource_merge example_library result example_model)
   \<and> (\<exists>req n result.
       UpdateModel (stub_ModelClient example_ModelResponse) req n = Inr (Ok2 result)
       \<and> example_model\<lparr>mdl_Description := TfValue ''Claude''\<rparr>
         = ModelResource_merge example_library result
             (example_model\<lparr>mdl_Description := TfValue ''Claude''\<rparr>))
   \<and> (\<exists>req result.
       CreateChatSuggestion
         (stub_ChatSuggestionClient example_ChatSuggestionResponse
            [example_ChatSuggestionResponse]) req = Inr (Ok2 result)
       \<and> example_chat_suggestion
         = ChatSuggestionResource_merge example_library True result
             (example_chat_suggestion\<lparr>cs_ID := TfUnknown\<rparr>))
   \<and> (\<exists>suggestions result.
       ListChatSuggestions
         (stub_ChatSuggestionClient example_ChatSuggestionResponse
            [example_ChatSuggestionResponse]) = Inr (Ok2 suggestions)
       \<and> result \<in> set suggestions
       \<and> example_chat_suggestion
         = ChatSuggestionResource_merge example_library False result example_chat_suggestion)"
proof -
  have w1: "mp_Default (ModelProviderResource_assign example_library False
        (mpr_AnthropicModelProviderResponse (anthropic_response ''k1'')) example_model_provider)
      = mp_Default example_model_provider"
    using unset_optional_field_keeps_prior_value
      [where lib = example_library and with_id = False and mp = example_model_provider
         and provider = "mpr_AnthropicModelProviderResponse (anthropic_response ''k1'')",
       THEN conjunct1]
    by (simp add: anthropic_response_def zero_Opt_def)
  have w2: "mp_Default (ModelProviderResource_merge example_library False (anthropic_response ''k1'')
        example_model_provider)
      = mp_Default example_model_provider"
    using unset_optional_field_keeps_prior_value
      [where lib = example_library and with_id = False and mp = example_model_provider
         and mp_result = "anthropic_response ''k1''",
       THEN conjunct2, THEN conjunct1]
    by (simp add: anthropic_response_def zero_Opt_def)
  have w3: "mcp_Description (MCPEndpointResource_merge example_library True example_MCPEndpointResponse
        example_mcp_endpoint)
      = mcp_Description example_mcp_endpoint"
    using unset_optional_field_keeps_prior_value
      [where lib = example_library and with_id = True and mcp_result = example_MCPEndpointResponse
         and mcp = example_mcp_endpoint,
       THEN conjunct2, THEN conjunct2, THEN conjunct1]
    by (simp add: example_MCPEndpointResponse_def zero_Opt_def zero_OptNil_def)
  have w4: "mcp_Description (MCPEndpointResource_merge_update example_MCPEndpointResponse
        example_mcp_endpoint)
      = mcp_Description example_mcp_endpoint"
    using unset_optional_field_keeps_prior_value
      [where lib = example_library and with_id = True and mcp_result = example_MCPEndpointResponse
         and mcp = example_mcp_endpoint,
       THEN conjunct2, THEN conjunct2, THEN conjunct1]
    by (simp add: example_MCPEndpointResponse_def zero_OptNil_def)
  have w5: "mcp_Headers (MCPEndpointResource_merge example_library True example_MCPEndpointResponse
        example_mcp_endpoint)
      = mcp_Headers example_mcp_endpoint"
    using unset_optional_field_keeps_prior_value
      [where lib = example_library and with_id = True and mcp_result = example_MCPEndpointResponse
         and mcp = example_mcp_endpoint,
       THEN conjunct2, THEN conjunct2, THEN conjunct2, THEN conjunct1]
    by (simp add: example_MCPEndpointResponse_def zero_Opt_def zero_OptNil_def)
  have w6: "mcp_DevgraphAuth (MCPEndpointResource_merge example_library True example_MCPEndpointResponse
        example_mcp_endpoint)
      = mcp_DevgraphAuth example_mcp_endpoint"
    using unset_optional_field_keeps_prior_value
      [where lib = example_library and with_id = True and mcp_result = example_MCPEndpointResponse
         and mcp = example_mcp_endpoint,
       THEN conjunct2, THEN conjunct2, THEN conjunct2, THEN conjunct2, THEN conjunct1]
    by (simp add: example_MCPEndpointResponse_def zero_Opt_def zero_OptNil_def)
  have w7: "mcp_SupportsResources (MCPEndpointResource_merge example_library True example_MCPEndpointResponse
        example_mcp_endpoint)
      = mcp_SupportsResources example_mcp_endpoint"
    using unset_optional_field_keeps_prior_value
      [where lib = example_library and with_id = True and mcp_result = example_MCPEndpointResponse
         and mcp = example_mcp_endpoint,
       THEN conjunct2, THEN conjunct2, THEN conjunct2, THEN conjunct2, THEN conjunct2,
       THEN conjunct1]
    by (simp add: example_MCPEndpointResponse_def zero_Opt_def zero_OptNil_def)
  have w8: "mcp_Immutable (MCPEndpointResource_merge example_library True example_MCPEndpointResponse
        example_mcp_endpoint)
      = mcp_Immutable example_mcp_endpoint"
    using unset_optional_field_keeps_prior_value
      [where lib = example_library and with_id = True and mcp_result = example_MCPEndpointResponse
         and mcp = example_mcp_endpoint,
       THEN conjunct2, THEN conjunct2, THEN conjunct2, THEN conjunct2, THEN conjunct2,
       THEN conjunct2, THEN conjunct1]
    by (simp add: example_MCPEndpointResponse_def zero_Opt_def zero_OptNil_def)
  have w9: "mcp_Active (MCPEndpointResource_merge example_library True example_MCPEndpointResponse
        example_mcp_endpoint)
      = mcp_Active example_mcp_endpoint"
    using unset_optional_field_keeps_prior_value
      [where lib = example_library and with_id = True and mcp_result = example_MCPEndpointResponse
         and mcp = example_mcp_endpoint,
       THEN conjunct2, THEN conjunct2, THEN conjunct2, THEN conjunct2, THEN conjunct2,
       THEN conjunct2, THEN conjunct2, THEN conjunct1]
    by (simp add: example_MCPEndpointResponse_def zero_Opt_def zero_OptNil_def)
  have w10: "mcp_OAuthServiceID (MCPEndpointResource_merge example_library True example_MCPEndpointResponse
        example_mcp_endpoint)
      = mcp_OAuthServiceID example_mcp_endpoint"
    using unset_optional_field_keeps_prior_value
      [where lib = example_library and with_id = True and mcp_result = example_MCPEndpointResponse
         and mcp = example_mcp_endpoint,
       THEN conjunct2, THEN conjunct2, THEN conjunct2, THEN conjunct2, THEN conjunct2,
       THEN conjunct2, THEN conjunct2, THEN conjunct2, THEN conjunct1]
    by (simp add: example_MCPEndpointResponse_def zero_Opt_def zero_OptNil_def)
  have w17: "mdl_Description (ModelResource_merge example_library example_ModelResponse example_model)
      = mdl_Description example_model"
    using unset_optional_field_keeps_prior_value
      [where lib = example_library and mdl_result = example_ModelResponse and mdl = example_model,
       THEN conjunct2, THEN conjunct2, THEN conjunct2, THEN conjunct2, THEN conjunct2,
       THEN conjunct2, THEN conjunct2, THEN conjunct2, THEN conjunct2, THEN conjunct2,
       THEN conjunct2, THEN conjunct2, THEN conjunct2, THEN conjunct2, THEN conjunct2,
       THEN conjunct1]
    by (simp add: example_ModelResponse_def zero_Opt_def zero_OptNil_def)
  have w18: "mdl_Default (ModelResource_merge example_library example_ModelResponse example_model)
      = mdl_Default example_model"
    using unset_optional_field_keeps_prior_value
      [where lib = example_library and mdl_result = example_ModelResponse and mdl = example_model,
       THEN conjunct2, THEN conjunct2, THEN conjunct2, THEN conjunct2, THEN conjunct2,
       THEN conjunct2, THEN conjunct2, THEN conjunct2, THEN conjunct2, THEN conjunct2,
       THEN conjunct2, THEN conjunct2, THEN conjunct2, THEN conjunct2, THEN conjunct2,
       THEN conjunct2, THEN conjunct1]
    by (simp add: example_ModelResponse_def zero_Opt_def zero_OptNil_def)
  have w19: "cs_Active (ChatSuggestionResource_merge example_library False
        example_ChatSuggestionResponse example_chat_suggestion)
      = cs_Active example_chat_suggestion"
    using unset_optional_field_keeps_prior_value
      [where lib = example_library and with_id = False and cs_result = example_ChatSuggestionResponse
         and cs = example_chat_suggestion,
       THEN conjunct2, THEN conjunct2, THEN conjunct2, THEN conjunct2, THEN conjunct2,
       THEN conjunct2, THEN conjunct2, THEN conjunct2, THEN conjunct2, THEN conjunct2,
       THEN conjunct2, THEN conjunct2, THEN conjunct2, THEN conjunct2, THEN conjunct2,
       THEN conjunct2, THEN conjunct2, THEN conjunct1]
    by (simp add: example_ChatSuggestionResponse_def zero_Opt_def)
  have w20: "\<exists>req result.
       CreateModelprovider (stub_ModelProviderClient (anthropic_response ''k1'')) req
         = Inr (Ok2 result)
       \<and> example_model_provider
         = ModelProviderResource_merge example_library True result
             (example_model_provider\<lparr>mp_ID := TfUnknown\<rparr>)"
    using unset_optional_field_keeps_prior_value
      [where lib = example_library and mp_client = "stub_ModelProviderClient (anthropic_response ''k1'')"
         and mp = "example_model_provider\<lparr>mp_ID := TfUnknown\<rparr>"
         and mp' = example_model_provider,
       THEN conjunct2, THEN conjunct2, THEN conjunct2, THEN conjunct2, THEN conjunct2,
       THEN conjunct2, THEN conjunct2, THEN conjunct2, THEN conjunct2, THEN conjunct2,
       THEN conjunct2, THEN conjunct2, THEN conjunct2, THEN conjunct2, THEN conjunct2,
       THEN conjunct2, THEN conjunct2, THEN conjunct2, THEN conjunct1]
    by (simp add: example_model_provider_created)
  have w21: "\<exists>u result.
       GetModelprovider (stub_ModelProviderClient (anthropic_response ''k1'')) u
         = Inr (Ok3 result)
       \<and> example_model_provider
         = ModelProviderResource_merge example_library False result example_model_provider"
    using unset_optional_field_keeps_prior_value
      [where lib = example_library and mp_client = "stub_ModelProviderClient (anthropic_response ''k1'')"
         and mp = example_model_provider and mp' = example_model_provider,
       THEN conjunct2, THEN conjunct2, THEN conjunct2, THEN conjunct2, THEN conjunct2,
       THEN conjunct2, THEN conjunct2, THEN conjunct2, THEN conjunct2, THEN conjunct2,
       THEN conjunct2, THEN conjunct2, THEN conjunct2, THEN conjunct2, THEN conjunct2,
       THEN conjunct2, THEN conjunct2, THEN conjunct2, THEN conjunct2, THEN conjunct1]
    by (simp add: example_model_provider_read)
  have w22: "\<exists>req u result.
       UpdateModelprovider (stub_ModelProviderClient (anthropic_response ''k1'')) req u
         = Inr (Ok2 result)
       \<and> example_model_provider
         = ModelProviderResource_merge example_library True result
             (example_model_provider\<lparr>mp_Name := TfValue ''p2''\<rparr>)"
    using unset_optional_field_keeps_prior_value
      [where lib = example_library and mp_client = "stub_ModelProviderClient (anthropic_response ''k1'')"
         and mp = "example_model_provider\<lparr>mp_Name := TfValue ''p2''\<rparr>"
         and mp_state = example_model_provider and mp' = example_model_provider,
       THEN conjunct2, THEN conjunct2, THEN conjunct2, THEN conjunct2, THEN conjunct2,
       THEN conjunct2, THEN conjunct2, THEN conjunct2, THEN conjunct2, THEN conjunct2,
       THEN conjunct2, THEN conjunct2, THEN conjunct2, THEN conjunct2, THEN conjunct2,
       THEN conjunct2, THEN conjunct2, THEN conjunct2, THEN conjunct2, THEN conjunct2,
       THEN conjunct1]
    by (simp add: example_model_provider_updated)
  have w23: "\<exists>req result.
       CreateMcpendpoint (stub_MCPEndpointClient example_MCPEndpointResponse) req
         = Inr (Ok2 result)
       \<and> example_mcp_endpoint
         = MCPEndpointResource_merge example_library True result
             (example_mcp_endpoint\<lparr>mcp_ID := TfUnknown\<rparr>)"
    using unset_optional_field_keeps_prior_value
      [where lib = example_library and mcp_client = "stub_MCPEndpointClient example_MCPEndpointResponse"
         and mcp = "example_mcp_endpoint\<lparr>mcp_ID := TfUnknown\<rparr>"
         and mcp' = example_mcp_endpoint,
       THEN conjunct2, THEN conjunct2, THEN conjunct2, THEN conjunct2, THEN conjunct2,
       THEN conjunct2, THEN conjunct2, THEN conjunct2, THEN conjunct2, THEN conjunct2,
       THEN conjunct2, THEN conjunct2, THEN conjunct2, THEN conjunct2, THEN conjunct2,
       THEN conjunct2, THEN conjunct2, THEN conjunct2, THEN conjunct2, THEN conjunct2,
       THEN conjunct2, THEN conjunct1]
    by (simp add: example_mcp_endpoint_created)
  have w24: "\<exists>u result.
       GetMcpendpoint (stub_MCPEndpointClient example_MCPEndpointResponse) u
         = Inr (Ok3 result)
       \<and> example_mcp_endpoint
         = MCPEndpointResource_merge example_library False result example_mcp_endpoint"
    using unset_optional_field_keeps_prior_value
      [where lib = example_library and mcp_client = "stub_MCPEndpointClient example_MCPEndpointResponse"
         and mcp = example_mcp_endpoint and mcp' = example_mcp_endpoint,
       THEN conjunct2, THEN conjunct2, THEN conjunct2, THEN conjunct2, THEN conjunct2,
       THEN conjunct2, THEN conjunct2, THEN conjunct2, THEN conjunct2, THEN conjunct2,
       THEN conjunct2, THEN conjunct2, THEN conjunct2, THEN conjunct2, THEN conjunct2,
       THEN conjunct2, THEN conjunct2, THEN conjunct2, THEN conjunct2, THEN conjunct2,
       THEN conjunct2, THEN conjunct2, THEN conjunct1]
    by (simp add: example_mcp_endpoint_read)
  have w25: "\<exists>req u result.
       UpdateMcpendpoint (stub_MCPEndpointClient example_MCPEndpointResponse) req u
         = Inr (Ok2 result)
       \<and> example_mcp_endpoint = MCPEndpointResource_merge_update result example_mcp_endpoint"
    using unset_optional_field_keeps_prior_value
      [where lib = example_library and mcp_client = "stub_MCPEndpointClient example_MCPEndpointResponse"
         and mcp = example_mcp_endpoint and mcp_state = example_mcp_endpoint
         and mcp' = example_mcp_endpoint,
       THEN conjunct2, THEN conjunct2, THEN conjunct2, THEN conjunct2, THEN conjunct2,
       THEN conjunct2, THEN conjunct2, THEN conjunct2, THEN conjunct2, THEN conjunct2,
       THEN conjunct2, THEN conjunct2, THEN conjunct2, THEN conjunct2, THEN conjunct2,
       THEN conjunct2, THEN conjunct2, THEN conjunct2, THEN conjunct2, THEN conjunct2,
       THEN conjunct2, THEN conjunct2, THEN conjunct2, THEN conjunct1]
    by (simp add: example_mcp_endpoint_updated)
  have w26: "\<exists>req result.
       CreateModel (stub_ModelClient example_ModelResponse) req = Inr (Ok2 result)
       \<and> example_model
         = ModelResource_merge example_library result (example_model\<lparr>mdl_ID := TfUnknown\<rparr>)"
    using unset_optional_field_keeps_prior_value
      [where lib = example_library and mdl_client = "stub_ModelClient example_ModelResponse"
         and mdl = "example_model\<lparr>mdl_ID := TfUnknown\<rparr>" and mdl' = example_model,
       THEN conjunct2, THEN conjunct2, THEN conjunct2, THEN conjunct2, THEN conjunct2,
       THEN conjunct2, THEN conjunct2, THEN conjunct2, THEN conjunct2, THEN conjunct2,
       THEN conjunct2, THEN conjunct2, THEN conjunct2, THEN conjunct2, THEN conjunct2,
       THEN conjunct2, THEN conjunct2, THEN conjunct2, THEN conjunct2, THEN conjunct2,
       THEN conjunct2, THEN conjunct2, THEN conjunct2, THEN conjunct2, THEN conjunct1]
    by (simp add: example_model_created)
  have w27: "\<exists>n result.
       GetModel (stub_ModelClient example_ModelResponse) n = Inr (Ok3 result)
       \<and> example_model = ModelResource_merge example_library result example_model"
    using unset_optional_field_keeps_prior_value
      [where lib = example_library and mdl_client = "stub_ModelClient example_ModelResponse"
         and mdl = example_model and mdl' = example_model,
       THEN conjunct2, THEN conjunct2, THEN conjunct2, THEN conjunct2, THEN conjunct2,
       THEN conjunct2, THEN conjunct2, THEN conjunct2, THEN conjunct2, THEN conjunct2,
       THEN conjunct2, THEN conjunct2, THEN conjunct2, THEN conjunct2, THEN conjunct2,
       THEN conjunct2, THEN conjunct2, THEN conjunct2, THEN conjunct2, THEN conjunct2,
       THEN conjunct2, THEN conjunct2, THEN conjunct2, THEN conjunct2, THEN conjunct2,
       THEN conjunct1]
    by (simp add: example_model_read)
  have w28: "\<exists>req n result.
       UpdateModel (stub_ModelClient example_ModelResponse) req n = Inr (Ok2 result)
       \<and> example_model\<lparr>mdl_Description := TfValue ''Claude''\<rparr>
         = ModelResource_merge example_library result
             (example_model\<lparr>mdl_Description := TfValue ''Claude''\<rparr>)"
    using unset_optional_field_keeps_prior_value
      [where lib = example_library and mdl_client = "stub_ModelClient example_ModelResponse"
         and mdl = "example_model\<lparr>mdl_Description := TfValue ''Claude''\<rparr>"
         and mdl_state = example_model
         and mdl' = "example_model\<lparr>mdl_Description := TfValue ''Claude''\<rparr>",
       THEN conjunct2, THEN conjunct2, THEN conjunct2, THEN conjunct2, THEN conjunct2,
       THEN conjunct2, THEN conjunct2, THEN conjunct2, THEN conjunct2, THEN conjunct2,
       THEN conjunct2, THEN conjunct2, THEN conjunct2, THEN conjunct2, THEN conjunct2,
       THEN conjunct2, THEN conjunct2, THEN conjunct2, THEN conjunct2, THEN conjunct2,
       THEN conjunct2, THEN conjunct2, THEN conjunct2, THEN conjunct2, THEN conjunct2,
       THEN conjunct2, THEN conjunct1]
    by (simp add: example_model_updated)
  have w29: "\<exists>req result.
       CreateChatSuggestion
         (stub_ChatSuggestionClient example_ChatSuggestionResponse
            [example_ChatSuggestionResponse]) req = Inr (Ok2 result)
       \<and> example_chat_suggestion
         = ChatSuggestionResource_merge example_library True result
             (example_chat_suggestion\<lparr>cs_ID := TfUnknown\<rparr>)"
    using unset_optional_field_keeps_prior_value
      [where lib = example_library and cs_client = "stub_ChatSuggestionClient example_ChatSuggestionResponse
                     [example_ChatSuggestionResponse]"
         and cs = "example_chat_suggestion\<lparr>cs_ID := TfUnknown\<rparr>"
         and cs' = example_chat_suggestion,
       THEN conjunct2, THEN conjunct2, THEN conjunct2, THEN conjunct2, THEN conjunct2,
       THEN conjunct2, THEN conjunct2, THEN conjunct2, THEN conjunct2, THEN conjunct2,
       THEN conjunct2, THEN conjunct2, THEN conjunct2, THEN conjunct2, THEN conjunct2,
       THEN conjunct2, THEN conjunct2, THEN conjunct2, THEN conjunct2, THEN conjunct2,
       THEN conjunct2, THEN conjunct2, THEN conjunct2, THEN conjunct2, THEN conjunct2,
       THEN conjunct2, THEN conjunct2, THEN conjunct1]
    by (simp add: example_chat_suggestion_created)
  have w30: "\<exists>suggestions result.
       ListChatSuggestions
         (stub_ChatSuggestionClient example_ChatSuggestionResponse
            [example_ChatSuggestionResponse]) = Inr (Ok2 suggestions)
       \<and> result \<in> set suggestions
       \<and> example_chat_suggestion
         = ChatSuggestionResource_merge example_library False result example_chat_suggestion"
    using unset_optional_field_keeps_prior_value
      [where lib = example_library and cs_client = "stub_ChatSuggestionClient example_ChatSuggestionResponse
                     [example_ChatSuggestionResponse]"
         and cs = example_chat_suggestion and cs' = example_chat_suggestion,
       THEN conjunct2, THEN conjunct2, THEN conjunct2, THEN conjunct2, THEN conjunct2,
       THEN conjunct2, THEN conjunct2, THEN conjunct2, THEN conjunct2, THEN conjunct2,
       THEN conjunct2, THEN conjunct2, THEN conjunct2, THEN conjunct2, THEN conjunct2,
       THEN conjunct2, THEN conjunct2, THEN conjunct2, THEN conjunct2, THEN conjunct2,
       THEN conjunct2, THEN conjunct2, THEN conjunct2, THEN conjunct2, THEN conjunct2,
       THEN conjunct2, THEN conjunct2, THEN conjunct2]
    by (simp add: example_chat_suggestion_read)
  show ?thesis
    by (intro conjI w1 w2 w3 w4 w5 w6 w7 w8 w9 w10 w17 w18 w19 w20 w21 w22 w23 w24 w25 w26 w27 w28 w29 w30)
qed

section \<open>The request of Update\<close>

text \<open>
  Once the identifier has parsed and the request is built, \<^verbatim>\<open>Update\<close> makes one remote
  call with that request, whatever the response turns out to be.
\<close>

lemma ModelProviderResource_Update_Calls:
  assumes "uuid_Parse lib (ValueString (mp_ID state)) = Inr providerID"
  shows "Calls (ModelProviderResource_Update lib client plan state)
           = [Call_UpdateModelprovider
                (ModelProviderResource_Update_request plan state) providerID]"
  using assms
  by (cases "UpdateModelprovider client
               (ModelProviderResource_Update_request plan state) providerID"
        rule: response2_cases)
     (simp_all add: ModelProviderResource_Update_def)

lemma ModelResource_Update_Calls:
  assumes "ModelResource_Update_request lib plan state = Inr updateReq"
  shows "Calls (ModelResource_Update lib client plan state)
           = [Call_UpdateModel updateReq (ValueString (mdl_Name state))]"
  using assms
  by (cases "UpdateModel client updateReq (ValueString (mdl_Name state))"
        rule: response2_cases)
     (simp_all add: ModelResource_Update_def)

lemma DiscoveryProviderResource_Update_Calls:
  assumes "uuid_Parse lib (ValueString (dp_ID state)) = Inr providerID"
    and "DiscoveryProviderResource_Update_request js plan state = Inr updateReq"
  shows "Calls (DiscoveryProviderResource_Update js lib client plan state)
           = [Call_UpdateConfiguredProvider updateReq providerID]"
  using assms
  by (cases "UpdateConfiguredProvider client updateReq providerID" rule: response2_cases)
     (simp_all add: DiscoveryProviderResource_Update_def)

lemma MCPEndpointResource_Update_Calls:
  assumes "uuid_Parse lib (ValueString (mcp_ID plan)) = Inr endpointID"
    and "MCPEndpointResource_Update_request lib plan = Inr updateReq"
  shows "Calls (MCPEndpointResource_Update lib client plan state)
           = [Call_UpdateMcpendpoint updateReq endpointID]"
  using assms
  by (cases "UpdateMcpendpoint client updateReq endpointID" rule: response2_cases)
     (simp_all add: MCPEndpointResource_Update_def)

lemma OAuthServiceResource_Update_Calls:
  assumes "uuid_Parse lib (ValueString (oa_ID plan)) = Inr serviceID"
    and "OAuthServiceResource_Update_request lib plan = Inr updateReq"
  shows "Calls (OAuthServiceResource_Update lib client plan state)
           = [Call_UpdateOAuthService updateReq serviceID]"
  using assms
  by (cases "UpdateOAuthService client updateReq serviceID" rule: response2_cases)
     (simp_all add: OAuthServiceResource_Update_def)

text \<open>The fields of the requests that are built after a conversion.\<close>

lemma optional_url_Set:
  "optional_url lib summary v = Inr field \<Longrightarrow> OptNil_Set field = (\<not> IsNull v)"
  by (auto simp: optional_url_def NewOptNil_def zero_OptNil_def split: if_splits sum.splits)

lemma optional_uuid_Set:
  "optional_uuid lib summary v = Inr field \<Longrightarrow> OptNil_Set field = (\<not> IsNull v)"
  by (auto simp: optional_uuid_def NewOptNil_def zero_OptNil_def split: if_splits sum.splits)

lemma optional_headers_Set:
  "optional_headers v = Inr field \<Longrightarrow> OptNil_Set field = (\<not> IsNull v)"
  by (auto simp: optional_headers_def NewOptNil_def zero_OptNil_def
      split: if_splits sum.splits)

lemma optional_tools_Set:
  "optional_tools v = Inr field \<Longrightarrow> OptNil_Set field = (\<not> IsNull v)"
  by (auto simp: optional_tools_def NewOptNil_def zero_OptNil_def split: if_splits sum.splits)

lemma optional_list_Set:
  "optional_list v = Inr field \<Longrightarrow> OptNil_Set field = (\<not> IsNull v \<and> \<not> IsUnknown v)"
  by (auto simp: optional_list_def NewOptNil_def zero_OptNil_def split: if_splits sum.splits)

lemma ModelResource_Update_request_fields:
  assumes "ModelResource_Update_request lib plan state = Inr updateReq"
  shows "mu_Description updateReq
           = (if mdl_Description plan = mdl_Description state then zero_OptNil []
              else NewOptNil (ValueString (mdl_Description plan)))"
    and "mu_ProviderID updateReq
           = (if mdl_ProviderID plan = mdl_ProviderID state then zero_OptNil 0
              else NewOptNil (projr (uuid_Parse lib (ValueString (mdl_ProviderID plan)))))"
    and "mu_Default updateReq
           = (if mdl_Default plan = mdl_Default state then zero_OptNil False
              else NewOptNil (ValueBool (mdl_Default plan)))"
    and "mdl_ProviderID plan \<noteq> mdl_ProviderID state
           \<Longrightarrow> \<not> isl (uuid_Parse lib (ValueString (mdl_ProviderID plan)))"
  using assms
  by (cases "mdl_Description plan";
      auto simp: ModelResource_Update_request_def Equal_def split: if_splits sum.splits)+

lemma DiscoveryProviderResource_Update_request_fields:
  assumes "DiscoveryProviderResource_Update_request js plan state = Inr updateReq"
  shows "cu_Name updateReq
           = (if dp_Name plan = dp_Name state then zero_OptNil []
              else NewOptNil (ValueString (dp_Name plan)))"
    and "cu_Enabled updateReq
           = (if dp_Enabled plan = dp_Enabled state then zero_OptNil False
              else NewOptNil (ValueBool (dp_Enabled plan)))"
    and "cu_Interval updateReq
           = (if dp_Interval plan = dp_Interval state then zero_OptNil 0
              else NewOptNil (ValueInt64 (dp_Interval plan)))"
    and "cu_Config updateReq
           = (if dp_Config plan = dp_Config state then zero_OptNil fmempty
              else NewOptNil (projr (parse_config js (ValueString (dp_Config plan)))))"
    and "dp_Config plan \<noteq> dp_Config state
           \<Longrightarrow> \<not> isl (parse_config js (ValueString (dp_Config plan)))"
  using assms
  by (auto simp: DiscoveryProviderResource_Update_request_def Equal_def
      split: if_splits sum.splits)

lemma MCPEndpointResource_Update_request_fields:
  assumes "MCPEndpointResource_Update_request lib plan = Inr updateReq"
  shows "OptNil_Set (eu_Name updateReq) = (\<not> IsNull (mcp_Name plan))"
    and "OptNil_Set (eu_URL updateReq) = (\<not> IsNull (mcp_URL plan))"
    and "OptNil_Set (eu_Description updateReq) = (\<not> IsNull (mcp_Description plan))"
    and "OptNil_Set (eu_Headers updateReq) = (\<not> IsNull (mcp_Headers plan))"
    and "OptNil_Set (eu_DevgraphAuth updateReq) = (\<not> IsNull (mcp_DevgraphAuth plan))"
    and "OptNil_Set (eu_SupportsResources updateReq)
           = (\<not> IsNull (mcp_SupportsResources plan))"
    and "OptNil_Set (eu_Immutable updateReq) = (\<not> IsNull (mcp_Immutable plan))"
    and "OptNil_Set (eu_Active updateReq) = (\<not> IsNull (mcp_Active plan))"
    and "OptNil_Set (eu_OAuthServiceID updateReq) = (\<not> IsNull (mcp_OAuthServiceID plan))"
    and "OptNil_Set (eu_AllowedTools updateReq) = (\<not> IsNull (mcp_AllowedTools plan))"
    and "OptNil_Set (eu_DeniedTools updateReq) = (\<not> IsNull (mcp_DeniedTools plan))"
  using assms
  by (auto simp: MCPEndpointResource_Update_request_def NewOptNil_def zero_OptNil_def
      dest: optional_headers_Set optional_uuid_Set optional_tools_Set split: sum.splits)

lemma OAuthServiceResource_Update_request_fields:
  assumes "OAuthServiceResource_Update_request lib plan = Inr updateReq"
  shows "OptNil_Set (ou_DisplayName updateReq) = (\<not> IsNull (oa_DisplayName plan))"
    and "OptNil_Set (ou_ClientID updateReq) = (\<not> IsNull (oa_ClientID plan))"
    and "OptNil_Set (ou_ClientSecret updateReq) = (\<not> IsNull (oa_ClientSecret plan))"
    and "OptNil_Set (ou_AuthorizationURL updateReq) = (\<not> IsNull (oa_AuthorizationURL plan))"
    and "OptNil_Set (ou_TokenURL updateReq) = (\<not> IsNull (oa_TokenURL plan))"
    and "OptNil_Set (ou_Description updateReq) = (\<not> IsNull (oa_Description plan))"
    and "OptNil_Set (ou_DefaultScopes updateReq)
           = (\<not> IsNull (oa_DefaultScopes plan) \<and> \<not> IsUnknown (oa_DefaultScopes plan))"
    and "OptNil_Set (ou_SupportedGrantTypes updateReq)
           = (\<not> IsNull (oa_SupportedGrantTypes plan)
              \<and> \<not> IsUnknown (oa_SupportedGrantTypes plan))"
    and "OptNil_Set (ou_UserinfoURL updateReq) = (\<not> IsNull (oa_UserinfoURL plan))"
    and "OptNil_Set (ou_IsActive updateReq) = (\<not> IsNull (oa_IsActive plan))"
    and "OptNil_Set (ou_IconURL updateReq) = (\<not> IsNull (oa_IconURL plan))"
    and "OptNil_Set (ou_HomepageURL updateReq) = (\<not> IsNull (oa_HomepageURL plan))"
  using assms
  by (auto simp: OAuthServiceResource_Update_request_def NewOptNil_def zero_OptNil_def
      dest: optional_url_Set optional_list_Set split: sum.splits)

text \<open>
  C1, as the handlers have it. \<^verbatim>\<open>Update\<close> of the model provider (name, API key,
  default), of the model (description, provider identifier, default) and of the
  discovery provider (name, enabled, interval, configuration) compares plan and prior
  state: a field whose values are equal stays unset in the request, a field whose values
  differ is set, not null, to the value of the plan. \<^verbatim>\<open>Update\<close> of the MCP endpoint and
  of the OAuth service does not look at the prior state: a field of the request is set
  exactly when the value of the plan is not null (for the two lists of the OAuth
  service: neither null nor unknown). In each case the request described is the one the
  remote call carries.
\<close>

theorem update_request_fields:
  "ModelProviderResource_Update_request mp_plan mp_state =
     \<lparr>mpu_Name = (if mp_Name mp_plan = mp_Name mp_state then zero_OptNil []
                   else NewOptNil (ValueString (mp_Name mp_plan))),
      mpu_APIKey = (if mp_APIKey mp_plan = mp_APIKey mp_state then zero_OptNil []
                     else NewOptNil (ValueString (mp_APIKey mp_plan))),
      mpu_Default = (if mp_Default mp_plan = mp_Default mp_state then zero_OptNil False
                      else NewOptNil (ValueBool (mp_Default mp_plan)))\<rparr>
   \<and> (uuid_Parse lib (ValueString (mp_ID mp_state)) = Inr mp_id
      \<longrightarrow> Calls (ModelProviderResource_Update lib mp_client mp_plan mp_state)
            = [Call_UpdateModelprovider
                 (ModelProviderResource_Update_request mp_plan mp_state) mp_id])
   \<and> (ModelResource_Update_request lib mdl_plan mdl_state = Inr mdl_req
      \<longrightarrow> Calls (ModelResource_Update lib mdl_client mdl_plan mdl_state)
            = [Call_UpdateModel mdl_req (ValueString (mdl_Name mdl_state))]
          \<and> mu_Description mdl_req
            = (if mdl_Description mdl_plan = mdl_Description mdl_state then zero_OptNil []
               else NewOptNil (ValueString (mdl_Description mdl_plan)))
          \<and> mu_ProviderID mdl_req
            = (if mdl_ProviderID mdl_plan = mdl_ProviderID mdl_state then zero_OptNil 0
               else NewOptNil
                      (projr (uuid_Parse lib (ValueString (mdl_ProviderID mdl_plan)))))
          \<and> (mdl_ProviderID mdl_plan = mdl_ProviderID mdl_state
              \<or> \<not> isl (uuid_Parse lib (ValueString (mdl_ProviderID mdl_plan))))
          \<and> mu_Default mdl_req
            = (if mdl_Default mdl_plan = mdl_Default mdl_state then zero_OptNil False
               else NewOptNil (ValueBool (mdl_Default mdl_plan))))
   \<and> (uuid_Parse lib (ValueString (dp_ID dp_state)) = Inr dp_id
        \<and> DiscoveryProviderResource_Update_request js dp_plan dp_state = Inr dp_req
      \<longrightarrow> Calls (DiscoveryProviderResource_Update js lib dp_client dp_plan dp_state)
            = [Call_UpdateConfiguredProvider dp_req dp_id]
          \<and> cu_Name dp_req
            = (if dp_Name dp_plan = dp_Name dp_state then zero_OptNil []
               else NewOptNil (ValueString (dp_Name dp_plan)))
          \<and> cu_Enabled dp_req
            = (if dp_Enabled dp_plan = dp_Enabled dp_state then zero_OptNil False
               else NewOptNil (ValueBool (dp_Enabled dp_plan)))
          \<and> cu_Interval dp_req
            = (if dp_Interval dp_plan = dp_Interval dp_state then zero_OptNil 0
               else NewOptNil (ValueInt64 (dp_Interval dp_plan)))
          \<and> cu_Config dp_req
            = (if dp_Config dp_plan = dp_Config dp_state then zero_OptNil fmempty
               else NewOptNil (projr (parse_config js (ValueString (dp_Config dp_plan)))))
          \<and> (dp_Config dp_plan = dp_Config dp_state
              \<or> \<not> isl (parse_config js (ValueString (dp_Config dp_plan)))))
   \<and> (uuid_Parse lib (ValueString (mcp_ID mcp_plan)) = Inr mcp_id
        \<and> MCPEndpointResource_Update_request lib mcp_plan = Inr mcp_req
      \<longrightarrow> Calls (MCPEndpointResource_Update lib mcp_client mcp_plan mcp_state)
            = [Call_UpdateMcpendpoint mcp_req mcp_id]
          \<and> OptNil_Set (eu_Name mcp_req) = (\<not> IsNull (mcp_Name mcp_plan))
          \<and> OptNil_Set (eu_URL mcp_req) = (\<not> IsNull (mcp_URL mcp_plan))
          \<and> OptNil_Set (eu_Description mcp_req) = (\<not> IsNull (mcp_Description mcp_plan))
          \<and> OptNil_Set (eu_Headers mcp_req) = (\<not> IsNull (mcp_Headers mcp_plan))
          \<and> OptNil_Set (eu_DevgraphAuth mcp_req) = (\<not> IsNull (mcp_DevgraphAuth mcp_plan))
          \<and> OptNil_Set (eu_SupportsResources mcp_req)
            = (\<not> IsNull (mcp_SupportsResources mcp_plan))
          \<and> OptNil_Set (eu_Immutable mcp_req) = (\<not> IsNull (mcp_Immutable mcp_plan))
          \<and> OptNil_Set (eu_Active mcp_req) = (\<not> IsNull (mcp_Active mcp_plan))
          \<and> OptNil_Set (eu_OAuthServiceID mcp_req)
            = (\<not> IsNull (mcp_OAuthServiceID mcp_plan))
          \<and> OptNil_Set (eu_AllowedTools mcp_req) = (\<not> IsNull (mcp_AllowedTools mcp_plan))
          \<and> OptNil_Set (eu_DeniedTools mcp_req) = (\<not> IsNull (mcp_DeniedTools mcp_plan)))
   \<and> (uuid_Parse lib (ValueString (oa_ID oa_plan)) = Inr oa_id
        \<and> OAuthServiceResource_Update_request lib oa_plan = Inr oa_req
      \<longrightarrow> Calls (OAuthServiceResource_Update lib oa_client oa_plan oa_state)
            = [Call_UpdateOAuthService oa_req oa_id]
          \<and> OptNil_Set (ou_DisplayName oa_req) = (\<not> IsNull (oa_DisplayName oa_plan))
          \<and> OptNil_Set (ou_ClientID oa_req) = (\<not> IsNull (oa_ClientID oa_plan))
          \<and> OptNil_Set (ou_ClientSecret oa_req) = (\<not> IsNull (oa_ClientSecret oa_plan))
          \<and> OptNil_Set (ou_AuthorizationURL oa_req)
            = (\<not> IsNull (oa_AuthorizationURL oa_plan))
          \<and> OptNil_Set (ou_TokenURL oa_req) = (\<not> IsNull (oa_TokenURL oa_plan))
          \<and> OptNil_Set (ou_Description oa_req) = (\<not> IsNull (oa_Description oa_plan))
          \<and> OptNil_Set (ou_DefaultScopes oa_req)
            = (\<not> IsNull (oa_DefaultScopes oa_plan) \<and> \<not> IsUnknown (oa_DefaultScopes oa_plan))
          \<and> OptNil_Set (ou_SupportedGrantTypes oa_req)
            = (\<not> IsNull (oa_SupportedGrantTypes oa_plan)
               \<and> \<not> IsUnknown (oa_SupportedGrantTypes oa_plan))
          \<and> OptNil_Set (ou_UserinfoURL oa_req) = (\<not> IsNull (oa_UserinfoURL oa_plan))
          \<and> OptNil_Set (ou_IsActive oa_req) = (\<not> IsNull (oa_IsActive oa_plan))
          \<and> OptNil_Set (ou_IconURL oa_req) = (\<not> IsNull (oa_IconURL oa_plan))
          \<and> OptNil_Set (ou_HomepageURL oa_req) = (\<not> IsNull (oa_HomepageURL oa_plan)))"
proof (intro conjI impI, goal_cases)
  case 1
  show ?case by (simp add: ModelProviderResource_Update_request_def Equal_def)
next
  case 2
  then show ?case by (rule ModelProviderResource_Update_Calls)
next
  case 3
  then show ?case by (rule ModelResource_Update_Calls)
next
  case 4
  then show ?case by (rule ModelResource_Update_request_fields)
next
  case 5
  then show ?case by (rule ModelResource_Update_request_fields)
next
  case 6
  then show ?case using ModelResource_Update_request_fields(4) by blast
next
  case 7
  then show ?case by (rule ModelResource_Update_request_fields)
next
  case 8
  then show ?case by (elim conjE) (rule DiscoveryProviderResource_Update_Calls)
next
  case 9
  then show ?case by (elim conjE) (rule DiscoveryProviderResource_Update_request_fields)
next
  case 10
  then show ?case by (elim conjE) (rule DiscoveryProviderResource_Update_request_fields)
next
  case 11
  then show ?case by (elim conjE) (rule DiscoveryProviderResource_Update_request_fields)
next
  case 12
  then show ?case by (elim conjE) (rule DiscoveryProviderResource_Update_request_fields)
next
  case 13
  then show ?case using DiscoveryProviderResource_Update_request_fields(5) by blast
next
  case 14
  then show ?case by (elim conjE) (rule MCPEndpointResource_Update_Calls)
next
  case 15 then show ?case by (elim conjE) (rule MCPEndpointResource_Update_request_fields)
next
  case 16 then show ?case by (elim conjE) (rule MCPEndpointResource_Update_request_fields)
next
  case 17 then show ?case by (elim conjE) (rule MCPEndpointResource_Update_request_fields)
next
  case 18 then show ?case by (elim conjE) (rule MCPEndpointResource_Update_request_fields)
next
  case 19 then show ?case by (elim conjE) (rule MCPEndpointResource_Update_request_fields)
next
  case 20 then show ?case by (elim conjE) (rule MCPEndpointResource_Update_request_fields)
next
  case 21 then show ?case by (elim conjE) (rule MCPEndpointResource_Update_request_fields)
next
  case 22 then show ?case by (elim conjE) (rule MCPEndpointResource_Update_request_fields)
next
  case 23 then show ?case by (elim conjE) (rule MCPEndpointResource_Update_request_fields)
next
  case 24 then show ?case by (elim conjE) (rule MCPEndpointResource_Update_request_fields)
next
  case 25 then show ?case by (elim conjE) (rule MCPEndpointResource_Update_request_fields)
next
  case 26
  then show ?case by (elim conjE) (rule OAuthServiceResource_Update_Calls)
next
  case 27 then show ?case by (elim conjE) (rule OAuthServiceResource_Update_request_fields)
next
  case 28 then show ?case by (elim conjE) (rule OAuthServiceResource_Update_request_fields)
next
  case 29 then show ?case by (elim conjE) (rule OAuthServiceResource_Update_request_fields)
next
  case 30 then show ?case by (elim conjE) (rule OAuthServiceResource_Update_request_fields)
next
  case 31 then show ?case by (elim conjE) (rule OAuthServiceResource_Update_request_fields)
next
  case 32 then show ?case by (elim conjE) (rule OAuthServiceResource_Update_request_fields)
next
  case 33 then show ?case by (elim conjE) (rule OAuthServiceResource_Update_request_fields)
next
  case 34 then show ?case by (elim conjE) (rule OAuthServiceResource_Update_request_fields)
next
  case 35 then show ?case by (elim conjE) (rule OAuthServiceResource_Update_request_fields)
next
  case 36 then show ?case by (elim conjE) (rule OAuthServiceResource_Update_request_fields)
next
  case 37 then show ?case by (elim conjE) (rule OAuthServiceResource_Update_request_fields)
next
  case 38 then show ?case by (elim conjE) (rule OAuthServiceResource_Update_request_fields)
qed

theorem update_request_fields_witness:
  "Calls (ModelProviderResource_Update example_library
            (stub_ModelProviderClient (anthropic_response ''k1''))
            (example_model_provider\<lparr>mp_Name := TfValue ''p2''\<rparr>) example_model_provider)
     = [Call_UpdateModelprovider
          (ModelProviderResource_Update_request
             (example_model_provider\<lparr>mp_Name := TfValue ''p2''\<rparr>) example_model_provider) 1]
   \<and> ModelProviderResource_Update_request
        (example_model_provider\<lparr>mp_Name := TfValue ''p2''\<rparr>) example_model_provider
     = \<lparr>mpu_Name = NewOptNil ''p2'', mpu_APIKey = zero_OptNil [],
        mpu_Default = zero_OptNil False\<rparr>
   \<and> Calls (ModelResource_Update example_library (stub_ModelClient example_ModelResponse)
            (example_model\<lparr>mdl_Description := TfValue ''Claude''\<rparr>) example_model)
     = [Call_UpdateModel
          \<lparr>mu_Description = NewOptNil ''Claude'', mu_ProviderID = zero_OptNil 0,
           mu_Default = zero_OptNil False\<rparr> ''gpt-4'']
   \<and> Calls (DiscoveryProviderResource_Update example_json example_library
            (stub_DiscoveryProviderClient example_ConfiguredProviderResponse)
            (example_discovery_provider\<lparr>dp_Interval := TfValue 600\<rparr>)
            example_discovery_provider)
     = [Call_UpdateConfiguredProvider
          \<lparr>cu_Name = zero_OptNil [], cu_Enabled = zero_OptNil False,
           cu_Interval = NewOptNil 600, cu_Config = zero_OptNil fmempty\<rparr> 1]
   \<and> Calls (MCPEndpointResource_Update example_library
            (stub_MCPEndpointClient example_MCPEndpointResponse)
            example_mcp_endpoint (example_mcp_endpoint\<lparr>mcp_Name := TfValue ''old''\<rparr>))
     = [Call_UpdateMcpendpoint
          \<lparr>eu_Name = NewOptNil ''my-mcp-server'',
           eu_URL = NewOptNil ''https://mcp.example.com/v1'',
           eu_Description = zero_OptNil [], eu_Headers = NewOptNil fmempty,
           eu_DevgraphAuth = NewOptNil False, eu_SupportsResources = NewOptNil True,
           eu_Immutable = NewOptNil False, eu_Active = NewOptNil True,
           eu_OAuthServiceID = zero_OptNil 0, eu_AllowedTools = zero_OptNil [],
           eu_DeniedTools = zero_OptNil []\<rparr> 1]
   \<and> Calls (OAuthServiceResource_Update example_library
            (stub_OAuthServiceClient example_OAuthServiceResponse)
            example_oauth_service (example_oauth_service\<lparr>oa_IsActive := TfValue False\<rparr>))
     = [Call_UpdateOAuthService
          \<lparr>ou_DisplayName = NewOptNil ''GitHub'', ou_ClientID = NewOptNil ''client-1'',
           ou_ClientSecret = NewOptNil ''s3cret'',
           ou_AuthorizationURL = NewOptNil ''https://github.com/login/oauth/authorize'',
           ou_TokenURL = NewOptNil ''https://github.com/login/oauth/access_token'',
           ou_Description = zero_OptNil [], ou_DefaultScopes = NewOptNil [],
           ou_SupportedGrantTypes = NewOptNil [], ou_UserinfoURL = zero_OptNil [],
           ou_IsActive = NewOptNil True, ou_IconURL = zero_OptNil [],
           ou_HomepageURL = zero_OptNil []\<rparr> 1]"
proof -
  note T = update_request_fields [where lib = example_library and js = example_json]
  have mp_req: "ModelProviderResource_Update_request
        (example_model_provider\<lparr>mp_Name := TfValue ''p2''\<rparr>) example_model_provider
     = \<lparr>mpu_Name = NewOptNil ''p2'', mpu_APIKey = zero_OptNil [],
        mpu_Default = zero_OptNil False\<rparr>"
    using T [where mp_plan = "example_model_provider\<lparr>mp_Name := TfValue ''p2''\<rparr>"
               and mp_state = example_model_provider, THEN conjunct1]
    by (simp add: example_model_provider_def)
  have mp_call: "Calls (ModelProviderResource_Update example_library
            (stub_ModelProviderClient (anthropic_response ''k1''))
            (example_model_provider\<lparr>mp_Name := TfValue ''p2''\<rparr>) example_model_provider)
     = [Call_UpdateModelprovider
          (ModelProviderResource_Update_request
             (example_model_provider\<lparr>mp_Name := TfValue ''p2''\<rparr>) example_model_provider) 1]"
    by (rule T [THEN conjunct2, THEN conjunct1, THEN mp]) (rule example_identifiers)
  have mdl_req: "ModelResource_Update_request example_library
        (example_model\<lparr>mdl_Description := TfValue ''Claude''\<rparr>) example_model
     = Inr \<lparr>mu_Description = NewOptNil ''Claude'', mu_ProviderID = zero_OptNil 0,
            mu_Default = zero_OptNil False\<rparr>"
    by (simp add: ModelResource_Update_request_def Equal_def example_model_def)
  have mdl_call: "Calls (ModelResource_Update example_library
            (stub_ModelClient example_ModelResponse)
            (example_model\<lparr>mdl_Description := TfValue ''Claude''\<rparr>) example_model)
     = [Call_UpdateModel
          \<lparr>mu_Description = NewOptNil ''Claude'', mu_ProviderID = zero_OptNil 0,
           mu_Default = zero_OptNil False\<rparr> ''gpt-4'']"
    using T [where mdl_client = "stub_ModelClient example_ModelResponse",
             THEN conjunct2, THEN conjunct2, THEN conjunct1, THEN mp, OF mdl_req,
             THEN conjunct1]
    by (simp add: example_identifiers)
  have dp_req: "DiscoveryProviderResource_Update_request example_json
        (example_discovery_provider\<lparr>dp_Interval := TfValue 600\<rparr>) example_discovery_provider
     = Inr \<lparr>cu_Name = zero_OptNil [], cu_Enabled = zero_OptNil False,
            cu_Interval = NewOptNil 600, cu_Config = zero_OptNil fmempty\<rparr>"
    by (simp add: DiscoveryProviderResource_Update_request_def Equal_def
        example_discovery_provider_def)
  have dp_call: "Calls (DiscoveryProviderResource_Update example_json example_library
            (stub_DiscoveryProviderClient example_ConfiguredProviderResponse)
            (example_discovery_provider\<lparr>dp_Interval := TfValue 600\<rparr>)
            example_discovery_provider)
     = [Call_UpdateConfiguredProvider
          \<lparr>cu_Name = zero_OptNil [], cu_Enabled = zero_OptNil False,
           cu_Interval = NewOptNil 600, cu_Config = zero_OptNil fmempty\<rparr> 1]"
    by (rule T [THEN conjunct2, THEN conjunct2, THEN conjunct2, THEN conjunct1, THEN mp,
                THEN conjunct1])
       (simp add: dp_req example_identifiers)
  have mcp_req: "MCPEndpointResource_Update_request example_library example_mcp_endpoint
     = Inr \<lparr>eu_Name = NewOptNil ''my-mcp-server'',
           eu_URL = NewOptNil ''https://mcp.example.com/v1'',
           eu_Description = zero_OptNil [], eu_Headers = NewOptNil fmempty,
           eu_DevgraphAuth = NewOptNil False, eu_SupportsResources = NewOptNil True,
           eu_Immutable = NewOptNil False, eu_Active = NewOptNil True,
           eu_OAuthServiceID = zero_OptNil 0, eu_AllowedTools = zero_OptNil [],
           eu_DeniedTools = zero_OptNil []\<rparr>"
    by (simp add: MCPEndpointResource_Update_request_def optional_headers_def
        optional_uuid_def optional_tools_def example_mcp_endpoint_def)
  have mcp_call: "Calls (MCPEndpointResource_Update example_library
            (stub_MCPEndpointClient example_MCPEndpointResponse)
            example_mcp_endpoint (example_mcp_endpoint\<lparr>mcp_Name := TfValue ''old''\<rparr>))
     = [Call_UpdateMcpendpoint
          \<lparr>eu_Name = NewOptNil ''my-mcp-server'',
           eu_URL = NewOptNil ''https://mcp.example.com/v1'',
           eu_Description = zero_OptNil [], eu_Headers = NewOptNil fmempty,
           eu_DevgraphAuth = NewOptNil False, eu_SupportsResources = NewOptNil True,
           eu_Immutable = NewOptNil False, eu_Active = NewOptNil True,
           eu_OAuthServiceID = zero_OptNil 0, eu_AllowedTools = zero_OptNil [],
           eu_DeniedTools = zero_OptNil []\<rparr> 1]"
    by (rule T [THEN conjunct2, THEN conjunct2, THEN conjunct2, THEN conjunct2,
                THEN conjunct1, THEN mp, THEN conjunct1])
       (simp add: mcp_req example_identifiers)
  have oa_req: "OAuthServiceResource_Update_request example_library example_oauth_service
     = Inr \<lparr>ou_DisplayName = NewOptNil ''GitHub'', ou_ClientID = NewOptNil ''client-1'',
           ou_ClientSecret = NewOptNil ''s3cret'',
           ou_AuthorizationURL = NewOptNil ''https://github.com/login/oauth/authorize'',
           ou_TokenURL = NewOptNil ''https://github.com/login/oauth/access_token'',
           ou_Description = zero_OptNil [], ou_DefaultScopes = NewOptNil [],
           ou_SupportedGrantTypes = NewOptNil [], ou_UserinfoURL = zero_OptNil [],
           ou_IsActive = NewOptNil True, ou_IconURL = zero_OptNil [],
           ou_HomepageURL = zero_OptNil []\<rparr>"
    by (simp add: OAuthServiceResource_Update_request_def optional_url_def
        optional_list_def example_library_def example_oauth_service_def)
  have oa_call: "Calls (OAuthServiceResource_Update example_library
            (stub_OAuthServiceClient example_OAuthServiceResponse)
            example_oauth_service (example_oauth_service\<lparr>oa_IsActive := TfValue False\<rparr>))
     = [Call_UpdateOAuthService
          \<lparr>ou_DisplayName = NewOptNil ''GitHub'', ou_ClientID = NewOptNil ''client-1'',
           ou_ClientSecret = NewOptNil ''s3cret'',
           ou_AuthorizationURL = NewOptNil ''https://github.com/login/oauth/authorize'',
           ou_TokenURL = NewOptNil ''https://github.com/login/oauth/access_token'',
           ou_Description = zero_OptNil [], ou_DefaultScopes = NewOptNil [],
           ou_SupportedGrantTypes = NewOptNil [], ou_UserinfoURL = zero_OptNil [],
           ou_IsActive = NewOptNil True, ou_IconURL = zero_OptNil [],
           ou_HomepageURL = zero_OptNil []\<rparr> 1]"
    by (rule T [THEN conjunct2, THEN conjunct2, THEN conjunct2, THEN conjunct2,
                THEN conjunct2, THEN mp, THEN conjunct1])
       (simp add: oa_req example_identifiers)
  show ?thesis
    by (intro conjI mp_call mp_req mdl_call dp_call mcp_call oa_call)
qed

text \<open>
  C1 as stated fails on the MCP endpoint: with a plan equal to the prior state,
  \<^verbatim>\<open>Update\<close> sends the name, the URL, the headers and the four booleans all the same.
\<close>

theorem mcp_endpoint_update_sends_unchanged_fields:
  "Calls (MCPEndpointResource_Update example_library
            (stub_MCPEndpointClient example_MCPEndpointResponse)
            example_mcp_endpoint example_mcp_endpoint)
     = [Call_UpdateMcpendpoint
          \<lparr>eu_Name = \<lparr>OptNil_Value = ''my-mcp-server'', OptNil_Set = True,
                       OptNil_Null = False\<rparr>,
           eu_URL = \<lparr>OptNil_Value = ''https://mcp.example.com/v1'', OptNil_Set = True,
                      OptNil_Null = False\<rparr>,
           eu_Description = zero_OptNil [], eu_Headers = NewOptNil fmempty,
           eu_DevgraphAuth = NewOptNil False, eu_SupportsResources = NewOptNil True,
           eu_Immutable = NewOptNil False, eu_Active = NewOptNil True,
           eu_OAuthServiceID = zero_OptNil 0, eu_AllowedTools = zero_OptNil [],
           eu_DeniedTools = zero_OptNil []\<rparr> 1]"
  by (simp add: example_mcp_endpoint_updated NewOptNil_def)

section \<open>Secret fields after a merge\<close>




end
